theory Spec2Isabelle
  imports Main "HOL-Library.Sublist"
begin

section \<open>Python string operations used by \<open>factory.py\<close>\<close>

text \<open>
  Strings are lists of 8-bit characters. \<open>str.lower\<close> is modelled on the ASCII letters
  (\<open>A\<close>..\<open>Z\<close>), which is where it acts on the file names and extensions of the registry.
\<close>

definition lower_char :: "char \<Rightarrow> char" where
  "lower_char c =
     (case map_of (zip ''ABCDEFGHIJKLMNOPQRSTUVWXYZ'' ''abcdefghijklmnopqrstuvwxyz'') c of
        Some l \<Rightarrow> l
      | None \<Rightarrow> c)"

definition lower :: "string \<Rightarrow> string" where
  "lower s = map lower_char s"

definition startswith :: "string \<Rightarrow> string \<Rightarrow> bool" where
  "startswith s p = (take (length p) s = p)"

definition endswith :: "string \<Rightarrow> string \<Rightarrow> bool" where
  "endswith s p = (length p \<le> length s \<and> drop (length s - length p) s = p)"

text \<open>\<open>split_once sep s\<close> cuts \<open>s\<close> at the first occurrence of the separator.\<close>

fun split_once :: "string \<Rightarrow> string \<Rightarrow> (string \<times> string) option" where
  "split_once sep [] = None"
| "split_once sep (c # cs) =
     (if startswith (c # cs) sep then Some ([], drop (length sep) (c # cs))
      else (case split_once sep cs of
              None \<Rightarrow> None
            | Some (a, b) \<Rightarrow> Some (c # a, b)))"

text \<open>\<open>s.split(sep, 1)\<close> for a non-empty separator.\<close>

definition py_split1 :: "string \<Rightarrow> string \<Rightarrow> string list" where
  "py_split1 s sep = (case split_once sep s of None \<Rightarrow> [s] | Some (a, b) \<Rightarrow> [a, b])"

text \<open>\<open>sub in s\<close> for a non-empty \<open>sub\<close>.\<close>

definition contains :: "string \<Rightarrow> string \<Rightarrow> bool" where
  "contains sub s = (split_once sub s \<noteq> None)"

text \<open>\<open>s.rstrip(c)\<close> for a single character.\<close>

definition rstrip :: "string \<Rightarrow> char \<Rightarrow> string" where
  "rstrip s c = rev (dropWhile (\<lambda>x. x = c) (rev s))"

text \<open>\<open>s.rsplit('.', maxsplit=1)[0]\<close>: everything before the last dot, or all of \<open>s\<close>.\<close>

definition rsplit1_head :: "string \<Rightarrow> string" where
  "rsplit1_head s =
     (if CHR ''.'' \<in> set s then rev (tl (dropWhile (\<lambda>x. x \<noteq> CHR ''.'') (rev s))) else s)"

text \<open>\<open>os.path.basename\<close> (POSIX): everything after the last slash.\<close>

definition basename :: "string \<Rightarrow> string" where
  "basename p = rev (takeWhile (\<lambda>x. x \<noteq> CHR ''/'') (rev p))"

section \<open>Values, sources, mount sources and exceptions\<close>

text \<open>Values of the keyword options (\<open>**options\<close>).\<close>

datatype pyval = PNone | PBool bool | PInt int | PStr string | PList "string list"

type_synonym options = "string \<rightharpoonup> pyval"

text \<open>Python truthiness of an option value.\<close>

fun truthy :: "pyval \<Rightarrow> bool" where
  "truthy PNone = False"
| "truthy (PBool b) = b"
| "truthy (PInt n) = (n \<noteq> 0)"
| "truthy (PStr s) = (s \<noteq> [])"
| "truthy (PList xs) = (xs \<noteq> [])"

text \<open>
  \<open>int(options.get("printDebug", 0)) if isinstance(options.get("printDebug", 0), int) else 0\<close>;
  \<open>bool\<close> is a subclass of \<open>int\<close>.
\<close>

definition get_printDebug :: "options \<Rightarrow> int" where
  "get_printDebug opts =
     (case opts ''printDebug'' of
        Some (PInt n) \<Rightarrow> n
      | Some (PBool b) \<Rightarrow> (if b then 1 else 0)
      | _ \<Rightarrow> 0)"

text \<open>
  A file object (\<open>IO[bytes]\<close>): one handed in or opened by a collaborator, or the joined
  view of a shard list built by \<open>JoinedFileFromFactory\<close>.
\<close>

datatype fileobj = Handle nat | JoinedFileFromFactory "string list"

text \<open>\<open>Union[str, IO[bytes]]\<close>\<close>

datatype source = Path string | File fileobj

fun is_str :: "source \<Rightarrow> bool" where
  "is_str (Path p) = True"
| "is_str (File f) = False"

datatype filesystem =
    FixedSSHFileSystem string
  | WebdavFileSystem string "(string \<times> string) option"
  | FixedDropboxDriveFileSystem string
  | UrlFileSystem nat

text \<open>The classes whose constructors the backend open-functions call.\<close>

datatype ctor =
    RarMountSource | SQLiteIndexedTar | ZipMountSource | Py7zrMountSource
  | LibarchiveMountSource | SquashFSMountSource | FATMountSource | EXT4MountSource
  | SQLARMountSource | SQLiteIndexMountSource

datatype mount =
    FolderMountSource string
  | SingleFileMountSource string fileobj
  | FSSpecMountSource filesystem string
  | GitMountSource "string option" "string option" string
  | Archive ctor nat

text \<open>Instances of Python's \<open>Exception\<close>: the two classes of \<open>utils\<close> and any other.\<close>

datatype exn = RatarmountError string | CompressionError string | OtherException string

fun str_exn :: "exn \<Rightarrow> string" where
  "str_exn (RatarmountError m) = m"
| "str_exn (CompressionError m) = m"
| "str_exn (OtherException m) = m"

text \<open>What \<open>tryOpenURL\<close> returns: \<open>Union[MountSource, IO[bytes], str]\<close>.\<close>

datatype opened = OpenedMount mount | OpenedFile fileobj | OpenedPath string

section \<open>State: the outside world, the printed lines, the calls made\<close>

text \<open>
  The world outside holds the read position of every file object and whatever else the
  collaborators depend on. Collaborators only see and change the world.
\<close>

record 'w world =
  pos :: "fileobj \<Rightarrow> nat"
  other :: 'w

datatype line = Print string | Traceback

text \<open>
  Every call that leaves \<open>factory.py\<close> is recorded, in order, with its arguments. A
  \<open>Probe\<close> is one invocation of a backend's open-function by the trial loop, with the
  source and options it received and the position of the source at that moment.
\<close>

datatype event =
    Probe string source options "nat option"
  | Outcome string "exn + mount option"
  | Construct ctor source options
  | Check string source
  | Seek fileobj nat
  | Read fileobj nat
  | Git string "string option" "string option" string
  | SSH string string
  | UrlToFs string
  | HTTPSConnection string
  | Fs string filesystem string

record 'w st =
  world :: "'w world"
  out :: "line list"
  trace :: "event list"

type_synonym ('w, 'a) ext = "'w world \<Rightarrow> (exn + 'a) \<times> 'w world"

type_synonym ('w, 'a) action = "'w st \<Rightarrow> (exn + 'a) \<times> 'w st"

definition ret :: "'a \<Rightarrow> ('w, 'a) action" where
  "ret a = (\<lambda>s. (Inr a, s))"

definition raise :: "exn \<Rightarrow> ('w, 'a) action" where
  "raise e = (\<lambda>s. (Inl e, s))"

definition bnd :: "('w, 'a) action \<Rightarrow> ('a \<Rightarrow> ('w, 'b) action) \<Rightarrow> ('w, 'b) action" where
  "bnd m f = (\<lambda>s. case m s of (Inl e, s') \<Rightarrow> (Inl e, s') | (Inr a, s') \<Rightarrow> f a s')"

text \<open>\<open>try: m except Exception as e: h e\<close>\<close>

definition catch :: "('w, 'a) action \<Rightarrow> (exn \<Rightarrow> ('w, 'a) action) \<Rightarrow> ('w, 'a) action" where
  "catch m h = (\<lambda>s. case m s of (Inl e, s') \<Rightarrow> h e s' | (Inr a, s') \<Rightarrow> (Inr a, s'))"

text \<open>\<open>try: m finally: fin\<close>: \<open>fin\<close> always runs; what it raises replaces the outcome of \<open>m\<close>.\<close>

definition finally_do :: "('w, 'a) action \<Rightarrow> ('w, unit) action \<Rightarrow> ('w, 'a) action" where
  "finally_do m fin =
     (\<lambda>s. case m s of (r, s') \<Rightarrow>
            (case fin s' of (Inl e, s'') \<Rightarrow> (Inl e, s'') | (Inr _, s'') \<Rightarrow> (r, s'')))"

text \<open>\<open>if c: print(l)\<close>\<close>

definition print_if :: "bool \<Rightarrow> line \<Rightarrow> ('w, unit) action" where
  "print_if c l = (\<lambda>s. (Inr (), if c then s\<lparr>out := out s @ [l]\<rparr> else s))"

text \<open>A call of a collaborator: it acts on the world, and the call is recorded.\<close>

definition call :: "event \<Rightarrow> ('w, 'a) ext \<Rightarrow> ('w, 'a) action" where
  "call ev f =
     (\<lambda>s. case f (world s) of (r, w) \<Rightarrow> (r, s\<lparr>world := w, trace := trace s @ [ev]\<rparr>))"

section \<open>The collaborators\<close>

text \<open>
  What \<open>factory.py\<close> imports and does not define is a parameter: the tables of
  \<open>compressions\<close>, the optional modules (present or \<open>None\<close>), the format checks, the
  constructors of the mount sources, the split-file detector, \<open>os.path\<close>, the methods of
  file objects, and the transports behind \<open>tryOpenURL\<close>.
\<close>

record compression_info =
  suffixes :: "string list"
  doubleSuffixes :: "string list"
  modules :: "string list"

record 'w transports =
  GitMountSource_enabled :: bool
  git_construct :: "string option \<Rightarrow> string option \<Rightarrow> ('w, unit) ext"
  git_getFileInfo :: "string option \<Rightarrow> string option \<Rightarrow> string \<Rightarrow> ('w, nat option) ext"
  git_open :: "string option \<Rightarrow> string option \<Rightarrow> string \<Rightarrow> ('w, fileobj) ext"
  sshfs :: bool
  ssh_connect :: "string \<Rightarrow> ('w, unit) ext"
  infer_storage_options_path :: "string \<Rightarrow> string"
  fsspec :: bool
  python_before_3_9 :: bool
  url_to_fs :: "string \<Rightarrow> ('w, filesystem \<times> string) ext"
  webdav4 :: bool
  environ :: "string \<rightharpoonup> string"
  https_head :: "string \<Rightarrow> ('w, bool) ext"
  dropboxdrivefs :: bool
  isHTTPFileSystem :: "filesystem \<Rightarrow> bool"
  fs_info_mimetype :: "filesystem \<Rightarrow> string \<Rightarrow> ('w, string option) ext"
  fs_isdir :: "filesystem \<Rightarrow> string \<Rightarrow> ('w, bool) ext"
  fs_isfile :: "filesystem \<Rightarrow> string \<Rightarrow> ('w, bool) ext"
  fs_exists :: "filesystem \<Rightarrow> string \<Rightarrow> ('w, bool) ext"
  fs_open :: "filesystem \<Rightarrow> string \<Rightarrow> ('w, fileobj) ext"

record 'w env =
  TAR_COMPRESSION_FORMATS :: "(string \<times> compression_info) list"
  supportedCompressions :: "(string \<times> compression_info) list"
  rarfile :: bool
  zipfile :: bool
  py7zr :: bool
  libarchive :: bool
  PySquashfsImage :: bool
  is_rarfile_sfx :: "source \<Rightarrow> ('w, bool) ext"
  is_zipfile :: "source \<Rightarrow> ('w, bool) ext"
  is_7zfile :: "source \<Rightarrow> ('w, bool) ext"
  isSquashFS :: "source \<Rightarrow> ('w, bool) ext"
  construct :: "ctor \<Rightarrow> source \<Rightarrow> options \<Rightarrow> ('w, mount) ext"
  checkForSplitFile :: "string \<Rightarrow> 'w world \<Rightarrow> string list option"
  os_path_exists :: "string \<Rightarrow> 'w world \<Rightarrow> bool"
  os_path_isdir :: "string \<Rightarrow> 'w world \<Rightarrow> bool"
  os_path_realpath :: "string \<Rightarrow> 'w world \<Rightarrow> string"
  hasattr_seek :: "fileobj \<Rightarrow> bool"
  seek_error :: "fileobj \<Rightarrow> nat \<Rightarrow> 'w world \<Rightarrow> exn option"
  read_bytes :: "fileobj \<Rightarrow> nat \<Rightarrow> ('w, unit) ext"
  str_file :: "fileobj \<Rightarrow> string"
  transports :: "'w transports"

text \<open>\<open>hasattr(fileOrPath, 'seek')\<close>: a \<open>str\<close> has no such attribute.\<close>

fun has_seek :: "'w env \<Rightarrow> source \<Rightarrow> bool" where
  "has_seek env (Path p) = False"
| "has_seek env (File f) = hasattr_seek env f"

text \<open>\<open>f.seek(n)\<close>: it raises, or the position of \<open>f\<close> becomes \<open>n\<close>.\<close>

definition seek :: "'w env \<Rightarrow> fileobj \<Rightarrow> nat \<Rightarrow> ('w, unit) action" where
  "seek env f n =
     call (Seek f n)
       (\<lambda>w. case seek_error env f n w of
               Some e \<Rightarrow> (Inl e, w)
             | None \<Rightarrow> (Inr (), w\<lparr>pos := (pos w)(f := n)\<rparr>))"

text \<open>\<open>str(fileOrPath)\<close>\<close>

fun str_source :: "'w env \<Rightarrow> source \<Rightarrow> string" where
  "str_source env (Path p) = p"
| "str_source env (File f) = str_file env f"

text \<open>The position of a source, for the record of a probe: a path has none.\<close>

fun position_of :: "'w world \<Rightarrow> source \<Rightarrow> nat option" where
  "position_of w (Path p) = None"
| "position_of w (File f) = Some (pos w f)"

section \<open>The backend open-functions\<close>

definition openRarMountSource :: "'w env \<Rightarrow> source \<Rightarrow> options \<Rightarrow> ('w, mount option) action" where
  "openRarMountSource env fileOrPath options =
     (if rarfile env then
        bnd (call (Check ''is_rarfile_sfx'' fileOrPath) (is_rarfile_sfx env fileOrPath)) (\<lambda>b.
          if b then
            bnd (call (Construct RarMountSource fileOrPath options)
                   (construct env RarMountSource fileOrPath options)) (\<lambda>m. ret (Some m))
          else ret None)
      else ret None)"

text \<open>
  \<open>_openTarMountSource\<close>: with a path and a \<open>tarFileName\<close> option, the constructor gets a
  copy of the options without that key.
\<close>

definition openTarMountSource :: "'w env \<Rightarrow> source \<Rightarrow> options \<Rightarrow> ('w, mount option) action" where
  "openTarMountSource env fileOrPath options =
     (if is_str fileOrPath then
        if ''tarFileName'' \<in> dom options then
          (let copiedOptions = options;
               copiedOptions = copiedOptions(''tarFileName'' := None)
           in bnd (call (Construct SQLiteIndexedTar fileOrPath copiedOptions)
                     (construct env SQLiteIndexedTar fileOrPath copiedOptions)) (\<lambda>m. ret (Some m)))
        else
          bnd (call (Construct SQLiteIndexedTar fileOrPath options)
                 (construct env SQLiteIndexedTar fileOrPath options)) (\<lambda>m. ret (Some m))
      else
        bnd (call (Construct SQLiteIndexedTar fileOrPath options)
               (construct env SQLiteIndexedTar fileOrPath options)) (\<lambda>m. ret (Some m)))"

definition openZipMountSource :: "'w env \<Rightarrow> source \<Rightarrow> options \<Rightarrow> ('w, mount option) action" where
  "openZipMountSource env fileOrPath options =
     (if zipfile env then
        bnd (call (Check ''is_zipfile'' fileOrPath) (is_zipfile env fileOrPath)) (\<lambda>b.
          if b then
            bnd (call (Construct ZipMountSource fileOrPath options)
                   (construct env ZipMountSource fileOrPath options)) (\<lambda>m. ret (Some m))
          else ret None)
      else ret None)"

definition openPy7zrMountSource :: "'w env \<Rightarrow> source \<Rightarrow> options \<Rightarrow> ('w, mount option) action" where
  "openPy7zrMountSource env fileOrPath options =
     (if py7zr env then
        bnd (call (Check ''is_7zfile'' fileOrPath) (is_7zfile env fileOrPath)) (\<lambda>b.
          if b then
            bnd (call (Construct Py7zrMountSource fileOrPath options)
                   (construct env Py7zrMountSource fileOrPath options)) (\<lambda>m. ret (Some m))
          else ret None)
      else ret None)"

text \<open>
  The reset of the position that the trial loop and the libarchive backend share:
  \<open>try: if hasattr(fileOrPath, 'seek'): fileOrPath.seek(0)\<close>, with the exception of the
  seek printed at verbosity 1 and its traceback at 2, and swallowed.
\<close>

definition seek_back :: "'w env \<Rightarrow> int \<Rightarrow> source \<Rightarrow> ('w, unit) action" where
  "seek_back env printDebug fileOrPath =
     catch
       (case fileOrPath of
          File f \<Rightarrow> if has_seek env fileOrPath then seek env f 0 else ret ()
        | Path p \<Rightarrow> ret ())
       (\<lambda>seekException.
          bnd (print_if (printDebug \<ge> 1)
                 (Print (''[Info] seek(0) raised an exception: '' @ str_exn seekException))) (\<lambda>_.
          print_if (printDebug \<ge> 2) Traceback))"

text \<open>
  \<open>_openLibarchiveMountSource\<close>: the \<open>finally\<close> clause resets the position whether the
  constructor returned or raised.
\<close>

definition openLibarchiveMountSource :: "'w env \<Rightarrow> source \<Rightarrow> options \<Rightarrow> ('w, mount option) action" where
  "openLibarchiveMountSource env fileOrPath options =
     (if \<not> libarchive env then ret None
      else
        (let printDebug = get_printDebug options in
         finally_do
           (catch
              (bnd (print_if (printDebug \<ge> 2)
                      (Print ''[Info] Trying to open archive with libarchive backend.'')) (\<lambda>_.
               bnd (call (Construct LibarchiveMountSource fileOrPath options)
                      (construct env LibarchiveMountSource fileOrPath options)) (\<lambda>m. ret (Some m))))
              (\<lambda>exception.
                 bnd (print_if (printDebug \<ge> 2)
                        (Print (''[Info] Checking for libarchive file raised an exception: ''
                                @ str_exn exception))) (\<lambda>_.
                 bnd (print_if (printDebug \<ge> 3) Traceback) (\<lambda>_. ret None))))
           (seek_back env printDebug fileOrPath)))"

definition openPySquashfsImage :: "'w env \<Rightarrow> source \<Rightarrow> options \<Rightarrow> ('w, mount option) action" where
  "openPySquashfsImage env fileOrPath options =
     (if PySquashfsImage env then
        bnd (if is_str fileOrPath then ret True
             else call (Check ''isSquashFS'' fileOrPath) (isSquashFS env fileOrPath)) (\<lambda>b.
          if b then
            bnd (call (Construct SquashFSMountSource fileOrPath options)
                   (construct env SquashFSMountSource fileOrPath options)) (\<lambda>m. ret (Some m))
          else ret None)
      else ret None)"

text \<open>\<open>_openFATImage\<close>, \<open>_openEXT4Image\<close>, \<open>_openSqlar\<close>, \<open>_openRatarmountIndex\<close>\<close>

definition openWith :: "ctor \<Rightarrow> 'w env \<Rightarrow> source \<Rightarrow> options \<Rightarrow> ('w, mount option) action" where
  "openWith c env fileOrPath options =
     bnd (call (Construct c fileOrPath options) (construct env c fileOrPath options))
       (\<lambda>m. ret (Some m))"

section \<open>The registry\<close>

text \<open>\<open>_getTarExtensions\<close>\<close>

definition getTarExtensions :: "'w env \<Rightarrow> string list" where
  "getTarExtensions env =
     [''tar'']
     @ concat (map (\<lambda>compression. map (\<lambda>suffix. ''tar.'' @ suffix) (suffixes compression))
                 (map snd (TAR_COMPRESSION_FORMATS env)))
     @ concat (map doubleSuffixes (map snd (TAR_COMPRESSION_FORMATS env)))"

definition getFormatExtensions :: "'w env \<Rightarrow> string \<Rightarrow> string list" where
  "getFormatExtensions env formatName =
     (case map_of (supportedCompressions env) formatName of
        Some info \<Rightarrow> suffixes info
      | None \<Rightarrow> [])"

text \<open>
  \<open>_BACKENDS\<close>: a dictionary, so its keys are in the order of the literal. Each backend has
  its open-function and the extensions for which it is tried first.
\<close>

definition BACKENDS ::
  "'w env \<Rightarrow> (string \<times> ((source \<Rightarrow> options \<Rightarrow> ('w, mount option) action) \<times> string list)) list" where
  "BACKENDS env =
     [(''rarfile'', (openRarMountSource env, getFormatExtensions env ''rar'')),
      (''tarfile'', (openTarMountSource env, getTarExtensions env)),
      (''zipfile'', (openZipMountSource env, getFormatExtensions env ''zip'')),
      (''pysquashfsimage'', (openPySquashfsImage env, getFormatExtensions env ''squashfs'')),
      (''libarchive'',
         (openLibarchiveMountSource env,
          concat (map suffixes
                    (filter (\<lambda>info. \<exists>m \<in> set (modules info). contains ''libarchive'' m)
                       (map snd (supportedCompressions env)))))),
      (''py7zr'', (openPy7zrMountSource env, getFormatExtensions env ''7z'')),
      (''pyfatfs'', (openWith FATMountSource env, getFormatExtensions env ''fat'')),
      (''ext4'', (openWith EXT4MountSource env, getFormatExtensions env ''ext4'')),
      (''sqlar'', (openWith SQLARMountSource env, getFormatExtensions env ''sqlar'')),
      (''SQLiteIndex'', (openWith SQLiteIndexMountSource env, getFormatExtensions env ''ratarmount-index''))]"

text \<open>\<open>matchesExtension\<close>\<close>

definition matchesExtension :: "string \<Rightarrow> string list \<Rightarrow> bool" where
  "matchesExtension fileName extensions =
     (\<exists>extension \<in> set extensions. endswith (lower fileName) (''.'' @ lower extension))"

section \<open>Resolving a URL\<close>

text \<open>\<open>stat.S_ISDIR(mode)\<close>: \<open>(mode & 0o170000) == 0o040000\<close>\<close>

definition S_ISDIR :: "nat \<Rightarrow> bool" where
  "S_ISDIR mode = ((mode div 4096) mod 16 = 4)"

definition openGitMountSource :: "'w env \<Rightarrow> string \<Rightarrow> ('w, opened) action" where
  "openGitMountSource env url =
     (let splitURI = py_split1 url ''://'' in
      if length splitURI \<le> 1 \<or> splitURI ! 0 \<noteq> ''git'' then
        raise (RatarmountError ''Expected URL starting with git://'')
      else if \<not> GitMountSource_enabled (transports env) then
        raise (RatarmountError
          (''Detected git:// URL but GitMountSource could not be loaded. ''
           @ ''Please ensure that pygit2 is installed.''))
      else
        (let splitRepositoryPath = py_split1 (splitURI ! 1) '':'';
             repositoryPath =
               (if length splitRepositoryPath > 1 then Some (splitRepositoryPath ! 0) else None);
             remainder = last splitRepositoryPath;
             splitReference = py_split1 remainder ''@'';
             reference = (if length splitReference > 1 then Some (splitReference ! 0) else None);
             pathInsideRepository = last splitReference
         in bnd (call (Git ''GitMountSource'' repositoryPath reference [])
                   (git_construct (transports env) repositoryPath reference)) (\<lambda>_.
            if pathInsideRepository \<noteq> [] then
              bnd (call (Git ''getFileInfo'' repositoryPath reference pathInsideRepository)
                     (git_getFileInfo (transports env) repositoryPath reference pathInsideRepository))
                (\<lambda>fileInfo.
                   case fileInfo of
                     None \<Rightarrow>
                       raise (RatarmountError
                         (''The path '' @ pathInsideRepository
                          @ '' in the git repository specified via '' @ [CHR 0x27] @ url
                          @ [CHR 0x27] @ '' does not exist!''))
                   | Some mode \<Rightarrow>
                       if S_ISDIR mode then
                         ret (OpenedMount (GitMountSource repositoryPath reference pathInsideRepository))
                       else
                         bnd (call (Git ''open'' repositoryPath reference pathInsideRepository)
                                (git_open (transports env) repositoryPath reference pathInsideRepository))
                           (\<lambda>f. ret (OpenedFile f)))
            else ret (OpenedMount (GitMountSource repositoryPath reference [])))))"

definition openSSHFSMountSource :: "'w env \<Rightarrow> string \<Rightarrow> ('w, opened) action" where
  "openSSHFSMountSource env url =
     (if \<not> sshfs (transports env) then
        raise (RatarmountError
          ''Cannot open with sshfs module because it seems to not be installed!'')
      else
        bnd (call (SSH ''FixedSSHFileSystem'' url) (ssh_connect (transports env) url)) (\<lambda>_.
          (let fs = FixedSSHFileSystem url;
               path = infer_storage_options_path (transports env) url;
               path = (if startswith path ''/'' then drop 1 path else path);
               path = (if path = [] then ''.'' else path)
           in bnd (call (Fs ''exists'' fs path) (fs_exists (transports env) fs path)) (\<lambda>there.
                if \<not> there then
                  raise (RatarmountError
                    (''Cannot open URL: '' @ url @ '' because the remote path: '' @ path
                     @ '' does not exist!''))
                else
                  bnd (call (Fs ''isfile'' fs path) (fs_isfile (transports env) fs path)) (\<lambda>isfile.
                    if isfile then
                      bnd (call (Fs ''open'' fs path) (fs_open (transports env) fs path))
                        (\<lambda>f. ret (OpenedFile f))
                    else ret (OpenedMount (FSSpecMountSource fs path)))))))"

text \<open>
  \<open>re.match("(?:([^:/]*):([^@/]*)@)?([^/]*)(.*)", s).groups()\<close>. The pattern matches every
  string: the optional group is taken when the longest run without colon or slash is
  followed by a colon, and the longest run after it without at-sign or slash by an at-sign.
\<close>

definition webdav_groups :: "string \<Rightarrow> string option \<times> string option \<times> string \<times> string" where
  "webdav_groups s =
     (let user = takeWhile (\<lambda>c. c \<noteq> CHR '':'' \<and> c \<noteq> CHR ''/'') s;
          rest1 = dropWhile (\<lambda>c. c \<noteq> CHR '':'' \<and> c \<noteq> CHR ''/'') s;
          pw = takeWhile (\<lambda>c. c \<noteq> CHR ''@'' \<and> c \<noteq> CHR ''/'') (drop 1 rest1);
          rest2 = dropWhile (\<lambda>c. c \<noteq> CHR ''@'' \<and> c \<noteq> CHR ''/'') (drop 1 rest1);
          withAuth = (startswith rest1 '':'' \<and> startswith rest2 ''@'');
          tail = (if withAuth then drop 1 rest2 else s);
          baseURL = takeWhile (\<lambda>c. c \<noteq> CHR ''/'') tail;
          path = takeWhile (\<lambda>c. c \<noteq> CHR 0x0A) (dropWhile (\<lambda>c. c \<noteq> CHR ''/'') tail)
      in (if withAuth then Some user else None, if withAuth then Some pw else None, baseURL, path))"

text \<open>
  The Dropbox path of \<open>tryOpenURL\<close>: a leading slash is added to a non-empty path, then
  the trailing slashes are stripped.
\<close>

definition dropbox_path :: "string \<Rightarrow> string" where
  "dropbox_path p =
     (let path = p;
          path = (if path \<noteq> [] \<and> \<not> startswith path ''/'' then ''/'' @ path else path)
      in rstrip path CHR ''/'')"

text \<open>
  The end of \<open>tryOpenURL\<close>, once the file system and the path are known: a directory
  becomes a mount source, a file is opened and its seeking checked.
\<close>

definition open_on_filesystem ::
  "'w env \<Rightarrow> string \<Rightarrow> int \<Rightarrow> filesystem \<Rightarrow> string \<Rightarrow> ('w, opened) action" where
  "open_on_filesystem env url printDebug fileSystem path =
     bnd (print_if (printDebug \<ge> 3) (Print ''[Info] Opened filesystem: <fileSystem>'')) (\<lambda>_.
     bnd (if isHTTPFileSystem (transports env) fileSystem then
            bnd (call (Fs ''info'' fileSystem path) (fs_info_mimetype (transports env) fileSystem path))
              (\<lambda>mimetype.
                 if mimetype = Some ''text/html'' then
                   call (Fs ''isdir'' fileSystem path) (fs_isdir (transports env) fileSystem path)
                 else ret False)
          else call (Fs ''isdir'' fileSystem path) (fs_isdir (transports env) fileSystem path))
       (\<lambda>asFolder.
          if asFolder then ret (OpenedMount (FSSpecMountSource fileSystem path))
          else
            bnd (call (Fs ''exists'' fileSystem path) (fs_exists (transports env) fileSystem path))
              (\<lambda>there.
                 if \<not> there then
                   raise (RatarmountError
                     (''Opening URL '' @ url @ '' failed because path '' @ path
                      @ '' does not exist on remote!''))
                 else
                   bnd (call (Fs ''open'' fileSystem path) (fs_open (transports env) fileSystem path))
                     (\<lambda>result.
                        bnd (seek env result 1) (\<lambda>_.
                        bnd (call (Read result 1) (read_bytes env result 1)) (\<lambda>_.
                        bnd (seek env result 0) (\<lambda>_.
                        ret (OpenedFile result))))))))"

definition dropbox_token_message :: string where
  "dropbox_token_message =
     ''Please set the DROPBOX_TOKEN environment variable to mount dropbox:// URLs. ''
     @ ''Please refer to the ratarmount online ReadMe or to the DropBox ''
     @ ''documentation for creating a token.''"

definition tryOpenURL :: "'w env \<Rightarrow> string \<Rightarrow> int \<Rightarrow> ('w, opened) action" where
  "tryOpenURL env url printDebug =
     (let splitURI = py_split1 url ''://'';
          protocol = (if length splitURI > 1 then splitURI ! 0 else [])
      in
      if protocol = [] then
        raise (RatarmountError
          (''Expected to be called with URL containing :// but got: '' @ url))
      else
        bnd (print_if (printDebug \<ge> 3) (Print (''[Info] Try to open URL: '' @ url))) (\<lambda>_.
        if protocol = ''file'' then ret (OpenedPath (splitURI ! 1))
        else if protocol = ''git'' then openGitMountSource env url
        else if sshfs (transports env) \<and> protocol \<in> set [''sftp'', ''ssh'', ''scp''] then
          openSSHFSMountSource env url
        else if \<not> fsspec (transports env) then
          raise (RatarmountError
            (''An fsspec URL was detected but fsspec is not installed. ''
             @ ''Install it with: pip install ratarmount[fsspec]''))
        else
          bnd (print_if (printDebug \<ge> 3) (Print ''[Info] Try to open with fsspec'')) (\<lambda>_.
          bnd (if protocol = ''ftp'' \<and> python_before_3_9 (transports env) then
                 call (UrlToFs url) (url_to_fs (transports env) url)
               else if protocol = ''webdav'' then
                 if \<not> webdav4 (transports env) then
                   raise (RatarmountError
                     (''Install the webdav4 Python package to mount '' @ protocol @ ''://.''))
                 else
                   (case webdav_groups (splitURI ! 1) of (username, password, baseURL, path) \<Rightarrow>
                      (let username =
                             (if username = None then environ (transports env) ''WEBDAV_USER''
                              else username);
                           password =
                             (if password = None then environ (transports env) ''WEBDAV_PASSWORD''
                              else password);
                           auth = (case (username, password) of
                                     (Some u, Some p) \<Rightarrow> Some (u, p)
                                   | _ \<Rightarrow> None)
                       in bnd (catch
                                 (call (HTTPSConnection baseURL) (https_head (transports env) baseURL))
                                 (\<lambda>exception.
                                    bnd (print_if (printDebug \<ge> 3)
                                           (Print (''[Info] Determined WebDAV URL to not use HTTP ''
                                                   @ ''instead HTTPS because of: ''
                                                   @ str_exn exception)))
                                      (\<lambda>_. ret False)))
                            (\<lambda>https.
                               (let transportProtocol = (if https then ''https'' else ''http'')
                                in ret (WebdavFileSystem (transportProtocol @ ''://'' @ baseURL) auth,
                                        path)))))
               else if protocol = ''dropbox'' then
                 if \<not> dropboxdrivefs (transports env) then
                   raise (RatarmountError
                     (''Install the dropboxdrivefs Python package to mount '' @ protocol @ ''://.''))
                 else
                   (case environ (transports env) ''DROPBOX_TOKEN'' of
                      None \<Rightarrow> raise (RatarmountError dropbox_token_message)
                    | Some dropboxToken \<Rightarrow>
                        if dropboxToken = [] then
                          raise (RatarmountError dropbox_token_message)
                        else ret (FixedDropboxDriveFileSystem dropboxToken,
                                  dropbox_path (splitURI ! 1)))
               else call (UrlToFs url) (url_to_fs (transports env) url))
            (\<lambda>(fileSystem, path). open_on_filesystem env url printDebug fileSystem path))))"

section \<open>Opening a mount source\<close>

text \<open>
  Lines 399 to 411 of \<open>openMountSource\<close>: a string with \<open>://\<close> is resolved first. A mount
  source ends the call (\<open>Inl\<close>); otherwise the call goes on with the path or the file, and
  a file gets the URL as \<open>tarFileName\<close> unless the caller has set that option.
\<close>

definition resolve_url ::
  "'w env \<Rightarrow> int \<Rightarrow> source \<Rightarrow> options \<Rightarrow> ('w, mount + source \<times> options) action" where
  "resolve_url env printDebug fileOrPath options =
     (case fileOrPath of
        File f \<Rightarrow> ret (Inr (fileOrPath, options))
      | Path p \<Rightarrow>
          if contains ''://'' p then
            bnd (tryOpenURL env p printDebug) (\<lambda>openedURL.
              case openedURL of
                OpenedMount m \<Rightarrow> ret (Inl m)
              | OpenedFile f \<Rightarrow>
                  ret (Inr (File f,
                            if ''tarFileName'' \<notin> dom options
                            then options(''tarFileName'' \<mapsto> PStr p) else options))
              | OpenedPath q \<Rightarrow> ret (Inr (Path q, options)))
          else ret (Inr (fileOrPath, options)))"

text \<open>
  Lines 413 to 436: a path must exist; a directory ends the call; the shards of a split
  file are joined, and only a path that is no shard gets the backends that match its
  extension. The result is the source, the options, \<open>autoPrioritizedBackends\<close> and
  \<open>joinedFileName\<close>.
\<close>

definition prepare_path ::
  "'w env \<Rightarrow> source \<Rightarrow> options
     \<Rightarrow> ('w, mount + source \<times> options \<times> string list \<times> string) action" where
  "prepare_path env fileOrPath options =
     (case fileOrPath of
        File f \<Rightarrow> ret (Inr (fileOrPath, options, [], []))
      | Path p \<Rightarrow>
          (\<lambda>s.
             if \<not> os_path_exists env p (world s) then
               raise (RatarmountError (''Mount source does not exist: '' @ p)) s
             else if os_path_isdir env p (world s) then
               ret (Inl (FolderMountSource
                           (if p = ''.'' then ''.'' else os_path_realpath env p (world s)))) s
             else
               (case checkForSplitFile env p (world s) of
                  Some filesToJoin \<Rightarrow>
                    (case filesToJoin of
                       [] \<Rightarrow> raise (OtherException ''IndexError: list index out of range'') s
                     | first # _ \<Rightarrow>
                         (let joinedFileName = rsplit1_head (basename first);
                              options =
                                (if ''indexFilePath'' \<notin> dom options
                                    \<or> \<not> truthy (the (options ''indexFilePath''))
                                 then options(''indexFilePath'' \<mapsto> PStr (first @ ''.index.sqlite''))
                                 else options)
                          in ret (Inr (File (JoinedFileFromFactory filesToJoin), options, [],
                                       joinedFileName)) s))
                | None \<Rightarrow>
                    ret (Inr (fileOrPath, options,
                              map fst (filter (\<lambda>(backend, value). matchesExtension p (snd value))
                                         (BACKENDS env)),
                              [])) s)))"

text \<open>
  One call of \<open>backendOpen(fileOrPath, **options)\<close>, recorded with what it received and
  what came back.
\<close>

definition invoke ::
  "string \<Rightarrow> (source \<Rightarrow> options \<Rightarrow> ('w, mount option) action) \<Rightarrow> source \<Rightarrow> options
     \<Rightarrow> ('w, mount option) action" where
  "invoke name backendOpen fileOrPath options =
     (\<lambda>s. case backendOpen fileOrPath options
                 (s\<lparr>trace := trace s
                      @ [Probe name fileOrPath options (position_of (world s) fileOrPath)]\<rparr>) of
             (r, s') \<Rightarrow> (r, s'\<lparr>trace := trace s' @ [Outcome name r]\<rparr>))"

text \<open>
  Lines 453 to 475, the \<open>try\<close> statement of one round of the loop: \<open>Some\<close> is the
  \<open>return result\<close>, \<open>None\<close> lets the loop go on.
\<close>

definition attempt ::
  "'w env \<Rightarrow> int \<Rightarrow> string \<Rightarrow> (source \<Rightarrow> options \<Rightarrow> ('w, mount option) action)
     \<Rightarrow> source \<Rightarrow> options \<Rightarrow> ('w, mount option) action" where
  "attempt env printDebug name backendOpen fileOrPath options =
     catch
       (bnd (print_if (printDebug \<ge> 3) (Print (''[Info] Try to open with '' @ name))) (\<lambda>_.
        bnd (invoke name backendOpen fileOrPath options) (\<lambda>result.
          case result of
            Some m \<Rightarrow>
              bnd (print_if (printDebug \<ge> 2)
                     (Print (''[Info] Opened archive with '' @ name @ '' backend.'')))
                (\<lambda>_. ret (Some m))
          | None \<Rightarrow> ret None)))
       (\<lambda>exception.
          bnd (print_if (printDebug \<ge> 2)
                 (Print (''[Info] Trying to open with '' @ name @ '' raised an exception: ''
                         @ str_exn exception))) (\<lambda>_.
          bnd (print_if (printDebug \<ge> 3) Traceback) (\<lambda>_.
          bnd (seek_back env printDebug fileOrPath) (\<lambda>_. ret None))))"

text \<open>Lines 442 to 475, the loop over the names.\<close>

fun trial_loop ::
  "'w env \<Rightarrow> int \<Rightarrow> source \<Rightarrow> options \<Rightarrow> string list \<Rightarrow> string set \<Rightarrow> string list
     \<Rightarrow> ('w, mount option) action" where
  "trial_loop env printDebug fileOrPath options tarCompressionBackends triedBackends [] s =
     (Inr None, s)"
| "trial_loop env printDebug fileOrPath options tarCompressionBackends triedBackends (name0 # names) s =
     (let name = (if name0 \<in> set tarCompressionBackends then ''tarfile'' else name0) in
      if name \<in> triedBackends then
        trial_loop env printDebug fileOrPath options tarCompressionBackends triedBackends names s
      else
        (let triedBackends = insert name triedBackends in
         case map_of (BACKENDS env) name of
           None \<Rightarrow>
             trial_loop env printDebug fileOrPath options tarCompressionBackends triedBackends names
               (snd (print_if (printDebug \<ge> 1)
                       (Print (''[Info] Skipping unknown compression backend: '' @ name)) s))
         | Some (backendOpen, _) \<Rightarrow>
             (case attempt env printDebug name backendOpen fileOrPath options s of
                (Inl e, s') \<Rightarrow> (Inl e, s')
              | (Inr (Some result), s') \<Rightarrow> (Inr (Some result), s')
              | (Inr None, s') \<Rightarrow>
                  trial_loop env printDebug fileOrPath options tarCompressionBackends triedBackends
                    names s')))"

text \<open>\<open>[module.name for _, info in TAR_COMPRESSION_FORMATS.items() for module in info.modules]\<close>\<close>

definition tarCompressionBackends :: "'w env \<Rightarrow> string list" where
  "tarCompressionBackends env = concat (map (\<lambda>(_, info). modules info) (TAR_COMPRESSION_FORMATS env))"

text \<open>
  \<open>options.get("prioritizedBackends", [])\<close> must be a list for the concatenation with
  the other two lists in line 442; for any other value (\<open>None\<close> here) that concatenation
  raises \<open>TypeError\<close>.
\<close>

definition get_prioritizedBackends :: "options \<Rightarrow> string list option" where
  "get_prioritizedBackends options =
     (case options ''prioritizedBackends'' of
        None \<Rightarrow> Some []
      | Some (PList l) \<Rightarrow> Some l
      | Some _ \<Rightarrow> None)"

text \<open>Lines 438 to 480: the loop, then the joined file as a single file, or the error.\<close>

definition run_trial ::
  "'w env \<Rightarrow> int \<Rightarrow> source \<Rightarrow> options \<Rightarrow> string list \<Rightarrow> string \<Rightarrow> ('w, mount) action" where
  "run_trial env printDebug fileOrPath options autoPrioritizedBackends joinedFileName =
     (case get_prioritizedBackends options of
        None \<Rightarrow> raise (OtherException ''TypeError: can only concatenate list to list'')
      | Some prioritizedBackends \<Rightarrow>
          bnd (trial_loop env printDebug fileOrPath options (tarCompressionBackends env) {}
                 (prioritizedBackends @ autoPrioritizedBackends @ map fst (BACKENDS env)))
            (\<lambda>result.
               case result of
                 Some m \<Rightarrow> ret m
               | None \<Rightarrow>
                   (case fileOrPath of
                      File f \<Rightarrow>
                        if joinedFileName \<noteq> [] then ret (SingleFileMountSource joinedFileName f)
                        else raise (CompressionError
                               (''Archive to open ('' @ str_source env fileOrPath
                                @ '') has unrecognized format!''))
                    | Path p \<Rightarrow>
                        raise (CompressionError
                          (''Archive to open ('' @ str_source env fileOrPath
                           @ '') has unrecognized format!'')))))"

definition openMountSource :: "'w env \<Rightarrow> source \<Rightarrow> options \<Rightarrow> ('w, mount) action" where
  "openMountSource env fileOrPath options =
     (let printDebug = get_printDebug options in
      bnd (resolve_url env printDebug fileOrPath options) (\<lambda>r.
        case r of
          Inl m \<Rightarrow> ret m
        | Inr (fileOrPath, options) \<Rightarrow>
            bnd (prepare_path env fileOrPath options) (\<lambda>r.
              case r of
                Inl m \<Rightarrow> ret m
              | Inr (fileOrPath, options, autoPrioritizedBackends, joinedFileName) \<Rightarrow>
                  run_trial env printDebug fileOrPath options autoPrioritizedBackends
                    joinedFileName)))"

section \<open>Reading the record of a call\<close>

text \<open>The probes of a trace, and what came back from them, in order.\<close>

fun probes :: "event list \<Rightarrow> (string \<times> source \<times> options \<times> nat option) list" where
  "probes [] = []"
| "probes (Probe n f opts p # evs) = (n, f, opts, p) # probes evs"
| "probes (_ # evs) = probes evs"

fun outcomes :: "event list \<Rightarrow> (string \<times> (exn + mount option)) list" where
  "outcomes [] = []"
| "outcomes (Outcome n r # evs) = (n, r) # outcomes evs"
| "outcomes (_ # evs) = outcomes evs"

text \<open>The events and the printed lines that a run from \<open>s\<close> to \<open>s'\<close> has added.\<close>

definition new_events :: "'w st \<Rightarrow> 'w st \<Rightarrow> event list" where
  "new_events s s' = drop (length (trace s)) (trace s')"

definition new_lines :: "'w st \<Rightarrow> 'w st \<Rightarrow> line list" where
  "new_lines s s' = drop (length (out s)) (out s')"

definition extends :: "'w st \<Rightarrow> 'w st \<Rightarrow> bool" where
  "extends s s' \<longleftrightarrow> (\<exists>evs. trace s' = trace s @ evs) \<and> (\<exists>ls. out s' = out s @ ls)"

text \<open>An action that only adds to the trace and the output, and adds no probe.\<close>

definition quiet :: "('w, 'a) action \<Rightarrow> bool" where
  "quiet m \<longleftrightarrow>
     (\<forall>s. \<exists>evs ls. trace (snd (m s)) = trace s @ evs \<and> probes evs = [] \<and> outcomes evs = []
                 \<and> out (snd (m s)) = out s @ ls)"

section \<open>What the trial loop is to do\<close>

text \<open>Line 443: the name of a compression module of the TAR formats stands for \<open>tarfile\<close>.\<close>

definition canonical :: "string list \<Rightarrow> string \<Rightarrow> string" where
  "canonical tcb name = (if name \<in> set tcb then ''tarfile'' else name)"

text \<open>Removing duplicates, the first occurrence staying, given the names already seen.\<close>

fun dedup_from :: "string set \<Rightarrow> string list \<Rightarrow> string list" where
  "dedup_from seen [] = []"
| "dedup_from seen (x # xs) =
     (if x \<in> seen then dedup_from seen xs else x # dedup_from (insert x seen) xs)"

text \<open>
  The backends that the loop over \<open>names\<close> is to try, in order, when \<open>tried\<close> have been
  tried: the canonical names, without duplicates, that are keys of the registry.
\<close>

definition to_try :: "'w env \<Rightarrow> string list \<Rightarrow> string set \<Rightarrow> string list \<Rightarrow> string list" where
  "to_try env tcb tried names =
     filter (\<lambda>n. map_of (BACKENDS env) n \<noteq> None) (dedup_from tried (map (canonical tcb) names))"

text \<open>An outcome that ends the loop, and what a round of the loop makes of an outcome.\<close>

fun succeeded :: "exn + mount option \<Rightarrow> bool" where
  "succeeded (Inr (Some m)) = True"
| "succeeded _ = False"

fun result_of :: "exn + mount option \<Rightarrow> exn + mount option" where
  "result_of (Inr (Some m)) = Inr (Some m)"
| "result_of _ = Inr None"

text \<open>
  After a probe has raised: the exception is printed at verbosity 2; a file object that
  can seek is back at 0 when its \<open>seek(0)\<close> works; when \<open>seek(0)\<close> raises, that is
  printed at verbosity 1.
\<close>

definition after_raise :: "'w env \<Rightarrow> int \<Rightarrow> string \<Rightarrow> source \<Rightarrow> exn \<Rightarrow> 'w st \<Rightarrow> 'w st \<Rightarrow> bool" where
  "after_raise env pd name src e s s1 \<longleftrightarrow>
     (pd \<ge> 2 \<longrightarrow>
        Print (''[Info] Trying to open with '' @ name @ '' raised an exception: '' @ str_exn e)
          \<in> set (new_lines s s1))
     \<and> (\<forall>f. src = File f \<longrightarrow> hasattr_seek env f \<longrightarrow>
           (\<forall>w. seek_error env f 0 w = None) \<longrightarrow> pos (world s1) f = 0)
     \<and> (\<forall>f x. src = File f \<longrightarrow> hasattr_seek env f \<longrightarrow>
           (\<forall>w. seek_error env f 0 w = Some x) \<longrightarrow> pd \<ge> 1 \<longrightarrow>
           Print (''[Info] seek(0) raised an exception: '' @ str_exn x) \<in> set (new_lines s s1))"

text \<open>One round of the loop, from \<open>s\<close> to \<open>s1\<close> with result \<open>r\<close>: one probe, one outcome.\<close>

definition round_facts ::
  "'w env \<Rightarrow> int \<Rightarrow> string \<Rightarrow> source \<Rightarrow> options \<Rightarrow> 'w st \<Rightarrow> exn + mount option \<Rightarrow> 'w st \<Rightarrow> bool" where
  "round_facts env pd name src opts s r s1 \<longleftrightarrow>
     extends s s1
     \<and> probes (new_events s s1) = [(name, src, opts, position_of (world s) src)]
     \<and> (\<exists>ro. outcomes (new_events s s1) = [(name, ro)]
            \<and> r = result_of ro
            \<and> (\<forall>e. ro = Inl e \<longrightarrow> after_raise env pd name src e s s1))"

text \<open>
  A run of the loop that is to try the backends \<open>C\<close>: it never raises; it probes a
  beginning of \<open>C\<close>, each with the same source and options; it ends with the first
  success, or with \<open>None\<close> when all of \<open>C\<close> have failed.
\<close>

definition run_facts ::
  "source \<Rightarrow> options \<Rightarrow> string list \<Rightarrow> 'w st \<Rightarrow> exn + mount option \<Rightarrow> 'w st \<Rightarrow> bool" where
  "run_facts src opts C s r s' \<longleftrightarrow>
     extends s s'
     \<and> map fst (outcomes (new_events s s')) = map fst (probes (new_events s s'))
     \<and> (\<forall>x \<in> set (probes (new_events s s')). fst (snd x) = src \<and> fst (snd (snd x)) = opts)
     \<and> (case r of
          Inl e \<Rightarrow> False
        | Inr None \<Rightarrow>
            map fst (probes (new_events s s')) = C
            \<and> (\<forall>x \<in> set (outcomes (new_events s s')). \<not> succeeded (snd x))
        | Inr (Some m) \<Rightarrow>
            (\<exists>k < length C. map fst (probes (new_events s s')) = take (Suc k) C)
            \<and> outcomes (new_events s s') \<noteq> []
            \<and> snd (last (outcomes (new_events s s'))) = Inr (Some m)
            \<and> (\<forall>x \<in> set (butlast (outcomes (new_events s s'))). \<not> succeeded (snd x)))"

text \<open>
  The positions that a run of the loop records: none if it probes nothing (and then the
  world is as before); the first probe sees the source where the run found it; and, for a
  file object whose \<open>seek(0)\<close> works, the probe after one that raised sees it at 0.
\<close>

definition position_facts :: "'w env \<Rightarrow> source \<Rightarrow> 'w st \<Rightarrow> 'w st \<Rightarrow> bool" where
  "position_facts env src s s' \<longleftrightarrow>
     (probes (new_events s s') = [] \<longrightarrow> world s' = world s)
     \<and> (probes (new_events s s') \<noteq> [] \<longrightarrow>
          snd (snd (snd (hd (probes (new_events s s'))))) = position_of (world s) src)
     \<and> (\<forall>f. src = File f \<longrightarrow> hasattr_seek env f \<longrightarrow> (\<forall>w. seek_error env f 0 w = None) \<longrightarrow>
          (\<forall>i. Suc i < length (probes (new_events s s')) \<longrightarrow>
               isl (snd (outcomes (new_events s s') ! i)) \<longrightarrow>
               snd (snd (snd (probes (new_events s s') ! Suc i))) = Some 0))"

text \<open>
  The lines that a run of the loop prints: at verbosity 2 every exception of a probe, and
  at verbosity 1 the exception of \<open>seek(0)\<close> when it always raises and some probe raised.
\<close>

definition log_facts :: "'w env \<Rightarrow> int \<Rightarrow> source \<Rightarrow> 'w st \<Rightarrow> 'w st \<Rightarrow> bool" where
  "log_facts env pd src s s' \<longleftrightarrow>
     (\<forall>x \<in> set (outcomes (new_events s s')). \<forall>e. snd x = Inl e \<longrightarrow> pd \<ge> 2 \<longrightarrow>
        Print (''[Info] Trying to open with '' @ fst x @ '' raised an exception: '' @ str_exn e)
          \<in> set (new_lines s s'))
     \<and> (\<forall>f x. src = File f \<longrightarrow> hasattr_seek env f \<longrightarrow> (\<forall>w. seek_error env f 0 w = Some x) \<longrightarrow>
          pd \<ge> 1 \<longrightarrow> (\<exists>y \<in> set (outcomes (new_events s s')). isl (snd y)) \<longrightarrow>
          Print (''[Info] seek(0) raised an exception: '' @ str_exn x) \<in> set (new_lines s s'))"

section \<open>Getting to the trial, and leaving it\<close>

text \<open>
  What \<open>openMountSource\<close> enters line 438 with, after lines 399 to 436: the source, the
  options, \<open>autoPrioritizedBackends\<close>, \<open>joinedFileName\<close> and the state; \<open>None\<close> when the call
  has ended before (a URL that is a folder, a directory, an error).
\<close>

definition trial_input ::
  "'w env \<Rightarrow> source \<Rightarrow> options \<Rightarrow> 'w st \<Rightarrow> (source \<times> options \<times> string list \<times> string \<times> 'w st) option" where
  "trial_input env fileOrPath options s =
     (case resolve_url env (get_printDebug options) fileOrPath options s of
        (Inr (Inr (fileOrPath1, options1)), s1) \<Rightarrow>
          (case prepare_path env fileOrPath1 options1 s1 of
             (Inr (Inr (fileOrPath2, options2, auto, joined)), s2) \<Rightarrow>
               Some (fileOrPath2, options2, auto, joined, s2)
           | _ \<Rightarrow> None)
      | _ \<Rightarrow> None)"

text \<open>Lines 477 to 480 as a value: what the call ends with, given what the loop returned.\<close>

definition finish :: "'w env \<Rightarrow> source \<Rightarrow> string \<Rightarrow> mount option \<Rightarrow> exn + mount" where
  "finish env fileOrPath joinedFileName result =
     (case result of
        Some m \<Rightarrow> Inr m
      | None \<Rightarrow>
          (case fileOrPath of
             File f \<Rightarrow>
               if joinedFileName \<noteq> [] then Inr (SingleFileMountSource joinedFileName f)
               else Inl (CompressionError
                      (''Archive to open ('' @ str_source env fileOrPath
                       @ '') has unrecognized format!''))
           | Path p \<Rightarrow>
               Inl (CompressionError
                 (''Archive to open ('' @ str_source env fileOrPath
                  @ '') has unrecognized format!''))))"

section \<open>The order of the candidates\<close>





section \<open>A world for examples\<close>

text \<open>
  No optional module is installed, nothing exists on disk, every format check says no,
  every constructor raises, and every file object can seek.
\<close>

definition bare_transports :: "unit transports" where
  "bare_transports =
     \<lparr>GitMountSource_enabled = False,
      git_construct = (\<lambda>_ _ w. (Inr (), w)),
      git_getFileInfo = (\<lambda>_ _ _ w. (Inr None, w)),
      git_open = (\<lambda>_ _ _ w. (Inr (Handle 0), w)),
      sshfs = False,
      ssh_connect = (\<lambda>_ w. (Inr (), w)),
      infer_storage_options_path = (\<lambda>url. []),
      fsspec = False,
      python_before_3_9 = False,
      url_to_fs = (\<lambda>url w. (Inl (OtherException ''no such protocol''), w)),
      webdav4 = False,
      environ = Map.empty,
      https_head = (\<lambda>_ w. (Inr False, w)),
      dropboxdrivefs = False,
      isHTTPFileSystem = (\<lambda>_. False),
      fs_info_mimetype = (\<lambda>_ _ w. (Inr None, w)),
      fs_isdir = (\<lambda>_ _ w. (Inr False, w)),
      fs_isfile = (\<lambda>_ _ w. (Inr False, w)),
      fs_exists = (\<lambda>_ _ w. (Inr False, w)),
      fs_open = (\<lambda>_ _ w. (Inr (Handle 0), w))\<rparr>"

definition bare_env :: "unit env" where
  "bare_env =
     \<lparr>TAR_COMPRESSION_FORMATS = [],
      supportedCompressions = [],
      rarfile = False,
      zipfile = False,
      py7zr = False,
      libarchive = False,
      PySquashfsImage = False,
      is_rarfile_sfx = (\<lambda>_ w. (Inr False, w)),
      is_zipfile = (\<lambda>_ w. (Inr False, w)),
      is_7zfile = (\<lambda>_ w. (Inr False, w)),
      isSquashFS = (\<lambda>_ w. (Inr False, w)),
      construct = (\<lambda>c _ _ w. (Inl (OtherException ''not this format''), w)),
      checkForSplitFile = (\<lambda>_ _. None),
      os_path_exists = (\<lambda>_ _. False),
      os_path_isdir = (\<lambda>_ _. False),
      os_path_realpath = (\<lambda>p _. p),
      hasattr_seek = (\<lambda>_. True),
      seek_error = (\<lambda>_ _ _. None),
      read_bytes = (\<lambda>_ _ w. (Inr (), w)),
      str_file = (\<lambda>_. ''<file>''),
      transports = bare_transports\<rparr>"

definition start :: "unit st" where
  "start = \<lparr>world = \<lparr>pos = (\<lambda>_. 0), other = ()\<rparr>, out = [], trace = []\<rparr>"

text \<open>Every path exists and is a directory.\<close>

definition folder_env :: "unit env" where
  "folder_env = bare_env\<lparr>os_path_exists := (\<lambda>_ _. True), os_path_isdir := (\<lambda>_ _. True)\<rparr>"

text \<open>The Dropbox package is installed, a token is set, and every remote path is a folder.\<close>

definition dropbox_env :: "unit env" where
  "dropbox_env =
     bare_env\<lparr>transports :=
       bare_transports\<lparr>fsspec := True, dropboxdrivefs := True,
                        environ := [''DROPBOX_TOKEN'' \<mapsto> ''secret''],
                        fs_isdir := (\<lambda>_ _ w. (Inr True, w))\<rparr>\<rparr>"

text \<open>Every path is an existing file; \<open>zip\<close> is the one known format.\<close>

definition zip_info :: compression_info where
  "zip_info = \<lparr>suffixes = [''zip''], doubleSuffixes = [], modules = [''zipfile'']\<rparr>"

definition disk_env :: "unit env" where
  "disk_env = bare_env\<lparr>supportedCompressions := [(''zip'', zip_info)],
                       os_path_exists := (\<lambda>_ _. True)\<rparr>"

text \<open>
  The sshfs package is installed and every remote path is a file, opened as the file
  object 1, whose \<open>str\<close> is that of a plain Python object.
\<close>

definition ssh_env :: "unit env" where
  "ssh_env =
     bare_env\<lparr>str_file := (\<lambda>_. ''<sshfs.file.SSHFile object>''),
              transports :=
                bare_transports\<lparr>sshfs := True,
                                 infer_storage_options_path := (\<lambda>url. ''/a.tar''),
                                 fs_exists := (\<lambda>_ _ w. (Inr True, w)),
                                 fs_isfile := (\<lambda>_ _ w. (Inr True, w)),
                                 fs_open := (\<lambda>_ _ w. (Inr (Handle 1), w))\<rparr>\<rparr>"

text \<open>Every path is an existing file, and a shard of the split file with the given parts.\<close>

definition shards_env :: "string list \<Rightarrow> unit env" where
  "shards_env files =
     bare_env\<lparr>os_path_exists := (\<lambda>_ _. True), checkForSplitFile := (\<lambda>_ _. Some files)\<rparr>"

text \<open>As \<open>disk_env\<close>, and the constructor of the TAR backend accepts every source.\<close>

definition tar_env :: "unit env" where
  "tar_env = disk_env\<lparr>construct := (\<lambda>c _ _ w.
      if c = SQLiteIndexedTar then (Inr (Archive SQLiteIndexedTar 0), w)
      else (Inl (OtherException ''not this format''), w))\<rparr>"









section \<open>Facts about the string operations\<close>

lemma split_file: "py_split1 (''file://'' @ rest) ''://'' = [''file'', rest]"
  by (simp add: py_split1_def startswith_def)

lemma split_dropbox: "py_split1 (''dropbox://'' @ rest) ''://'' = [''dropbox'', rest]"
  by (simp add: py_split1_def startswith_def)

section \<open>Facts about the actions\<close>

lemma print_if_apply:
  "print_if c l s = (Inr (), s\<lparr>out := out s @ (if c then [l] else [])\<rparr>)"
  by (simp add: print_if_def)

lemma bnd_print_if: "bnd (print_if c l) f s = f () (snd (print_if c l s))"
  by (simp add: bnd_def print_if_def)

lemma bnd_eq: "m s = (r, s1) \<Longrightarrow> bnd m f s = (case r of Inl e \<Rightarrow> (Inl e, s1) | Inr a \<Rightarrow> f a s1)"
  by (simp add: bnd_def)

lemma probes_append: "probes (xs @ ys) = probes xs @ probes ys"
  by (induction xs rule: probes.induct) auto

lemma outcomes_append: "outcomes (xs @ ys) = outcomes xs @ outcomes ys"
  by (induction xs rule: outcomes.induct) auto

lemma quietI:
  "(\<And>s. \<exists>evs ls. trace (snd (m s)) = trace s @ evs \<and> probes evs = [] \<and> outcomes evs = []
                 \<and> out (snd (m s)) = out s @ ls) \<Longrightarrow> quiet m"
  by (simp add: quiet_def)

lemma quietD:
  "quiet m \<Longrightarrow> \<exists>evs ls. trace (snd (m s)) = trace s @ evs \<and> probes evs = [] \<and> outcomes evs = []
                 \<and> out (snd (m s)) = out s @ ls"
  by (simp add: quiet_def)

lemma quiet_ret: "quiet (ret a)"
  by (simp add: quiet_def ret_def)

lemma quiet_raise: "quiet (raise e)"
  by (simp add: quiet_def raise_def)

lemma quiet_print_if: "quiet (print_if c l)"
  by (simp add: quiet_def print_if_def)

lemma quiet_call: "probes [ev] = [] \<Longrightarrow> outcomes [ev] = [] \<Longrightarrow> quiet (call ev f)"
  by (auto simp: quiet_def call_def split: prod.splits)

lemma quiet_bnd:
  assumes "quiet m" and "\<And>a. quiet (f a)"
  shows "quiet (bnd m f)"
proof (rule quietI)
  fix s
  obtain r s1 where m: "m s = (r, s1)" by (cases "m s")
  from quietD [OF assms(1), of s] m obtain evs ls where
    1: "trace s1 = trace s @ evs" "probes evs = []" "outcomes evs = []" "out s1 = out s @ ls"
    by auto
  show "\<exists>evs ls. trace (snd (bnd m f s)) = trace s @ evs \<and> probes evs = [] \<and> outcomes evs = []
                 \<and> out (snd (bnd m f s)) = out s @ ls"
  proof (cases r)
    case (Inl e)
    then show ?thesis using m 1 by (auto simp: bnd_def)
  next
    case (Inr a)
    from quietD [OF assms(2), of a s1] obtain evs' ls' where
      2: "trace (snd (f a s1)) = trace s1 @ evs'" "probes evs' = []" "outcomes evs' = []"
         "out (snd (f a s1)) = out s1 @ ls'"
      by auto
    have "bnd m f s = f a s1" using m Inr by (simp add: bnd_def)
    then show ?thesis using 1 2
      by (intro exI [of _ "evs @ evs'"] exI [of _ "ls @ ls'"]) (simp add: probes_append outcomes_append)
  qed
qed

lemma quiet_catch:
  assumes "quiet m" and "\<And>e. quiet (h e)"
  shows "quiet (catch m h)"
proof (rule quietI)
  fix s
  obtain r s1 where m: "m s = (r, s1)" by (cases "m s")
  from quietD [OF assms(1), of s] m obtain evs ls where
    1: "trace s1 = trace s @ evs" "probes evs = []" "outcomes evs = []" "out s1 = out s @ ls"
    by auto
  show "\<exists>evs ls. trace (snd (catch m h s)) = trace s @ evs \<and> probes evs = [] \<and> outcomes evs = []
                 \<and> out (snd (catch m h s)) = out s @ ls"
  proof (cases r)
    case (Inr a)
    then show ?thesis using m 1 by (auto simp: catch_def)
  next
    case (Inl e)
    from quietD [OF assms(2), of e s1] obtain evs' ls' where
      2: "trace (snd (h e s1)) = trace s1 @ evs'" "probes evs' = []" "outcomes evs' = []"
         "out (snd (h e s1)) = out s1 @ ls'"
      by auto
    have "catch m h s = h e s1" using m Inl by (simp add: catch_def)
    then show ?thesis using 1 2
      by (intro exI [of _ "evs @ evs'"] exI [of _ "ls @ ls'"]) (simp add: probes_append outcomes_append)
  qed
qed

lemma quiet_finally:
  assumes "quiet m" and "quiet fin"
  shows "quiet (finally_do m fin)"
proof (rule quietI)
  fix s
  obtain r s1 where m: "m s = (r, s1)" by (cases "m s")
  from quietD [OF assms(1), of s] m obtain evs ls where
    1: "trace s1 = trace s @ evs" "probes evs = []" "outcomes evs = []" "out s1 = out s @ ls"
    by auto
  from quietD [OF assms(2), of s1] obtain evs' ls' where
    2: "trace (snd (fin s1)) = trace s1 @ evs'" "probes evs' = []" "outcomes evs' = []"
       "out (snd (fin s1)) = out s1 @ ls'"
    by auto
  have "snd (finally_do m fin s) = snd (fin s1)"
    using m by (auto simp: finally_do_def split: prod.splits sum.splits)
  then show "\<exists>evs ls. trace (snd (finally_do m fin s)) = trace s @ evs \<and> probes evs = []
                 \<and> outcomes evs = [] \<and> out (snd (finally_do m fin s)) = out s @ ls"
    using 1 2
    by (intro exI [of _ "evs @ evs'"] exI [of _ "ls @ ls'"]) (simp add: probes_append outcomes_append)
qed

lemma quiet_if: "quiet m \<Longrightarrow> quiet m' \<Longrightarrow> quiet (if c then m else m')"
  by simp

lemmas quiet_intros = quiet_ret quiet_raise quiet_print_if quiet_call quiet_bnd quiet_catch
  quiet_finally quiet_if

lemma quiet_seek: "quiet (seek env f n)"
  unfolding seek_def by (rule quiet_call) simp_all

lemma quiet_seek_back: "quiet (seek_back env pd src)"
  unfolding seek_back_def
  by (cases src) (auto intro!: quiet_intros quiet_seek)

lemma quiet_openRar: "quiet (openRarMountSource env src opts)"
  unfolding openRarMountSource_def by (intro quiet_intros) simp_all

lemma quiet_openTar: "quiet (openTarMountSource env src opts)"
  unfolding openTarMountSource_def Let_def by (intro quiet_intros) simp_all

lemma quiet_openZip: "quiet (openZipMountSource env src opts)"
  unfolding openZipMountSource_def by (intro quiet_intros) simp_all

lemma quiet_openPy7zr: "quiet (openPy7zrMountSource env src opts)"
  unfolding openPy7zrMountSource_def by (intro quiet_intros) simp_all

lemma quiet_openLibarchive: "quiet (openLibarchiveMountSource env src opts)"
  unfolding openLibarchiveMountSource_def Let_def
  by (intro quiet_intros quiet_seek_back) simp_all

lemma quiet_openPySquashfsImage: "quiet (openPySquashfsImage env src opts)"
  unfolding openPySquashfsImage_def by (intro quiet_intros) simp_all

lemma quiet_openWith: "quiet (openWith c env src opts)"
  unfolding openWith_def by (intro quiet_intros) simp_all

lemma quiet_BACKENDS:
  "map_of (BACKENDS env) name = Some (backendOpen, exts) \<Longrightarrow> quiet (backendOpen src opts)"
  by (auto simp: BACKENDS_def quiet_openRar quiet_openTar quiet_openZip quiet_openPy7zr
        quiet_openLibarchive quiet_openPySquashfsImage quiet_openWith split: if_splits)

lemma extends_refl: "extends s s"
  by (simp add: extends_def)

lemma extends_trans: "extends s s1 \<Longrightarrow> extends s1 s2 \<Longrightarrow> extends s s2"
  by (auto simp: extends_def)

lemma extendsI: "trace s' = trace s @ evs \<Longrightarrow> out s' = out s @ ls \<Longrightarrow> extends s s'"
  by (auto simp: extends_def)

lemma new_events_eq: "trace s' = trace s @ evs \<Longrightarrow> new_events s s' = evs"
  by (simp add: new_events_def)

lemma new_lines_eq: "out s' = out s @ ls \<Longrightarrow> new_lines s s' = ls"
  by (simp add: new_lines_def)

lemma new_events_trans:
  "extends s s1 \<Longrightarrow> extends s1 s2 \<Longrightarrow> new_events s s2 = new_events s s1 @ new_events s1 s2"
  by (auto simp: extends_def new_events_def)

lemma new_lines_trans:
  "extends s s1 \<Longrightarrow> extends s1 s2 \<Longrightarrow> new_lines s s2 = new_lines s s1 @ new_lines s1 s2"
  by (auto simp: extends_def new_lines_def)

lemma new_events_refl: "new_events s s = []"
  by (simp add: new_events_def)

lemma new_lines_refl: "new_lines s s = []"
  by (simp add: new_lines_def)

lemma quiet_extends: "quiet m \<Longrightarrow> extends s (snd (m s))"
  by (metis quietD extends_def)

lemma quiet_probes: "quiet m \<Longrightarrow> probes (new_events s (snd (m s))) = []"
  by (metis quietD new_events_eq)

lemma quiet_outcomes: "quiet m \<Longrightarrow> outcomes (new_events s (snd (m s))) = []"
  by (metis quietD new_events_eq)

lemma invoke_facts:
  assumes q: "quiet (bo src opts)" and inv: "invoke name bo src opts s = (ro, s1)"
  shows "extends s s1"
    and "probes (new_events s s1) = [(name, src, opts, position_of (world s) src)]"
    and "outcomes (new_events s s1) = [(name, ro)]"
proof -
  let ?s0 = "s\<lparr>trace := trace s @ [Probe name src opts (position_of (world s) src)]\<rparr>"
  obtain r s' where b: "bo src opts ?s0 = (r, s')" by (cases "bo src opts ?s0")
  from quietD [OF q, of ?s0] b obtain evs ls where
    1: "trace s' = trace ?s0 @ evs" "probes evs = []" "outcomes evs = []" "out s' = out ?s0 @ ls"
    by auto
  from inv b have 2: "ro = r" "s1 = s'\<lparr>trace := trace s' @ [Outcome name r]\<rparr>"
    by (auto simp: invoke_def)
  have t: "trace s1 = trace s @ ([Probe name src opts (position_of (world s) src)] @ evs @ [Outcome name r])"
    using 1 2 by simp
  have o: "out s1 = out s @ ls" using 1 2 by simp
  show "extends s s1" using t o by (rule extendsI)
  show "probes (new_events s s1) = [(name, src, opts, position_of (world s) src)]"
    unfolding new_events_eq [OF t] using 1 by (simp add: probes_append)
  show "outcomes (new_events s s1) = [(name, ro)]"
    unfolding new_events_eq [OF t] using 1 2 by (simp add: outcomes_append)
qed

lemma seek_back_Path: "seek_back env pd (Path p) s = (Inr (), s)"
  by (simp add: seek_back_def catch_def ret_def)

lemma seek_back_noseek: "\<not> hasattr_seek env f \<Longrightarrow> seek_back env pd (File f) s = (Inr (), s)"
  by (simp add: seek_back_def catch_def ret_def)

lemma seek_back_ok:
  "hasattr_seek env f \<Longrightarrow> seek_error env f 0 (world s) = None \<Longrightarrow>
   seek_back env pd (File f) s =
     (Inr (), s\<lparr>world := (world s)\<lparr>pos := (pos (world s))(f := 0)\<rparr>, trace := trace s @ [Seek f 0]\<rparr>)"
  by (simp add: seek_back_def catch_def seek_def call_def)

lemma seek_back_fail:
  "hasattr_seek env f \<Longrightarrow> seek_error env f 0 (world s) = Some x \<Longrightarrow>
   seek_back env pd (File f) s =
     (Inr (), s\<lparr>world := world s, trace := trace s @ [Seek f 0],
               out := out s @ (if pd \<ge> 1 then [Print (''[Info] seek(0) raised an exception: '' @ str_exn x)] else [])
                       @ (if pd \<ge> 2 then [Traceback] else [])\<rparr>)"
  by (simp add: seek_back_def catch_def seek_def call_def bnd_def print_if_def)

lemma seek_back_never_raises: "fst (seek_back env pd src s) = Inr ()"
proof (cases src)
  case (Path p)
  then show ?thesis by (simp add: seek_back_Path)
next
  case (File f)
  show ?thesis
  proof (cases "hasattr_seek env f")
    case False
    then show ?thesis using File by (simp add: seek_back_noseek)
  next
    case True
    then show ?thesis using File
      by (cases "seek_error env f 0 (world s)") (simp_all add: seek_back_ok seek_back_fail)
  qed
qed

lemma seek_back_eq: "seek_back env pd src s = (Inr (), snd (seek_back env pd src s))"
  using seek_back_never_raises [of env pd src s] by (metis prod.collapse)

lemma bnd_seek_back: "bnd (seek_back env pd src) f s = f () (snd (seek_back env pd src s))"
  by (subst bnd_def, subst seek_back_eq) simp

lemma attempt_unfold:
  assumes "invoke name bo src opts (snd (print_if (pd \<ge> 3) (Print (''[Info] Try to open with '' @ name)) s)) = (ro, s1)"
  shows "attempt env pd name bo src opts s =
     (case ro of
        Inr (Some m) \<Rightarrow>
          (Inr (Some m), snd (print_if (pd \<ge> 2) (Print (''[Info] Opened archive with '' @ name @ '' backend.'')) s1))
      | Inr None \<Rightarrow> (Inr None, s1)
      | Inl e \<Rightarrow>
          (Inr None,
           snd (seek_back env pd src
                  (snd (print_if (pd \<ge> 3) Traceback
                     (snd (print_if (pd \<ge> 2)
                        (Print (''[Info] Trying to open with '' @ name @ '' raised an exception: '' @ str_exn e)) s1)))))))"
proof -
  note b = bnd_eq [of "invoke name bo src opts", OF assms]
  show ?thesis
  proof (cases ro)
    case (Inl e)
    show ?thesis
      unfolding attempt_def catch_def bnd_print_if b bnd_seek_back
      using Inl by (simp add: ret_def)
  next
    case (Inr a)
    show ?thesis
      unfolding attempt_def catch_def bnd_print_if b bnd_seek_back
      using Inr by (cases a) (simp_all add: ret_def bnd_print_if)
  qed
qed

lemma probes_new_trans:
  "extends s s1 \<Longrightarrow> extends s1 s2 \<Longrightarrow>
   probes (new_events s s2) = probes (new_events s s1) @ probes (new_events s1 s2)"
  by (simp add: new_events_trans probes_append)

lemma outcomes_new_trans:
  "extends s s1 \<Longrightarrow> extends s1 s2 \<Longrightarrow>
   outcomes (new_events s s2) = outcomes (new_events s s1) @ outcomes (new_events s1 s2)"
  by (simp add: new_events_trans outcomes_append)

lemma print_if_state:
  shows "extends s (snd (print_if c l s))"
    and "new_events s (snd (print_if c l s)) = []"
    and "new_lines s (snd (print_if c l s)) = (if c then [l] else [])"
    and "world (snd (print_if c l s)) = world s"
  by (simp_all add: print_if_apply extends_def new_events_def new_lines_def)

lemma seek_back_state:
  shows "extends s (snd (seek_back env pd src s))"
    and "probes (new_events s (snd (seek_back env pd src s))) = []"
    and "outcomes (new_events s (snd (seek_back env pd src s))) = []"
  by (simp_all add: quiet_extends quiet_probes quiet_outcomes quiet_seek_back)

lemma seek_back_resets:
  "hasattr_seek env f \<Longrightarrow> seek_error env f 0 (world s) = None \<Longrightarrow>
   pos (world (snd (seek_back env pd (File f) s))) f = 0"
  by (simp add: seek_back_ok)

lemma seek_back_logs:
  "hasattr_seek env f \<Longrightarrow> seek_error env f 0 (world s) = Some x \<Longrightarrow> pd \<ge> 1 \<Longrightarrow>
   Print (''[Info] seek(0) raised an exception: '' @ str_exn x)
     \<in> set (new_lines s (snd (seek_back env pd (File f) s)))"
  by (simp add: seek_back_fail new_lines_def)

lemma attempt_facts:
  assumes reg: "map_of (BACKENDS env) name = Some (bo, exts)"
    and att: "attempt env pd name bo src opts s = (r, s1)"
  shows "round_facts env pd name src opts s r s1"
proof -
  define l1 where "l1 = Print (''[Info] Try to open with '' @ name)"
  define sa where "sa = snd (print_if (pd \<ge> 3) l1 s)"
  obtain ro sb where inv: "invoke name bo src opts sa = (ro, sb)"
    by (cases "invoke name bo src opts sa")
  have q: "quiet (bo src opts)" using reg by (rule quiet_BACKENDS)
  note i = invoke_facts [OF q inv]
  note pa = print_if_state [where s = s and c = "pd \<ge> 3" and l = l1, folded sa_def]
  have e_ab: "extends s sb" using pa(1) i(1) by (rule extends_trans)
  have p_ab: "probes (new_events s sb) = [(name, src, opts, position_of (world s) src)]"
    using probes_new_trans [OF pa(1) i(1)] pa i by simp
  have o_ab: "outcomes (new_events s sb) = [(name, ro)]"
    using outcomes_new_trans [OF pa(1) i(1)] pa i by simp
  note u = attempt_unfold [OF inv [unfolded sa_def l1_def], of env]
  show ?thesis
  proof (cases ro)
    case (Inr a)
    show ?thesis
    proof (cases a)
      case None
      with Inr u att have "r = Inr None" "s1 = sb" by simp_all
      then show ?thesis
        using e_ab p_ab o_ab Inr None by (simp add: round_facts_def)
    next
      case (Some m)
      define l where "l = Print (''[Info] Opened archive with '' @ name @ '' backend.'')"
      from Some Inr u att have 1: "r = Inr (Some m)" "s1 = snd (print_if (pd \<ge> 2) l sb)"
        by (simp_all add: l_def)
      note pb = print_if_state [where s = sb and c = "pd \<ge> 2" and l = l, folded 1(2)]
      have "extends s s1" using e_ab pb(1) by (rule extends_trans)
      moreover have "probes (new_events s s1) = [(name, src, opts, position_of (world s) src)]"
        using probes_new_trans [OF e_ab pb(1)] p_ab pb by simp
      moreover have "outcomes (new_events s s1) = [(name, ro)]"
        using outcomes_new_trans [OF e_ab pb(1)] o_ab pb by simp
      ultimately show ?thesis
        using Inr Some 1 by (simp add: round_facts_def)
    qed
  next
    case (Inl e)
    define l where "l = Print (''[Info] Trying to open with '' @ name @ '' raised an exception: '' @ str_exn e)"
    define sc1 where "sc1 = snd (print_if (pd \<ge> 2) l sb)"
    define sc2 where "sc2 = snd (print_if (pd \<ge> 3) Traceback sc1)"
    from Inl u att have 1: "r = Inr None" "s1 = snd (seek_back env pd src sc2)"
      by (simp_all add: l_def sc1_def sc2_def)
    note p1 = print_if_state [where s = sb and c = "pd \<ge> 2" and l = l, folded sc1_def]
    note p2 = print_if_state [where s = sc1 and c = "pd \<ge> 3" and l = Traceback, folded sc2_def]
    note sk = seek_back_state [where s = sc2 and env = env and pd = pd and src = src, folded 1(2)]
    have e1: "extends s sc1" using e_ab p1(1) by (rule extends_trans)
    have e2: "extends s sc2" using e1 p2(1) by (rule extends_trans)
    have e3: "extends s s1" using e2 sk(1) by (rule extends_trans)
    have pr2: "probes (new_events s sc2) = [(name, src, opts, position_of (world s) src)]"
      using probes_new_trans [OF e1 p2(1)] probes_new_trans [OF e_ab p1(1)] p_ab p1 p2 by simp
    have pr: "probes (new_events s s1) = [(name, src, opts, position_of (world s) src)]"
      using probes_new_trans [OF e2 sk(1)] pr2 sk by simp
    have ou2: "outcomes (new_events s sc2) = [(name, ro)]"
      using outcomes_new_trans [OF e1 p2(1)] outcomes_new_trans [OF e_ab p1(1)] o_ab p1 p2 by simp
    have ou: "outcomes (new_events s s1) = [(name, ro)]"
      using outcomes_new_trans [OF e2 sk(1)] ou2 sk by simp
    have lines: "new_lines s s1 = new_lines s sb @ new_lines sb sc1 @ new_lines sc1 sc2 @ new_lines sc2 s1"
      by (simp add: new_lines_trans [OF e2 sk(1)] new_lines_trans [OF e1 p2(1)]
            new_lines_trans [OF e_ab p1(1)])
    have log: "pd \<ge> 2 \<longrightarrow> l \<in> set (new_lines s s1)"
      unfolding lines using p1(3) by simp
    have reset: "\<forall>f. src = File f \<longrightarrow> hasattr_seek env f \<longrightarrow>
                        (\<forall>w. seek_error env f 0 w = None) \<longrightarrow> pos (world s1) f = 0"
      unfolding 1(2) by (auto intro: seek_back_resets)
    have seeklog: "\<forall>f x. src = File f \<longrightarrow> hasattr_seek env f \<longrightarrow>
                        (\<forall>w. seek_error env f 0 w = Some x) \<longrightarrow> pd \<ge> 1 \<longrightarrow>
                        Print (''[Info] seek(0) raised an exception: '' @ str_exn x)
                          \<in> set (new_lines s s1)"
    proof (intro allI impI)
      fix f x
      assume a: "src = File f" "hasattr_seek env f" "\<forall>w. seek_error env f 0 w = Some x" "1 \<le> pd"
      have "Print (''[Info] seek(0) raised an exception: '' @ str_exn x)
              \<in> set (new_lines sc2 (snd (seek_back env pd (File f) sc2)))"
        using a by (intro seek_back_logs) auto
      then show "Print (''[Info] seek(0) raised an exception: '' @ str_exn x) \<in> set (new_lines s s1)"
        unfolding lines using a(1) 1(2) by simp
    qed
    have "after_raise env pd name src e s s1"
      unfolding after_raise_def using log reset seeklog by (simp add: l_def)
    then show ?thesis
      using e3 pr ou 1(1) Inl by (simp add: round_facts_def)
  qed
qed

lemma to_try_Nil: "to_try env tcb tried [] = []"
  by (simp add: to_try_def)

lemma to_try_dup:
  "canonical tcb name0 \<in> tried \<Longrightarrow> to_try env tcb tried (name0 # names) = to_try env tcb tried names"
  by (simp add: to_try_def)

lemma to_try_unknown:
  "canonical tcb name0 \<notin> tried \<Longrightarrow> map_of (BACKENDS env) (canonical tcb name0) = None \<Longrightarrow>
   to_try env tcb tried (name0 # names) = to_try env tcb (insert (canonical tcb name0) tried) names"
  by (simp add: to_try_def)

lemma to_try_known:
  "canonical tcb name0 \<notin> tried \<Longrightarrow> map_of (BACKENDS env) (canonical tcb name0) = Some v \<Longrightarrow>
   to_try env tcb tried (name0 # names)
     = canonical tcb name0 # to_try env tcb (insert (canonical tcb name0) tried) names"
  by (simp add: to_try_def)

lemma trial_loop_step [case_names dup unknown found onward]:
  assumes
    "\<lbrakk>canonical tcb name0 \<in> tried;
      trial_loop env pd src opts tcb tried (name0 # names) s
        = trial_loop env pd src opts tcb tried names s\<rbrakk> \<Longrightarrow> thesis"
    "\<lbrakk>canonical tcb name0 \<notin> tried; map_of (BACKENDS env) (canonical tcb name0) = None;
      trial_loop env pd src opts tcb tried (name0 # names) s
        = trial_loop env pd src opts tcb (insert (canonical tcb name0) tried) names
            (snd (print_if (pd \<ge> 1)
               (Print (''[Info] Skipping unknown compression backend: '' @ canonical tcb name0)) s))\<rbrakk>
     \<Longrightarrow> thesis"
    "\<And>bo exts m s1.
     \<lbrakk>canonical tcb name0 \<notin> tried; map_of (BACKENDS env) (canonical tcb name0) = Some (bo, exts);
      attempt env pd (canonical tcb name0) bo src opts s = (Inr (Some m), s1);
      trial_loop env pd src opts tcb tried (name0 # names) s = (Inr (Some m), s1)\<rbrakk> \<Longrightarrow> thesis"
    "\<And>bo exts s1.
     \<lbrakk>canonical tcb name0 \<notin> tried; map_of (BACKENDS env) (canonical tcb name0) = Some (bo, exts);
      attempt env pd (canonical tcb name0) bo src opts s = (Inr None, s1);
      trial_loop env pd src opts tcb tried (name0 # names) s
        = trial_loop env pd src opts tcb (insert (canonical tcb name0) tried) names s1\<rbrakk> \<Longrightarrow> thesis"
  shows thesis
proof (cases "canonical tcb name0 \<in> tried")
  case True
  have "trial_loop env pd src opts tcb tried (name0 # names) s
        = trial_loop env pd src opts tcb tried names s"
    using True by (simp add: canonical_def)
  with True show ?thesis by (rule assms(1))
next
  case nt: False
  show ?thesis
  proof (cases "map_of (BACKENDS env) (canonical tcb name0)")
    case None
    have "trial_loop env pd src opts tcb tried (name0 # names) s
        = trial_loop env pd src opts tcb (insert (canonical tcb name0) tried) names
            (snd (print_if (pd \<ge> 1)
               (Print (''[Info] Skipping unknown compression backend: '' @ canonical tcb name0)) s))"
      using nt None by (simp add: canonical_def Let_def)
    with nt None show ?thesis by (rule assms(2))
  next
    case (Some v)
    obtain bo exts where v: "v = (bo, exts)" by (cases v)
    obtain r s1 where a: "attempt env pd (canonical tcb name0) bo src opts s = (r, s1)"
      by (cases "attempt env pd (canonical tcb name0) bo src opts s")
    from attempt_facts [OF Some [unfolded v] a]
    obtain ro :: "exn + mount option"
      where "r = result_of ro"
      unfolding round_facts_def by blast
    then have "r = Inr None \<or> (\<exists>m. r = Inr (Some m))"
      by (cases ro rule: result_of.cases) auto
    then show ?thesis
    proof
      assume r: "r = Inr None"
      have "trial_loop env pd src opts tcb tried (name0 # names) s
        = trial_loop env pd src opts tcb (insert (canonical tcb name0) tried) names s1"
        using nt Some v a r by (simp add: canonical_def Let_def)
      with nt Some [unfolded v] a [unfolded r] show ?thesis by (rule assms(4))
    next
      assume "\<exists>m. r = Inr (Some m)"
      then obtain m where r: "r = Inr (Some m)" ..
      have "trial_loop env pd src opts tcb tried (name0 # names) s = (Inr (Some m), s1)"
        using nt Some v a r by (simp add: canonical_def Let_def)
      with nt Some [unfolded v] a [unfolded r] show ?thesis by (rule assms(3))
    qed
  qed
qed

lemma run_facts_NoneI:
  "\<lbrakk>extends s s'; map fst (outcomes (new_events s s')) = map fst (probes (new_events s s'));
    \<forall>x \<in> set (probes (new_events s s')). fst (snd x) = src \<and> fst (snd (snd x)) = opts;
    map fst (probes (new_events s s')) = C;
    \<forall>x \<in> set (outcomes (new_events s s')). \<not> succeeded (snd x)\<rbrakk>
   \<Longrightarrow> run_facts src opts C s (Inr None) s'"
  unfolding run_facts_def by simp

lemma run_facts_SomeI:
  "\<lbrakk>extends s s'; map fst (outcomes (new_events s s')) = map fst (probes (new_events s s'));
    \<forall>x \<in> set (probes (new_events s s')). fst (snd x) = src \<and> fst (snd (snd x)) = opts;
    k < length C; map fst (probes (new_events s s')) = take (Suc k) C;
    outcomes (new_events s s') \<noteq> [];
    snd (last (outcomes (new_events s s'))) = Inr (Some m);
    \<forall>x \<in> set (butlast (outcomes (new_events s s'))). \<not> succeeded (snd x)\<rbrakk>
   \<Longrightarrow> run_facts src opts C s (Inr (Some m)) s'"
  unfolding run_facts_def by auto

lemma run_facts_common:
  assumes "run_facts src opts C s r s'"
  shows "extends s s'"
    and "map fst (outcomes (new_events s s')) = map fst (probes (new_events s s'))"
    and "\<forall>x \<in> set (probes (new_events s s')). fst (snd x) = src \<and> fst (snd (snd x)) = opts"
    and "r \<noteq> Inl e"
  using assms unfolding run_facts_def by auto

lemma run_facts_NoneD:
  assumes "run_facts src opts C s (Inr None) s'"
  shows "map fst (probes (new_events s s')) = C"
    and "\<forall>x \<in> set (outcomes (new_events s s')). \<not> succeeded (snd x)"
  using assms unfolding run_facts_def by simp_all

lemma run_facts_SomeD:
  assumes "run_facts src opts C s (Inr (Some m)) s'"
  shows "\<exists>k < length C. map fst (probes (new_events s s')) = take (Suc k) C"
    and "outcomes (new_events s s') \<noteq> []"
    and "snd (last (outcomes (new_events s s'))) = Inr (Some m)"
    and "\<forall>x \<in> set (butlast (outcomes (new_events s s'))). \<not> succeeded (snd x)"
  using assms unfolding run_facts_def by simp_all

lemma run_facts_skip:
  assumes e: "extends s s1" and p: "probes (new_events s s1) = []"
    and o: "outcomes (new_events s s1) = []" and r: "run_facts src opts C s1 r s'"
  shows "run_facts src opts C s r s'"
proof -
  have e1: "extends s1 s'" using r by (simp add: run_facts_def)
  have A: "probes (new_events s s') = probes (new_events s1 s')"
    using probes_new_trans [OF e e1] p by simp
  have B: "outcomes (new_events s s') = outcomes (new_events s1 s')"
    using outcomes_new_trans [OF e e1] o by simp
  have E: "extends s s'" using e e1 by (rule extends_trans)
  show ?thesis using r E unfolding run_facts_def A B by blast
qed

lemma run_facts_found:
  assumes "round_facts env pd name src opts s (Inr (Some m)) s1"
  shows "run_facts src opts (name # C) s (Inr (Some m)) s1"
proof -
  from assms [unfolded round_facts_def] obtain ro where
    1: "extends s s1" "probes (new_events s s1) = [(name, src, opts, position_of (world s) src)]"
       "outcomes (new_events s s1) = [(name, ro)]"
       "Inr (Some m) = result_of ro"
    by auto
  from 1(4) have ro: "ro = Inr (Some m)" by (cases ro rule: result_of.cases) auto
  show ?thesis
    by (rule run_facts_SomeI [where k = 0]) (simp_all add: 1(1-3) ro)
qed

lemma run_facts_onward:
  assumes a: "round_facts env pd name src opts s (Inr None) s1"
    and r: "run_facts src opts C s1 r s'"
  shows "run_facts src opts (name # C) s r s'"
proof -
  from a [unfolded round_facts_def] obtain ro where
    1: "extends s s1" "probes (new_events s s1) = [(name, src, opts, position_of (world s) src)]"
       "outcomes (new_events s s1) = [(name, ro)]"
       "Inr None = result_of ro"
    by auto
  from 1(4) have f: "\<not> succeeded ro" by (cases ro rule: result_of.cases) auto
  note c = run_facts_common [OF r]
  have P: "probes (new_events s s') = (name, src, opts, position_of (world s) src) # probes (new_events s1 s')"
    using probes_new_trans [OF 1(1) c(1)] 1(2) by simp
  have O: "outcomes (new_events s s') = (name, ro) # outcomes (new_events s1 s')"
    using outcomes_new_trans [OF 1(1) c(1)] 1(3) by simp
  have E: "extends s s'" using 1(1) c(1) by (rule extends_trans)
  have M: "map fst (outcomes (new_events s s')) = map fst (probes (new_events s s'))"
    unfolding P O using c(2) by simp
  have S: "\<forall>x \<in> set (probes (new_events s s')). fst (snd x) = src \<and> fst (snd (snd x)) = opts"
    unfolding P using c(3) by simp
  show ?thesis
  proof (cases r)
    case (Inl e)
    then show ?thesis using c(4) by simp
  next
    case (Inr a)
    show ?thesis
    proof (cases a)
      case None
      note d = run_facts_NoneD [OF r [unfolded Inr None]]
      show ?thesis unfolding Inr None
      proof (rule run_facts_NoneI [OF E M S])
        show "map fst (probes (new_events s s')) = name # C" unfolding P using d(1) by simp
        show "\<forall>x \<in> set (outcomes (new_events s s')). \<not> succeeded (snd x)"
          unfolding O using d(2) f by simp
      qed
    next
      case (Some m)
      note d = run_facts_SomeD [OF r [unfolded Inr Some]]
      from d(1) obtain k where k: "k < length C"
        "map fst (probes (new_events s1 s')) = take (Suc k) C" by blast
      show ?thesis unfolding Inr Some
      proof (rule run_facts_SomeI [OF E M S, where k = "Suc k"])
        show "Suc k < length (name # C)" using k by simp
        show "map fst (probes (new_events s s')) = take (Suc (Suc k)) (name # C)"
          unfolding P using k by simp
        show "outcomes (new_events s s') \<noteq> []" unfolding O by simp
        show "snd (last (outcomes (new_events s s'))) = Inr (Some m)"
          unfolding O using d(2,3) by simp
        show "\<forall>x \<in> set (butlast (outcomes (new_events s s'))). \<not> succeeded (snd x)"
          unfolding O using d(2,4) f by simp
      qed
    qed
  qed
qed

lemma trial_loop_run:
  "trial_loop env pd src opts tcb tried names s = (r, s')
     \<Longrightarrow> run_facts src opts (to_try env tcb tried names) s r s'"
proof (induction names arbitrary: tried s)
  case Nil
  then have "r = Inr None" "s' = s" by simp_all
  then show ?case
    by (simp add: run_facts_def to_try_Nil extends_refl new_events_refl)
next
  case (Cons name0 names)
  show ?case
  proof (cases rule: trial_loop_step [of tcb name0 tried env pd src opts names s])
    case dup
    then show ?thesis using Cons by (simp add: to_try_dup)
  next
    case unknown
    define sp where "sp = snd (print_if (pd \<ge> 1)
               (Print (''[Info] Skipping unknown compression backend: '' @ canonical tcb name0)) s)"
    have "run_facts src opts (to_try env tcb (insert (canonical tcb name0) tried) names) sp r s'"
      using Cons.IH [of "insert (canonical tcb name0) tried" sp] Cons.prems unknown(3)
      by (simp add: sp_def)
    moreover note p = print_if_state [where s = s and c = "pd \<ge> 1"
        and l = "Print (''[Info] Skipping unknown compression backend: '' @ canonical tcb name0)",
        folded sp_def]
    ultimately have "run_facts src opts (to_try env tcb (insert (canonical tcb name0) tried) names) s r s'"
      by (intro run_facts_skip [of s sp]) simp_all
    then show ?thesis using unknown by (simp add: to_try_unknown)
  next
    case (found bo exts m s1)
    have "r = Inr (Some m)" "s' = s1" using found(4) Cons.prems by simp_all
    then show ?thesis
      using run_facts_found [OF attempt_facts [OF found(2) found(3)]] found(1,2)
      by (simp add: to_try_known)
  next
    case (onward bo exts s1)
    have "run_facts src opts (to_try env tcb (insert (canonical tcb name0) tried) names) s1 r s'"
      using Cons.IH [of "insert (canonical tcb name0) tried" s1] Cons.prems onward(4) by simp
    then show ?thesis
      using run_facts_onward [OF attempt_facts [OF onward(2) onward(3)]] onward(1,2)
      by (simp add: to_try_known)
  qed
qed

lemma rstrip_no_trailing: "rstrip s c \<noteq> [] \<Longrightarrow> last (rstrip s c) \<noteq> c"
proof -
  assume a: "rstrip s c \<noteq> []"
  then have "dropWhile (\<lambda>x. x = c) (rev s) \<noteq> []" by (simp add: rstrip_def)
  then have "hd (dropWhile (\<lambda>x. x = c) (rev s)) \<noteq> c"
    using hd_dropWhile [of "\<lambda>x. x = c" "rev s"] by simp
  then show ?thesis using a by (simp add: rstrip_def last_rev)
qed

lemma rstrip_prefix: "\<exists>zs. s = rstrip s c @ zs \<and> set zs \<subseteq> {c}"
proof -
  have "rev s = takeWhile (\<lambda>x. x = c) (rev s) @ dropWhile (\<lambda>x. x = c) (rev s)" by simp
  then have "s = rev (dropWhile (\<lambda>x. x = c) (rev s)) @ rev (takeWhile (\<lambda>x. x = c) (rev s))"
    by (metis rev_append rev_rev_ident)
  moreover have "set (rev (takeWhile (\<lambda>x. x = c) (rev s))) \<subseteq> {c}"
    by (auto dest: set_takeWhileD)
  ultimately show ?thesis unfolding rstrip_def by blast
qed

lemma rstrip_empty_iff: "rstrip s c = [] \<longleftrightarrow> set s \<subseteq> {c}"
  by (auto simp: rstrip_def dropWhile_eq_Nil_conv)

lemma endswith_single: "endswith s [c] \<longleftrightarrow> s \<noteq> [] \<and> last s = c"
  by (cases s rule: rev_cases) (auto simp: endswith_def)

lemma startswith_single: "startswith s [c] \<longleftrightarrow> s \<noteq> [] \<and> hd s = c"
  by (cases s) (auto simp: startswith_def)

lemma dropbox_path_shape:
  "dropbox_path p =
     (if set p \<subseteq> {CHR ''/''} then []
      else dropbox_path p) \<and>
   (\<not> set p \<subseteq> {CHR ''/''} \<longrightarrow>
      startswith (dropbox_path p) ''/'' \<and> \<not> endswith (dropbox_path p) ''/'')"
proof (cases "set p \<subseteq> {CHR ''/''}")
  case True
  then have "set (if p \<noteq> [] \<and> \<not> startswith p ''/'' then ''/'' @ p else p) \<subseteq> {CHR ''/''}"
    by auto
  then show ?thesis using True
    unfolding dropbox_path_def Let_def by (simp only: rstrip_empty_iff [symmetric] if_True) simp
next
  case False
  define q where "q = (if p \<noteq> [] \<and> \<not> startswith p ''/'' then ''/'' @ p else p)"
  have q1: "hd q = CHR ''/''" "q \<noteq> []"
    using False by (cases p; auto simp: q_def startswith_def)+
  have q2: "\<not> set q \<subseteq> {CHR ''/''}" using False by (auto simp: q_def)
  have d: "dropbox_path p = rstrip q CHR ''/''" by (simp add: dropbox_path_def q_def)
  have ne: "rstrip q CHR ''/'' \<noteq> []" using q2 by (simp add: rstrip_empty_iff)
  obtain zs where zs: "q = rstrip q CHR ''/'' @ zs" using rstrip_prefix by blast
  have "hd (rstrip q CHR ''/'') = CHR ''/''" using zs ne q1 by (metis hd_append2)
  then have s: "startswith (dropbox_path p) ''/''"
    using ne d by (simp add: startswith_single)
  have "last (rstrip q CHR ''/'') \<noteq> CHR ''/''" using ne by (rule rstrip_no_trailing)
  then have e: "\<not> endswith (dropbox_path p) ''/''"
    using ne d by (simp add: endswith_single)
  show ?thesis using False s e by simp
qed

lemma position_facts_skip:
  assumes e: "extends s s1" and p: "probes (new_events s s1) = []"
    and o: "outcomes (new_events s s1) = []" and w: "world s1 = world s"
    and e1: "extends s1 s'" and r: "position_facts env src s1 s'"
  shows "position_facts env src s s'"
proof -
  have A: "probes (new_events s s') = probes (new_events s1 s')"
    using probes_new_trans [OF e e1] p by simp
  have B: "outcomes (new_events s s') = outcomes (new_events s1 s')"
    using outcomes_new_trans [OF e e1] o by simp
  show ?thesis using r unfolding position_facts_def A B w by blast
qed

lemma position_facts_found:
  assumes "round_facts env pd name src opts s r s1"
  shows "position_facts env src s s1"
proof -
  from assms [unfolded round_facts_def] obtain ro where
    1: "probes (new_events s s1) = [(name, src, opts, position_of (world s) src)]"
       "outcomes (new_events s s1) = [(name, ro)]"
    by auto
  show ?thesis unfolding position_facts_def 1 by simp
qed

lemma position_facts_onward:
  assumes a: "round_facts env pd name src opts s r0 s1"
    and e1: "extends s1 s'"
    and r: "position_facts env src s1 s'"
  shows "position_facts env src s s'"
proof -
  from a [unfolded round_facts_def] obtain ro where
    1: "extends s s1" "probes (new_events s s1) = [(name, src, opts, position_of (world s) src)]"
       "outcomes (new_events s s1) = [(name, ro)]"
       "\<forall>e. ro = Inl e \<longrightarrow> after_raise env pd name src e s s1"
    by auto
  have P: "probes (new_events s s') = (name, src, opts, position_of (world s) src) # probes (new_events s1 s')"
    using probes_new_trans [OF 1(1) e1] 1(2) by simp
  have O: "outcomes (new_events s s') = (name, ro) # outcomes (new_events s1 s')"
    using outcomes_new_trans [OF 1(1) e1] 1(3) by simp
  have reset: "snd (snd (snd (probes (new_events s s') ! Suc i))) = Some 0"
    if f: "src = File f" "hasattr_seek env f" "\<forall>w. seek_error env f 0 w = None"
      and i: "Suc i < length (probes (new_events s s'))"
         "isl (snd (outcomes (new_events s s') ! i))" for f i
  proof (cases i)
    case 0
    from i(2) 0 O obtain e where "ro = Inl e" by (cases ro) auto
    with 1(4) have "after_raise env pd name src e s s1" by simp
    with f have z: "pos (world s1) f = 0" by (simp add: after_raise_def)
    have ne: "probes (new_events s1 s') \<noteq> []" using i(1) 0 P by auto
    with r have "snd (snd (snd (hd (probes (new_events s1 s'))))) = position_of (world s1) src"
      by (simp add: position_facts_def)
    then show ?thesis using ne 0 P z f(1) by (simp add: hd_conv_nth)
  next
    case (Suc j)
    have "Suc j < length (probes (new_events s1 s'))" using i(1) Suc P by simp
    moreover have "isl (snd (outcomes (new_events s1 s') ! j))" using i(2) Suc O by simp
    ultimately have "snd (snd (snd (probes (new_events s1 s') ! Suc j))) = Some 0"
      using r f by (simp add: position_facts_def)
    then show ?thesis using Suc P by simp
  qed
  show ?thesis
    unfolding position_facts_def using reset by (auto simp: P)
qed

lemma trial_loop_extends:
  "trial_loop env pd src opts tcb tried names s = (r, s') \<Longrightarrow> extends s s'"
  using trial_loop_run [of env pd src opts tcb tried names s r s'] run_facts_common(1) by blast

lemma trial_loop_positions:
  "trial_loop env pd src opts tcb tried names s = (r, s') \<Longrightarrow> position_facts env src s s'"
proof (induction names arbitrary: tried s)
  case Nil
  then have "s' = s" by simp
  then show ?case by (simp add: position_facts_def new_events_refl)
next
  case (Cons name0 names)
  show ?case
  proof (cases rule: trial_loop_step [of tcb name0 tried env pd src opts names s])
    case dup
    then show ?thesis using Cons by simp
  next
    case unknown
    define sp where "sp = snd (print_if (pd \<ge> 1)
               (Print (''[Info] Skipping unknown compression backend: '' @ canonical tcb name0)) s)"
    have t: "trial_loop env pd src opts tcb (insert (canonical tcb name0) tried) names sp = (r, s')"
      using Cons.prems unknown(3) by (simp add: sp_def)
    note p = print_if_state [where s = s and c = "pd \<ge> 1"
        and l = "Print (''[Info] Skipping unknown compression backend: '' @ canonical tcb name0)",
        folded sp_def]
    show ?thesis
      using p Cons.IH [OF t] trial_loop_extends [OF t]
      by (intro position_facts_skip [of s sp]) simp_all
  next
    case (found bo exts m s1)
    have "s' = s1" using found(4) Cons.prems by simp
    then show ?thesis
      using position_facts_found [OF attempt_facts [OF found(2) found(3)]] by simp
  next
    case (onward bo exts s1)
    have t: "trial_loop env pd src opts tcb (insert (canonical tcb name0) tried) names s1 = (r, s')"
      using Cons.prems onward(4) by simp
    show ?thesis
      using position_facts_onward [OF attempt_facts [OF onward(2) onward(3)]
          trial_loop_extends [OF t] Cons.IH [OF t]] .
  qed
qed

lemma log_facts_skip:
  assumes e: "extends s s1" and o: "outcomes (new_events s s1) = []"
    and e1: "extends s1 s'" and r: "log_facts env pd src s1 s'"
  shows "log_facts env pd src s s'"
proof -
  have B: "outcomes (new_events s s') = outcomes (new_events s1 s')"
    using outcomes_new_trans [OF e e1] o by simp
  have L: "set (new_lines s1 s') \<subseteq> set (new_lines s s')"
    using new_lines_trans [OF e e1] by simp
  show ?thesis using r L unfolding log_facts_def B by blast
qed

lemma log_facts_found:
  assumes "round_facts env pd name src opts s r s1"
  shows "log_facts env pd src s s1"
proof -
  from assms [unfolded round_facts_def] obtain ro where
    1: "outcomes (new_events s s1) = [(name, ro)]"
       "\<forall>e. ro = Inl e \<longrightarrow> after_raise env pd name src e s s1"
    by auto
  show ?thesis
  proof (cases ro)
    case (Inl e)
    with 1(2) have "after_raise env pd name src e s s1" by simp
    then show ?thesis unfolding log_facts_def 1(1) after_raise_def using Inl by simp
  next
    case (Inr a)
    then show ?thesis unfolding log_facts_def 1(1) by simp
  qed
qed

lemma log_facts_onward:
  assumes a: "round_facts env pd name src opts s r0 s1"
    and e1: "extends s1 s'"
    and r: "log_facts env pd src s1 s'"
  shows "log_facts env pd src s s'"
proof -
  from a [unfolded round_facts_def] have e: "extends s s1" by simp
  have O: "outcomes (new_events s s') = outcomes (new_events s s1) @ outcomes (new_events s1 s')"
    using outcomes_new_trans [OF e e1] .
  have L: "set (new_lines s s') = set (new_lines s s1) \<union> set (new_lines s1 s')"
    using new_lines_trans [OF e e1] by simp
  note f = log_facts_found [OF a]
  show ?thesis
    using f r unfolding log_facts_def O L
    by (simp only: set_append Un_iff ball_Un bex_Un) blast
qed

lemma trial_loop_logs:
  "trial_loop env pd src opts tcb tried names s = (r, s') \<Longrightarrow> log_facts env pd src s s'"
proof (induction names arbitrary: tried s)
  case Nil
  then have "s' = s" by simp
  then show ?case by (simp add: log_facts_def new_events_refl)
next
  case (Cons name0 names)
  show ?case
  proof (cases rule: trial_loop_step [of tcb name0 tried env pd src opts names s])
    case dup
    then show ?thesis using Cons by simp
  next
    case unknown
    define sp where "sp = snd (print_if (pd \<ge> 1)
               (Print (''[Info] Skipping unknown compression backend: '' @ canonical tcb name0)) s)"
    have t: "trial_loop env pd src opts tcb (insert (canonical tcb name0) tried) names sp = (r, s')"
      using Cons.prems unknown(3) by (simp add: sp_def)
    note p = print_if_state [where s = s and c = "pd \<ge> 1"
        and l = "Print (''[Info] Skipping unknown compression backend: '' @ canonical tcb name0)",
        folded sp_def]
    show ?thesis
      using p Cons.IH [OF t] trial_loop_extends [OF t]
      by (intro log_facts_skip [of s sp]) simp_all
  next
    case (found bo exts m s1)
    have "s' = s1" using found(4) Cons.prems by simp
    then show ?thesis
      using log_facts_found [OF attempt_facts [OF found(2) found(3)]] by simp
  next
    case (onward bo exts s1)
    have t: "trial_loop env pd src opts tcb (insert (canonical tcb name0) tried) names s1 = (r, s')"
      using Cons.prems onward(4) by simp
    show ?thesis
      using log_facts_onward [OF attempt_facts [OF onward(2) onward(3)]
          trial_loop_extends [OF t] Cons.IH [OF t]] .
  qed
qed

lemma trial_loop_skip_logs:
  "trial_loop env pd src opts tcb tried names s = (Inr None, s') \<Longrightarrow> pd \<ge> 1 \<Longrightarrow>
   z \<in> set (dedup_from tried (map (canonical tcb) names)) \<Longrightarrow> map_of (BACKENDS env) z = None \<Longrightarrow>
   Print (''[Info] Skipping unknown compression backend: '' @ z) \<in> set (new_lines s s')"
proof (induction names arbitrary: tried s)
  case Nil
  then show ?case by simp
next
  case (Cons name0 names)
  show ?case
  proof (cases rule: trial_loop_step [of tcb name0 tried env pd src opts names s])
    case dup
    then show ?thesis using Cons by simp
  next
    case unknown
    define l where "l = Print (''[Info] Skipping unknown compression backend: '' @ canonical tcb name0)"
    define sp where "sp = snd (print_if (pd \<ge> 1) l s)"
    have t: "trial_loop env pd src opts tcb (insert (canonical tcb name0) tried) names sp = (Inr None, s')"
      using Cons.prems(1) unknown(3) by (simp add: sp_def l_def)
    note p = print_if_state [where s = s and c = "pd \<ge> 1" and l = l, folded sp_def]
    have L: "new_lines s s' = new_lines s sp @ new_lines sp s'"
      using new_lines_trans [OF p(1) trial_loop_extends [OF t]] .
    show ?thesis
    proof (cases "z = canonical tcb name0")
      case True
      then show ?thesis unfolding L using p(3) Cons.prems(2) by (simp add: l_def)
    next
      case False
      then have "z \<in> set (dedup_from (insert (canonical tcb name0) tried) (map (canonical tcb) names))"
        using Cons.prems(3) unknown(1) by simp
      from Cons.IH [OF t Cons.prems(2) this Cons.prems(4)] show ?thesis unfolding L by simp
    qed
  next
    case (found bo exts m s1)
    then show ?thesis using Cons.prems(1) by simp
  next
    case (onward bo exts s1)
    have t: "trial_loop env pd src opts tcb (insert (canonical tcb name0) tried) names s1 = (Inr None, s')"
      using Cons.prems onward(4) by simp
    have e: "extends s s1" using attempt_facts [OF onward(2) onward(3)] by (simp add: round_facts_def)
    have L: "new_lines s s' = new_lines s s1 @ new_lines s1 s'"
      using new_lines_trans [OF e trial_loop_extends [OF t]] .
    have "z \<noteq> canonical tcb name0" using Cons.prems(4) onward(2) by auto
    then have "z \<in> set (dedup_from (insert (canonical tcb name0) tried) (map (canonical tcb) names))"
      using Cons.prems(3) onward(1) by simp
    from Cons.IH [OF t Cons.prems(2) this Cons.prems(4)] show ?thesis unfolding L by simp
  qed
qed

lemma trial_loop_first_skip_logs:
  assumes "trial_loop env pd src opts tcb tried (z # names) s = (r, s')" "pd \<ge> 1"
    "canonical tcb z \<notin> tried" "map_of (BACKENDS env) (canonical tcb z) = None"
  shows "Print (''[Info] Skipping unknown compression backend: '' @ canonical tcb z) \<in> set (new_lines s s')"
proof (cases rule: trial_loop_step [of tcb z tried env pd src opts names s])
  case dup
  then show ?thesis using assms by simp
next
  case unknown
  define l where "l = Print (''[Info] Skipping unknown compression backend: '' @ canonical tcb z)"
  define sp where "sp = snd (print_if (pd \<ge> 1) l s)"
  have t: "trial_loop env pd src opts tcb (insert (canonical tcb z) tried) names sp = (r, s')"
    using assms(1) unknown(3) by (simp add: sp_def l_def)
  note p = print_if_state [where s = s and c = "pd \<ge> 1" and l = l, folded sp_def]
  have L: "new_lines s s' = new_lines s sp @ new_lines sp s'"
    using new_lines_trans [OF p(1) trial_loop_extends [OF t]] .
  show ?thesis unfolding L using p(3) assms(2) by (simp add: l_def)
next
  case (found bo exts m s1)
  then show ?thesis using assms by simp
next
  case (onward bo exts s1)
  then show ?thesis using assms by simp
qed

lemma quiet_case_option:
  "quiet a \<Longrightarrow> (\<And>x. quiet (b x)) \<Longrightarrow> quiet (case v of None \<Rightarrow> a | Some x \<Rightarrow> b x)"
  by (cases v) simp_all

lemma quiet_case_prod: "(\<And>a b. quiet (f a b)) \<Longrightarrow> quiet (case v of (a, b) \<Rightarrow> f a b)"
  by (cases v) simp

lemma quiet_case_opened:
  "(\<And>m. quiet (a m)) \<Longrightarrow> (\<And>f. quiet (b f)) \<Longrightarrow> (\<And>p. quiet (c p)) \<Longrightarrow>
   quiet (case v of OpenedMount m \<Rightarrow> a m | OpenedFile f \<Rightarrow> b f | OpenedPath p \<Rightarrow> c p)"
  by (cases v) simp_all

lemma quiet_let: "quiet (f v) \<Longrightarrow> quiet (Let v f)"
  by simp

lemma quiet_openGit: "quiet (openGitMountSource env url)"
  unfolding openGitMountSource_def Let_def
  by (intro quiet_intros quiet_case_option) simp_all

lemma quiet_openSSH: "quiet (openSSHFSMountSource env url)"
  unfolding openSSHFSMountSource_def Let_def
  by (intro quiet_intros) simp_all

lemma quiet_open_on_filesystem: "quiet (open_on_filesystem env url pd fs path)"
  unfolding open_on_filesystem_def
  by (intro quiet_intros quiet_seek) simp_all

lemma quiet_tryOpenURL: "quiet (tryOpenURL env url pd)"
  unfolding tryOpenURL_def Let_def
  by (intro quiet_intros quiet_case_option quiet_case_prod quiet_openGit quiet_openSSH
        quiet_open_on_filesystem) simp_all

lemma quiet_resolve_url: "quiet (resolve_url env pd src opts)"
  unfolding resolve_url_def
  by (cases src) (auto intro!: quiet_intros quiet_case_opened quiet_tryOpenURL)

lemma prepare_path_state: "snd (prepare_path env src opts s) = s"
  unfolding prepare_path_def
  by (cases src) (auto simp: ret_def raise_def Let_def split: option.splits list.splits)

lemma trial_input_SomeD:
  assumes "trial_input env src opts s = Some (src', opts', auto, joined, s1)"
  shows "openMountSource env src opts s = run_trial env (get_printDebug opts) src' opts' auto joined s1"
    and "extends s s1" and "probes (new_events s s1) = []" and "outcomes (new_events s s1) = []"
proof -
  let ?pd = "get_printDebug opts"
  obtain r1 sa where a: "resolve_url env ?pd src opts s = (r1, sa)"
    by (cases "resolve_url env ?pd src opts s")
  from assms a obtain src1 opts1 where r1: "r1 = Inr (Inr (src1, opts1))"
    by (auto simp: trial_input_def split: sum.splits prod.splits)
  obtain r2 sb where b: "prepare_path env src1 opts1 sa = (r2, sb)"
    by (cases "prepare_path env src1 opts1 sa")
  from assms a r1 b have r2: "r2 = Inr (Inr (src', opts', auto, joined))" and sb: "sb = s1"
    by (auto simp: trial_input_def split: sum.splits prod.splits)
  have "sb = sa" using prepare_path_state [of env src1 opts1 sa] b by simp
  with sb have sa: "sa = s1" by simp
  note ba = bnd_eq [of "resolve_url env ?pd src opts", OF a]
  note bb = bnd_eq [of "prepare_path env src1 opts1", OF b]
  show "openMountSource env src opts s = run_trial env ?pd src' opts' auto joined s1"
    unfolding openMountSource_def Let_def
    by (simp add: ba r1 bb r2 sb)
  have q: "sa = snd (resolve_url env ?pd src opts s)" using a by simp
  show "extends s s1" unfolding sa [symmetric] q by (rule quiet_extends [OF quiet_resolve_url])
  show "probes (new_events s s1) = []" unfolding sa [symmetric] q
    by (rule quiet_probes [OF quiet_resolve_url])
  show "outcomes (new_events s s1) = []" unfolding sa [symmetric] q
    by (rule quiet_outcomes [OF quiet_resolve_url])
qed

lemma trial_input_NoneD:
  assumes "trial_input env src opts s = None"
  shows "extends s (snd (openMountSource env src opts s))"
    and "probes (new_events s (snd (openMountSource env src opts s))) = []"
    and "outcomes (new_events s (snd (openMountSource env src opts s))) = []"
proof -
  let ?pd = "get_printDebug opts"
  obtain r1 sa where a: "resolve_url env ?pd src opts s = (r1, sa)"
    by (cases "resolve_url env ?pd src opts s")
  have q: "sa = snd (resolve_url env ?pd src opts s)" using a by simp
  note ba = bnd_eq [of "resolve_url env ?pd src opts", OF a]
  have "snd (openMountSource env src opts s) = sa"
  proof (cases r1)
    case (Inl e)
    then show ?thesis unfolding openMountSource_def Let_def by (simp add: ba)
  next
    case (Inr x)
    show ?thesis
    proof (cases x)
      case (Inl m)
      then show ?thesis unfolding openMountSource_def Let_def using Inr
        by (simp add: ba ret_def)
    next
      case (Inr y)
      obtain src1 opts1 where y: "y = (src1, opts1)" by (cases y)
      obtain r2 sb where b: "prepare_path env src1 opts1 sa = (r2, sb)"
        by (cases "prepare_path env src1 opts1 sa")
      have sb: "sb = sa" using prepare_path_state [of env src1 opts1 sa] b by simp
      from assms a \<open>r1 = Inr x\<close> Inr y b have "\<not> (\<exists>z. r2 = Inr (Inr z))"
        by (auto simp: trial_input_def split: sum.splits prod.splits)
      then have "snd (case r2 of Inl e \<Rightarrow> (Inl e, sb)
             | Inr r \<Rightarrow> (case r of Inl m \<Rightarrow> ret m
                  | Inr (fileOrPath, options, autoPrioritizedBackends, joinedFileName) \<Rightarrow>
                      run_trial env ?pd fileOrPath options autoPrioritizedBackends joinedFileName) sb) = sb"
        by (cases r2) (auto simp: ret_def split: sum.splits)
      then show ?thesis unfolding openMountSource_def Let_def using \<open>r1 = Inr x\<close> Inr y sb
        by (simp add: ba bnd_eq [of "prepare_path env src1 opts1", OF b])
    qed
  qed
  then show "extends s (snd (openMountSource env src opts s))"
    and "probes (new_events s (snd (openMountSource env src opts s))) = []"
    and "outcomes (new_events s (snd (openMountSource env src opts s))) = []"
    unfolding q
    by (simp_all add: quiet_extends quiet_probes quiet_outcomes quiet_resolve_url)
qed

lemma trial_loop_never_raises:
  "trial_loop env pd src opts tcb tried names s = (r, s') \<Longrightarrow> \<exists>rl. r = Inr rl"
  using trial_loop_run [of env pd src opts tcb tried names s r s'] run_facts_common(4) [of src opts _ s r s']
  by (cases r) auto

lemma run_trial_eq:
  assumes gp: "get_prioritizedBackends opts = Some prio"
    and tl: "trial_loop env pd src opts (tarCompressionBackends env) {}
               (prio @ auto @ map fst (BACKENDS env)) s = (Inr rl, s')"
  shows "run_trial env pd src opts auto joined s = (finish env src joined rl, s')"
  unfolding run_trial_def gp option.case
    bnd_eq [of "trial_loop env pd src opts (tarCompressionBackends env) {}
               (prio @ auto @ map fst (BACKENDS env))", OF tl]
  by (cases rl; cases src) (simp_all add: finish_def ret_def raise_def)

lemma openMountSource_trial:
  assumes ti: "trial_input env src opts s = Some (src', opts', auto, joined, s1)"
    and gp: "get_prioritizedBackends opts' = Some prio"
    and run: "openMountSource env src opts s = (r, s')"
  shows "\<exists>rl. trial_loop env (get_printDebug opts) src' opts' (tarCompressionBackends env) {}
               (prio @ auto @ map fst (BACKENDS env)) s1 = (Inr rl, s')
          \<and> r = finish env src' joined rl"
    and "extends s1 s'" and "extends s s'"
    and "probes (new_events s s') = probes (new_events s1 s')"
    and "outcomes (new_events s s') = outcomes (new_events s1 s')"
    and "set (new_lines s1 s') \<subseteq> set (new_lines s s')"
proof -
  let ?pd = "get_printDebug opts"
  let ?loop = "trial_loop env ?pd src' opts' (tarCompressionBackends env) {}
               (prio @ auto @ map fst (BACKENDS env))"
  note t = trial_input_SomeD [OF ti]
  obtain r0 s2 where tl: "?loop s1 = (r0, s2)" by (cases "?loop s1")
  from trial_loop_never_raises [OF tl] obtain rl where r0: "r0 = Inr rl" by blast
  from run_trial_eq [OF gp tl [unfolded r0], of joined] t(1) run
  have eq: "r = finish env src' joined rl" "s' = s2" by simp_all
  show "\<exists>rl. ?loop s1 = (Inr rl, s') \<and> r = finish env src' joined rl"
    using tl r0 eq by blast
  show e1: "extends s1 s'" using trial_loop_extends [OF tl] eq by simp
  show "extends s s'" using t(2) e1 by (rule extends_trans)
  show "probes (new_events s s') = probes (new_events s1 s')"
    using probes_new_trans [OF t(2) e1] t(3) by simp
  show "outcomes (new_events s s') = outcomes (new_events s1 s')"
    using outcomes_new_trans [OF t(2) e1] t(4) by simp
  show "set (new_lines s1 s') \<subseteq> set (new_lines s s')"
    using new_lines_trans [OF t(2) e1] by simp
qed

lemma trial_input_File: "trial_input env (File f) opts s = Some (File f, opts, [], [], s)"
  by (simp add: trial_input_def resolve_url_def prepare_path_def ret_def)

lemma trial_input_local_file:
  assumes "\<not> contains ''://'' p" "os_path_exists env p (world s)" "\<not> os_path_isdir env p (world s)"
    "checkForSplitFile env p (world s) = None"
  shows "trial_input env (Path p) opts s =
           Some (Path p, opts,
                 map fst (filter (\<lambda>(backend, value). matchesExtension p (snd value)) (BACKENDS env)),
                 [], s)"
  using assms by (simp add: trial_input_def resolve_url_def prepare_path_def ret_def)

lemma trial_input_shard:
  assumes "\<not> contains ''://'' p" "os_path_exists env p (world s)" "\<not> os_path_isdir env p (world s)"
    "checkForSplitFile env p (world s) = Some (first # others)"
  shows "trial_input env (Path p) opts s =
           Some (File (JoinedFileFromFactory (first # others)),
                 (if ''indexFilePath'' \<notin> dom opts \<or> \<not> truthy (the (opts ''indexFilePath''))
                  then opts(''indexFilePath'' \<mapsto> PStr (first @ ''.index.sqlite'')) else opts),
                 [], rsplit1_head (basename first), s)"
  using assms by (simp add: trial_input_def resolve_url_def prepare_path_def ret_def Let_def)

lemma trial_input_url_file:
  assumes "contains ''://'' url" "tryOpenURL env url (get_printDebug opts) s = (Inr (OpenedFile f), s1)"
  shows "trial_input env (Path url) opts s =
           Some (File f,
                 (if ''tarFileName'' \<notin> dom opts then opts(''tarFileName'' \<mapsto> PStr url) else opts),
                 [], [], s1)"
  using assms
  by (simp add: trial_input_def resolve_url_def prepare_path_def ret_def
        bnd_eq [of "tryOpenURL env url (get_printDebug opts)", OF assms(2)])

lemma openMountSource_missing:
  assumes "\<not> contains ''://'' p" "\<not> os_path_exists env p (world s)"
  shows "openMountSource env (Path p) opts s
           = (Inl (RatarmountError (''Mount source does not exist: '' @ p)), s)"
  using assms
  by (simp add: openMountSource_def resolve_url_def prepare_path_def ret_def raise_def bnd_def)

lemma openMountSource_directory:
  assumes "\<not> contains ''://'' p" "os_path_exists env p (world s)" "os_path_isdir env p (world s)"
  shows "openMountSource env (Path p) opts s
           = (Inr (FolderMountSource (if p = ''.'' then ''.'' else os_path_realpath env p (world s))), s)"
  using assms
  by (simp add: openMountSource_def resolve_url_def prepare_path_def ret_def raise_def bnd_def)

lemma ret_apply: "ret a s = (Inr a, s)" by (simp add: ret_def)

lemma raise_apply: "raise e s = (Inl e, s)" by (simp add: raise_def)

lemma bnd_apply: "bnd m f s = (case m s of (Inl e, s') \<Rightarrow> (Inl e, s') | (Inr a, s') \<Rightarrow> f a s')"
  by (simp add: bnd_def)

lemma catch_apply: "catch m h s = (case m s of (Inl e, s') \<Rightarrow> h e s' | (Inr a, s') \<Rightarrow> (Inr a, s'))"
  by (simp add: catch_def)

lemma finally_apply: "finally_do m fin s = (case m s of (r, s') \<Rightarrow>
            (case fin s' of (Inl e, s'') \<Rightarrow> (Inl e, s'') | (Inr _, s'') \<Rightarrow> (r, s'')))"
  by (simp add: finally_do_def)

lemma call_apply: "call ev f s = (case f (world s) of (r, w) \<Rightarrow> (r, s\<lparr>world := w, trace := trace s @ [ev]\<rparr>))"
  by (simp add: call_def)

lemma invoke_apply: "invoke name backendOpen fileOrPath options s =
     (case backendOpen fileOrPath options
                 (s\<lparr>trace := trace s
                      @ [Probe name fileOrPath options (position_of (world s) fileOrPath)]\<rparr>) of
             (r, s') \<Rightarrow> (r, s'\<lparr>trace := trace s' @ [Outcome name r]\<rparr>))"
  by (simp add: invoke_def)

lemma prepare_path_apply:
  "prepare_path env (File f) options s = (Inr (Inr (File f, options, [], [])), s)"
  by (simp add: prepare_path_def ret_def)

lemmas eval_defs =
  openMountSource_def resolve_url_def run_trial_def get_prioritizedBackends_def
  tarCompressionBackends_def BACKENDS_def attempt_def seek_back_def seek_def
  openRarMountSource_def openTarMountSource_def openZipMountSource_def openPy7zrMountSource_def
  openLibarchiveMountSource_def openPySquashfsImage_def openWith_def
  getTarExtensions_def getFormatExtensions_def
  ret_apply raise_apply bnd_apply catch_apply finally_apply print_if_apply call_apply invoke_apply
  prepare_path_apply get_printDebug_def Let_def

lemma dropbox_no_token:
  assumes "environ (transports env) ''DROPBOX_TOKEN'' = None
           \<or> environ (transports env) ''DROPBOX_TOKEN'' = Some []"
  shows "\<exists>msg. fst (tryOpenURL env (''dropbox://'' @ rest) pd s) = Inl (RatarmountError msg)"
    and "fsspec (transports env) \<Longrightarrow> dropboxdrivefs (transports env) \<Longrightarrow>
         fst (tryOpenURL env (''dropbox://'' @ rest) pd s) = Inl (RatarmountError dropbox_token_message)"
  using assms
  unfolding tryOpenURL_def split_dropbox Let_def
  by (auto simp: bnd_apply print_if_apply raise_apply)

lemma dropbox_with_token:
  assumes "fsspec (transports env)" "dropboxdrivefs (transports env)"
    "environ (transports env) ''DROPBOX_TOKEN'' = Some token" "token \<noteq> []"
  shows "tryOpenURL env (''dropbox://'' @ rest) pd s =
           open_on_filesystem env (''dropbox://'' @ rest) pd
             (FixedDropboxDriveFileSystem token) (dropbox_path rest)
             (s\<lparr>out := out s @ (if pd \<ge> 3
                                then [Print (''[Info] Try to open URL: '' @ ''dropbox://'' @ rest),
                                      Print ''[Info] Try to open with fsspec'']
                                else [])\<rparr>)"
  using assms
  unfolding tryOpenURL_def split_dropbox Let_def
  by (simp add: bnd_apply print_if_apply ret_apply)

lemmas url_eval =
  tryOpenURL_def open_on_filesystem_def py_split1_def startswith_def endswith_def dropbox_path_def
  rstrip_def seek_def
  ret_apply raise_apply bnd_apply catch_apply print_if_apply call_apply Let_def

lemma dedup_from_set: "set (dedup_from S xs) = set xs - S"
  by (induction xs arbitrary: S) auto

lemma dedup_from_distinct: "distinct (dedup_from S xs)"
  by (induction xs arbitrary: S) (auto simp: dedup_from_set)

lemma to_try_distinct: "distinct (to_try env tcb S names)"
  by (simp add: to_try_def dedup_from_distinct)

lemma filter_dedup_insert:
  "\<not> P z \<Longrightarrow> filter P (dedup_from (insert z S) xs) = filter P (dedup_from S xs)"
proof (induction xs arbitrary: S)
  case Nil
  then show ?case by simp
next
  case (Cons x xs)
  show ?case
  proof (cases "x = z")
    case True
    then show ?thesis using Cons by (cases "z \<in> S") (simp_all add: insert_absorb)
  next
    case False
    show ?thesis
    proof (cases "x \<in> S")
      case True
      then show ?thesis using False Cons by simp
    next
      case nin: False
      have "filter P (dedup_from (insert z (insert x S)) xs) = filter P (dedup_from (insert x S) xs)"
        using Cons by blast
      then have "filter P (dedup_from (insert x (insert z S)) xs) = filter P (dedup_from (insert x S) xs)"
        by (simp add: insert_commute)
      then show ?thesis using False nin by simp
    qed
  qed
qed

lemma filter_dedup_removeAll:
  "\<not> P z \<Longrightarrow> filter P (dedup_from S (removeAll z xs)) = filter P (dedup_from S xs)"
proof (induction xs arbitrary: S)
  case Nil
  then show ?case by simp
next
  case (Cons x xs)
  show ?case
  proof (cases "x = z")
    case True
    have "filter P (dedup_from S (removeAll z (x # xs))) = filter P (dedup_from S xs)"
      using True Cons by simp
    moreover have "filter P (dedup_from S (x # xs)) = filter P (dedup_from S xs)"
      using True Cons.prems filter_dedup_insert [of P z S xs] by simp
    ultimately show ?thesis by simp
  next
    case False
    then show ?thesis using Cons by simp
  qed
qed

lemma tarfile_registered: "map_of (BACKENDS env) ''tarfile'' \<noteq> None"
  by (simp add: BACKENDS_def)

lemma canonical_removeAll:
  assumes "z \<notin> set tcb" "z \<noteq> ''tarfile''"
  shows "map (canonical tcb) (removeAll z names) = removeAll z (map (canonical tcb) names)"
  using assms by (induction names) (auto simp: canonical_def)

lemma to_try_without_unknown:
  assumes "map_of (BACKENDS env) z = None" "z \<notin> set tcb"
  shows "to_try env tcb S (pre @ rest) = to_try env tcb S (removeAll z pre @ rest)"
proof -
  have zt: "z \<noteq> ''tarfile''" using assms(1) tarfile_registered by metis
  have "to_try env tcb S (removeAll z (pre @ rest)) = to_try env tcb S (pre @ rest)"
    unfolding to_try_def canonical_removeAll [OF assms(2) zt]
    by (rule filter_dedup_removeAll) (simp add: assms(1))
  moreover have "to_try env tcb S (removeAll z (removeAll z pre @ rest)) = to_try env tcb S (removeAll z pre @ rest)"
    unfolding to_try_def canonical_removeAll [OF assms(2) zt]
    by (rule filter_dedup_removeAll) (simp add: assms(1))
  ultimately show ?thesis by simp
qed

lemma to_try_registered: "n \<in> set (to_try env tcb S names) \<Longrightarrow> map_of (BACKENDS env) n \<noteq> None"
  by (simp add: to_try_def)

lemma openMountSource_run:
  assumes ti: "trial_input env src opts s = Some (src', opts', auto, joined, s1)"
    and gp: "get_prioritizedBackends opts' = Some prio"
    and run: "openMountSource env src opts s = (r, s')"
  obtains rl where
    "r = finish env src' joined rl"
    "run_facts src' opts' (to_try env (tarCompressionBackends env) {} (prio @ auto @ map fst (BACKENDS env)))
       s1 (Inr rl) s'"
    "position_facts env src' s1 s'"
    "log_facts env (get_printDebug opts) src' s1 s'"
    "trial_loop env (get_printDebug opts) src' opts' (tarCompressionBackends env) {}
               (prio @ auto @ map fst (BACKENDS env)) s1 = (Inr rl, s')"
proof -
  from openMountSource_trial(1) [OF ti gp run] obtain rl where
    tl: "trial_loop env (get_printDebug opts) src' opts' (tarCompressionBackends env) {}
               (prio @ auto @ map fst (BACKENDS env)) s1 = (Inr rl, s')"
    and r: "r = finish env src' joined rl" by blast
  show thesis
    using that [OF r trial_loop_run [OF tl] trial_loop_positions [OF tl] trial_loop_logs [OF tl] tl] .
qed

lemma probe_exception_parts:
  assumes ti: "trial_input env src opts s = Some (src', opts', auto, joined, s1)"
    and gp: "get_prioritizedBackends opts' = Some prio"
    and run: "openMountSource env src opts s = (r, s')"
  shows "map fst (outcomes (new_events s s')) = map fst (probes (new_events s s'))"
    and "\<forall>x \<in> set (outcomes (new_events s s')). \<forall>e. snd x = Inl e \<longrightarrow> get_printDebug opts \<ge> 2 \<longrightarrow>
           Print (''[Info] Trying to open with '' @ fst x @ '' raised an exception: '' @ str_exn e)
             \<in> set (new_lines s s')"
    and "\<forall>i < length (outcomes (new_events s s')). \<not> succeeded (snd (outcomes (new_events s s') ! i)) \<longrightarrow>
           Suc i < length (probes (new_events s s'))
           \<or> map fst (probes (new_events s s'))
                = to_try env (tarCompressionBackends env) {} (prio @ auto @ map fst (BACKENDS env))"
    and "\<forall>e. r = Inl e \<longrightarrow>
           e = CompressionError (''Archive to open ('' @ str_source env src' @ '') has unrecognized format!'')
           \<and> map fst (probes (new_events s s'))
                = to_try env (tarCompressionBackends env) {} (prio @ auto @ map fst (BACKENDS env))
           \<and> (\<forall>x \<in> set (outcomes (new_events s s')). \<not> succeeded (snd x))"
proof -
  let ?C = "to_try env (tarCompressionBackends env) {} (prio @ auto @ map fst (BACKENDS env))"
  note m = openMountSource_trial [OF ti gp run]
  from openMountSource_run [OF ti gp run] obtain rl where
    r: "r = finish env src' joined rl"
    and rf: "run_facts src' opts' ?C s1 (Inr rl) s'"
    and lf: "log_facts env (get_printDebug opts) src' s1 s'" by blast
  note c = run_facts_common [OF rf]
  show "map fst (outcomes (new_events s s')) = map fst (probes (new_events s s'))"
    unfolding m(4,5) by (rule c(2))
  show "\<forall>x \<in> set (outcomes (new_events s s')). \<forall>e. snd x = Inl e \<longrightarrow> get_printDebug opts \<ge> 2 \<longrightarrow>
           Print (''[Info] Trying to open with '' @ fst x @ '' raised an exception: '' @ str_exn e)
             \<in> set (new_lines s s')"
    unfolding m(5) using lf m(6) unfolding log_facts_def by blast
  show "\<forall>i < length (outcomes (new_events s s')). \<not> succeeded (snd (outcomes (new_events s s') ! i)) \<longrightarrow>
           Suc i < length (probes (new_events s s')) \<or> map fst (probes (new_events s s')) = ?C"
  proof (cases rl)
    case None
    then show ?thesis unfolding m(4,5) using run_facts_NoneD(1) [OF rf [unfolded None]] by simp
  next
    case (Some mnt)
    note d = run_facts_SomeD [OF rf [unfolded Some]]
    have len: "length (outcomes (new_events s1 s')) = length (probes (new_events s1 s'))"
      using c(2) by (metis length_map)
    show ?thesis unfolding m(4,5)
    proof (intro allI impI)
      fix i
      assume i: "i < length (outcomes (new_events s1 s'))"
        and f: "\<not> succeeded (snd (outcomes (new_events s1 s') ! i))"
      have "i \<noteq> length (outcomes (new_events s1 s')) - 1"
      proof
        assume "i = length (outcomes (new_events s1 s')) - 1"
        then have "outcomes (new_events s1 s') ! i = last (outcomes (new_events s1 s'))"
          using d(2) by (simp add: last_conv_nth)
        with d(3) f show False by simp
      qed
      with i have "Suc i < length (outcomes (new_events s1 s'))" by simp
      then show "Suc i < length (probes (new_events s1 s')) \<or> map fst (probes (new_events s1 s')) = ?C"
        using len by simp
    qed
  qed
  show "\<forall>e. r = Inl e \<longrightarrow>
           e = CompressionError (''Archive to open ('' @ str_source env src' @ '') has unrecognized format!'')
           \<and> map fst (probes (new_events s s')) = ?C
           \<and> (\<forall>x \<in> set (outcomes (new_events s s')). \<not> succeeded (snd x))"
  proof (cases rl)
    case None
    note d = run_facts_NoneD [OF rf [unfolded None]]
    show ?thesis unfolding m(4,5) using d r None
      by (auto simp: finish_def split: source.splits if_splits)
  next
    case (Some mnt)
    then show ?thesis using r by (simp add: finish_def)
  qed
qed

lemmas run_eval = eval_defs new_events_def new_lines_def bare_env_def bare_transports_def start_def

lemma canonical_unknown: "z \<notin> set tcb \<Longrightarrow> canonical tcb z = z"
  by (simp add: canonical_def)

lemma no_success_None:
  assumes rf: "run_facts src opts C s (Inr rl) s'"
    and ns: "\<forall>x \<in> set (outcomes (new_events s s')). \<not> succeeded (snd x)"
  shows "rl = None"
proof (cases rl)
  case None
  then show ?thesis .
next
  case (Some m)
  note d = run_facts_SomeD [OF rf [unfolded Some]]
  have "last (outcomes (new_events s s')) \<in> set (outcomes (new_events s s'))" using d(2) by simp
  with ns d(3) show ?thesis by auto
qed

lemma run_facts_take:
  assumes rf: "run_facts src opts C s (Inr rl) s'"
  shows "\<exists>k. map fst (probes (new_events s s')) = take k C"
proof (cases rl)
  case None
  then have "map fst (probes (new_events s s')) = take (length C) C"
    using run_facts_NoneD(1) [OF rf [unfolded None]] by simp
  then show ?thesis by blast
next
  case (Some m)
  then show ?thesis using run_facts_SomeD(1) [OF rf [unfolded Some]] by blast
qed

lemma prepare_path_Path_apply:
  "prepare_path env (Path p) options s =
     (if \<not> os_path_exists env p (world s) then
        (Inl (RatarmountError (''Mount source does not exist: '' @ p)), s)
      else if os_path_isdir env p (world s) then
        (Inr (Inl (FolderMountSource
                    (if p = ''.'' then ''.'' else os_path_realpath env p (world s)))), s)
      else
        (case checkForSplitFile env p (world s) of
           Some filesToJoin \<Rightarrow>
             (case filesToJoin of
                [] \<Rightarrow> (Inl (OtherException ''IndexError: list index out of range''), s)
              | first # _ \<Rightarrow>
                  (Inr (Inr (File (JoinedFileFromFactory filesToJoin),
                             (if ''indexFilePath'' \<notin> dom options
                                 \<or> \<not> truthy (the (options ''indexFilePath''))
                              then options(''indexFilePath'' \<mapsto> PStr (first @ ''.index.sqlite''))
                              else options),
                             [], rsplit1_head (basename first))), s))
         | None \<Rightarrow>
             (Inr (Inr (Path p, options,
                        map fst (filter (\<lambda>(backend, value). matchesExtension p (snd value))
                                   (BACKENDS env)),
                        [])), s)))"
  by (simp add: prepare_path_def ret_def raise_def Let_def split: option.splits list.splits)

lemma lower_Nil: "lower [] = []" by (simp add: lower_def)

lemma lower_Cons: "lower (c # cs) = lower_char c # lower cs" by (simp add: lower_def)

lemmas str_eval = contains_def startswith_def endswith_def matchesExtension_def lower_Nil lower_Cons
  lower_char_def

lemmas path_eval = run_eval prepare_path_Path_apply str_eval

lemma openTar_path_with_tarFileName:
  assumes "''tarFileName'' \<in> dom opts"
  shows "openTarMountSource env (Path p) opts s =
           (case construct env SQLiteIndexedTar (Path p) (opts(''tarFileName'' := None)) (world s) of
              (rr, w) \<Rightarrow>
                (map_sum id Some rr,
                 s\<lparr>world := w,
                   trace := trace s @ [Construct SQLiteIndexedTar (Path p)
                                         (opts(''tarFileName'' := None))]\<rparr>))"
  using assms
  by (auto simp: openTarMountSource_def Let_def bnd_apply call_apply ret_apply
        split: prod.splits sum.splits)

lemma probes_get_trial_input:
  assumes ti: "trial_input env src opts s = Some (src', opts', auto, joined, s1)"
    and run: "openMountSource env src opts s = (r, s')"
  shows "\<forall>x \<in> set (probes (new_events s s')). fst (snd x) = src' \<and> fst (snd (snd x)) = opts'"
proof (cases "get_prioritizedBackends opts'")
  case None
  note t = trial_input_SomeD [OF ti]
  have "run_trial env (get_printDebug opts) src' opts' auto joined s1
          = (Inl (OtherException ''TypeError: can only concatenate list to list''), s1)"
    by (simp add: run_trial_def None raise_apply)
  with t(1) run have "s' = s1" by simp
  then show ?thesis using t(3) by simp
next
  case (Some prio)
  note m = openMountSource_trial [OF ti Some run]
  from openMountSource_run [OF ti Some run] obtain rl where
    rf: "run_facts src' opts'
           (to_try env (tarCompressionBackends env) {} (prio @ auto @ map fst (BACKENDS env)))
           s1 (Inr rl) s'" by blast
  show ?thesis unfolding m(4) using run_facts_common(3) [OF rf] .
qed

lemmas ssh_eval = url_eval openSSHFSMountSource_def

lemma ssh_opens:
  "tryOpenURL ssh_env ''ssh://host/a.tar'' 0 start
     = (Inr (OpenedFile (Handle 1)),
        start\<lparr>trace := [SSH ''FixedSSHFileSystem'' ''ssh://host/a.tar'',
                         Fs ''exists'' (FixedSSHFileSystem ''ssh://host/a.tar'') ''a.tar'',
                         Fs ''isfile'' (FixedSSHFileSystem ''ssh://host/a.tar'') ''a.tar'',
                         Fs ''open'' (FixedSSHFileSystem ''ssh://host/a.tar'') ''a.tar'']\<rparr>)"
  by (simp add: ssh_eval ssh_env_def bare_env_def bare_transports_def start_def)

lemma trial_input_File_src:
  "trial_input env (File f) opts s = Some (src', opts', auto, joined, s1) \<Longrightarrow> src' = File f"
  by (simp add: trial_input_File)

lemma trial_input_Path_src:
  assumes "trial_input env (Path p) opts s = Some (Path q, opts', auto, joined, s1)"
    and "\<not> contains ''://'' p"
  shows "q = p"
  using assms
  by (auto simp: trial_input_def resolve_url_def ret_apply prepare_path_Path_apply
        split: if_splits option.splits list.splits)

lemma trial_input_url_path:
  assumes "contains ''://'' url" "tryOpenURL env url (get_printDebug opts) s = (Inr (OpenedPath q), s1)"
    "os_path_exists env q (world s1)" "\<not> os_path_isdir env q (world s1)"
    "checkForSplitFile env q (world s1) = None"
  shows "trial_input env (Path url) opts s =
           Some (Path q, opts,
                 map fst (filter (\<lambda>(backend, value). matchesExtension q (snd value)) (BACKENDS env)),
                 [], s1)"
  using assms
  by (simp add: trial_input_def resolve_url_def prepare_path_Path_apply ret_apply
        bnd_eq [of "tryOpenURL env url (get_printDebug opts)", OF assms(2)])

lemma unrecognized_format_parts:
  assumes ti: "trial_input env src opts s = Some (src', opts', auto, joined, s1)"
    and gp: "get_prioritizedBackends opts' = Some prio"
    and run: "openMountSource env src opts s = (r, s')"
  shows "(r = Inl (CompressionError
                    (''Archive to open ('' @ str_source env src' @ '') has unrecognized format!'')))
         = ((\<forall>x \<in> set (outcomes (new_events s s')). \<not> succeeded (snd x))
            \<and> (is_str src' \<or> joined = []))"
    and "\<forall>e. r = Inl e \<longrightarrow>
           e = CompressionError
                 (''Archive to open ('' @ str_source env src' @ '') has unrecognized format!'')"
proof -
  note m = openMountSource_trial [OF ti gp run]
  from openMountSource_run [OF ti gp run] obtain rl where
    r: "r = finish env src' joined rl"
    and rf: "run_facts src' opts'
           (to_try env (tarCompressionBackends env) {} (prio @ auto @ map fst (BACKENDS env)))
           s1 (Inr rl) s'" by blast
  show "\<forall>e. r = Inl e \<longrightarrow>
           e = CompressionError
                 (''Archive to open ('' @ str_source env src' @ '') has unrecognized format!'')"
    using probe_exception_parts(4) [OF ti gp run] by blast
  show "(r = Inl (CompressionError
                    (''Archive to open ('' @ str_source env src' @ '') has unrecognized format!'')))
         = ((\<forall>x \<in> set (outcomes (new_events s s')). \<not> succeeded (snd x))
            \<and> (is_str src' \<or> joined = []))"
  proof
    assume e: "r = Inl (CompressionError
                    (''Archive to open ('' @ str_source env src' @ '') has unrecognized format!''))"
    then have n: "rl = None" using r by (cases rl) (simp_all add: finish_def)
    have "is_str src' \<or> joined = []"
      using e r n by (cases src') (simp_all add: finish_def split: if_splits)
    moreover have "\<forall>x \<in> set (outcomes (new_events s s')). \<not> succeeded (snd x)"
      unfolding m(5) using run_facts_NoneD(2) [OF rf [unfolded n]] .
    ultimately show "(\<forall>x \<in> set (outcomes (new_events s s')). \<not> succeeded (snd x))
            \<and> (is_str src' \<or> joined = [])" by blast
  next
    assume a: "(\<forall>x \<in> set (outcomes (new_events s s')). \<not> succeeded (snd x))
            \<and> (is_str src' \<or> joined = [])"
    then have "rl = None" using no_success_None [OF rf] unfolding m(5) by blast
    then show "r = Inl (CompressionError
                    (''Archive to open ('' @ str_source env src' @ '') has unrecognized format!''))"
      using r a by (cases src') (auto simp: finish_def)
  qed
qed

lemma get_prioritizedBackends_indexFilePath:
  "get_prioritizedBackends (opts(''indexFilePath'' \<mapsto> v)) = get_prioritizedBackends opts"
  by (simp add: get_prioritizedBackends_def)

lemma joined_file_parts:
  assumes p: "\<not> contains ''://'' p" "os_path_exists env p (world s)" "\<not> os_path_isdir env p (world s)"
    and sp: "checkForSplitFile env p (world s) = Some (first # others)"
    and gp: "get_prioritizedBackends opts = Some prio"
    and run: "openMountSource env (Path p) opts s = (r, s')"
  shows "(\<forall>x \<in> set (outcomes (new_events s s')). \<not> succeeded (snd x)) \<longrightarrow>
         r = (if rsplit1_head (basename first) \<noteq> []
              then Inr (SingleFileMountSource (rsplit1_head (basename first))
                          (JoinedFileFromFactory (first # others)))
              else Inl (CompressionError
                          (''Archive to open ('' @ str_file env (JoinedFileFromFactory (first # others))
                           @ '') has unrecognized format!'')))"
    and "(\<forall>x \<in> set (outcomes (new_events s s')). \<not> succeeded (snd x)) \<longrightarrow>
         map fst (probes (new_events s s'))
           = to_try env (tarCompressionBackends env) {} (prio @ map fst (BACKENDS env))"
    and "\<forall>x \<in> set (probes (new_events s s')). fst (snd x) = File (JoinedFileFromFactory (first # others))"
proof -
  let ?opts' = "(if ''indexFilePath'' \<notin> dom opts \<or> \<not> truthy (the (opts ''indexFilePath''))
                  then opts(''indexFilePath'' \<mapsto> PStr (first @ ''.index.sqlite'')) else opts)"
  let ?src' = "File (JoinedFileFromFactory (first # others))"
  have ti: "trial_input env (Path p) opts s
              = Some (?src', ?opts', [], rsplit1_head (basename first), s)"
    using trial_input_shard [OF p sp] .
  have gp': "get_prioritizedBackends ?opts' = Some prio"
    using gp by (simp add: get_prioritizedBackends_indexFilePath)
  note m = openMountSource_trial [OF ti gp' run]
  from openMountSource_run [OF ti gp' run] obtain rl where
    r: "r = finish env ?src' (rsplit1_head (basename first)) rl"
    and rf: "run_facts ?src' ?opts'
           (to_try env (tarCompressionBackends env) {} (prio @ [] @ map fst (BACKENDS env)))
           s (Inr rl) s'" by blast
  show "\<forall>x \<in> set (probes (new_events s s')). fst (snd x) = ?src'"
    using probes_get_trial_input [OF ti run] by blast
  show "(\<forall>x \<in> set (outcomes (new_events s s')). \<not> succeeded (snd x)) \<longrightarrow>
         r = (if rsplit1_head (basename first) \<noteq> []
              then Inr (SingleFileMountSource (rsplit1_head (basename first))
                          (JoinedFileFromFactory (first # others)))
              else Inl (CompressionError
                          (''Archive to open ('' @ str_file env (JoinedFileFromFactory (first # others))
                           @ '') has unrecognized format!'')))"
  proof
    assume "\<forall>x \<in> set (outcomes (new_events s s')). \<not> succeeded (snd x)"
    then have "rl = None" using no_success_None [OF rf] by blast
    then show "r = (if rsplit1_head (basename first) \<noteq> []
              then Inr (SingleFileMountSource (rsplit1_head (basename first))
                          (JoinedFileFromFactory (first # others)))
              else Inl (CompressionError
                          (''Archive to open ('' @ str_file env (JoinedFileFromFactory (first # others))
                           @ '') has unrecognized format!'')))"
      using r by (simp add: finish_def)
  qed
  show "(\<forall>x \<in> set (outcomes (new_events s s')). \<not> succeeded (snd x)) \<longrightarrow>
         map fst (probes (new_events s s'))
           = to_try env (tarCompressionBackends env) {} (prio @ map fst (BACKENDS env))"
  proof
    assume "\<forall>x \<in> set (outcomes (new_events s s')). \<not> succeeded (snd x)"
    then have n: "rl = None" using no_success_None [OF rf] by blast
    show "map fst (probes (new_events s s'))
           = to_try env (tarCompressionBackends env) {} (prio @ map fst (BACKENDS env))"
      using run_facts_NoneD(1) [OF rf [unfolded n]] by simp
  qed
qed

lemmas shard_eval = path_eval shards_env_def rsplit1_head_def basename_def

lemma run_facts_all_tried:
  assumes rf: "run_facts src opts C s (Inr rl) s'"
    and ns: "\<forall>x \<in> set (outcomes (new_events s s')). \<not> succeeded (snd x)"
  shows "map fst (probes (new_events s s')) = C"
proof -
  have "rl = None" using no_success_None [OF rf ns] .
  then show ?thesis using run_facts_NoneD(1) rf by blast
qed

lemma run_facts_success:
  assumes rf: "run_facts src opts C s (Inr rl) s'"
    and x: "x \<in> set (outcomes (new_events s s'))" "snd x = Inr (Some m)"
  shows "rl = Some m"
proof (cases rl)
  case None
  then show ?thesis using run_facts_NoneD(2) [OF rf [unfolded None]] x by auto
next
  case (Some m')
  note d = run_facts_SomeD [OF rf [unfolded Some]]
  have "x \<notin> set (butlast (outcomes (new_events s s')))" using d(4) x(2) by auto
  moreover have "set (outcomes (new_events s s'))
      = set (butlast (outcomes (new_events s s'))) \<union> {last (outcomes (new_events s s'))}"
    using d(2) by (metis append_butlast_last_id list.simps(15) set_append empty_set)
  ultimately have "x = last (outcomes (new_events s s'))" using x(1) by blast
  then show ?thesis using d(3) x(2) Some by simp
qed

lemma trial_parts:
  assumes ti: "trial_input env src opts s = Some (src', opts', auto, joined, s1)"
    and gp: "get_prioritizedBackends opts' = Some prio"
    and run: "openMountSource env src opts s = (r, s')"
  shows "(\<forall>x \<in> set (outcomes (new_events s s')). \<not> succeeded (snd x)) \<longrightarrow>
           map fst (probes (new_events s s'))
             = to_try env (tarCompressionBackends env) {} (prio @ auto @ map fst (BACKENDS env))"
    and "\<forall>x \<in> set (outcomes (new_events s s')). \<forall>m. snd x = Inr (Some m) \<longrightarrow> r = Inr m"
    and "\<forall>x \<in> set (probes (new_events s s')). fst (snd x) = src' \<and> fst (snd (snd x)) = opts'"
    and "isl r = ((\<forall>x \<in> set (outcomes (new_events s s')). \<not> succeeded (snd x))
                  \<and> (is_str src' \<or> joined = []))"
proof -
  let ?C = "to_try env (tarCompressionBackends env) {} (prio @ auto @ map fst (BACKENDS env))"
  note m = openMountSource_trial [OF ti gp run]
  from openMountSource_run [OF ti gp run] obtain rl where
    r: "r = finish env src' joined rl"
    and rf: "run_facts src' opts' ?C s1 (Inr rl) s'" by blast
  show "(\<forall>x \<in> set (outcomes (new_events s s')). \<not> succeeded (snd x)) \<longrightarrow>
           map fst (probes (new_events s s')) = ?C"
    unfolding m(4,5) using run_facts_all_tried [OF rf] by blast
  show "\<forall>x \<in> set (outcomes (new_events s s')). \<forall>m. snd x = Inr (Some m) \<longrightarrow> r = Inr m"
  proof (intro ballI allI impI)
    fix x mnt
    assume "x \<in> set (outcomes (new_events s s'))" "snd x = Inr (Some mnt)"
    then have "rl = Some mnt" using run_facts_success [OF rf] unfolding m(5) by blast
    then show "r = Inr mnt" using r by (simp add: finish_def)
  qed
  show "\<forall>x \<in> set (probes (new_events s s')). fst (snd x) = src' \<and> fst (snd (snd x)) = opts'"
    unfolding m(4) using run_facts_common(3) [OF rf] .
  show "isl r = ((\<forall>x \<in> set (outcomes (new_events s s')). \<not> succeeded (snd x))
                  \<and> (is_str src' \<or> joined = []))"
  proof
    assume "isl r"
    then obtain e where e: "r = Inl e" by (cases r) auto
    then have n: "rl = None" using r by (cases rl) (simp_all add: finish_def)
    have "is_str src' \<or> joined = []"
      using e r n by (cases src') (simp_all add: finish_def split: if_splits)
    moreover have "\<forall>x \<in> set (outcomes (new_events s s')). \<not> succeeded (snd x)"
      unfolding m(5) using run_facts_NoneD(2) [OF rf [unfolded n]] .
    ultimately show "(\<forall>x \<in> set (outcomes (new_events s s')). \<not> succeeded (snd x))
            \<and> (is_str src' \<or> joined = [])" by blast
  next
    assume a: "(\<forall>x \<in> set (outcomes (new_events s s')). \<not> succeeded (snd x))
            \<and> (is_str src' \<or> joined = [])"
    then have "rl = None" using no_success_None [OF rf] unfolding m(5) by blast
    then show "isl r" using r a by (cases src') (auto simp: finish_def)
  qed
qed

lemma trial_loop_reach_skip_logs:
  "trial_loop env pd src opts tcb tried (pre @ z # rest) s = (r, s') \<Longrightarrow> pd \<ge> 1 \<Longrightarrow>
   canonical tcb z \<notin> tried \<Longrightarrow> canonical tcb z \<notin> set (map (canonical tcb) pre) \<Longrightarrow>
   map_of (BACKENDS env) (canonical tcb z) = None \<Longrightarrow>
   \<forall>x \<in> set (outcomes (new_events s s')). succeeded (snd x) \<longrightarrow> fst x \<notin> set (map (canonical tcb) pre) \<Longrightarrow>
   Print (''[Info] Skipping unknown compression backend: '' @ canonical tcb z) \<in> set (new_lines s s')"
proof (induction pre arbitrary: tried s)
  case Nil
  then show ?case using trial_loop_first_skip_logs [of env pd src opts tcb tried z rest s r s'] by simp
next
  case (Cons name0 pre)
  let ?names = "pre @ z # rest"
  have ne: "canonical tcb z \<noteq> canonical tcb name0" using Cons.prems(4) by auto
  have nin: "canonical tcb z \<notin> set (map (canonical tcb) pre)" using Cons.prems(4) by auto
  show ?case
  proof (cases rule: trial_loop_step [of tcb name0 tried env pd src opts ?names s])
    case dup
    have t: "trial_loop env pd src opts tcb tried (pre @ z # rest) s = (r, s')"
      using Cons.prems(1) dup(2) by simp
    have o: "\<forall>x \<in> set (outcomes (new_events s s')). succeeded (snd x) \<longrightarrow>
               fst x \<notin> set (map (canonical tcb) pre)"
      using Cons.prems(6) by auto
    show ?thesis using Cons.IH [OF t Cons.prems(2,3) nin Cons.prems(5) o] .
  next
    case unknown
    define l where "l = Print (''[Info] Skipping unknown compression backend: '' @ canonical tcb name0)"
    define sp where "sp = snd (print_if (pd \<ge> 1) l s)"
    have t: "trial_loop env pd src opts tcb (insert (canonical tcb name0) tried) (pre @ z # rest) sp = (r, s')"
      using Cons.prems(1) unknown(3) by (simp add: sp_def l_def)
    note p = print_if_state [where s = s and c = "pd \<ge> 1" and l = l, folded sp_def]
    have L: "new_lines s s' = new_lines s sp @ new_lines sp s'"
      using new_lines_trans [OF p(1) trial_loop_extends [OF t]] .
    have O: "outcomes (new_events s s') = outcomes (new_events sp s')"
      using outcomes_new_trans [OF p(1) trial_loop_extends [OF t]] p(2) by simp
    have o: "\<forall>x \<in> set (outcomes (new_events sp s')). succeeded (snd x) \<longrightarrow>
               fst x \<notin> set (map (canonical tcb) pre)"
      using Cons.prems(6) unfolding O by auto
    have nt: "canonical tcb z \<notin> insert (canonical tcb name0) tried"
      using ne Cons.prems(3) by simp
    from Cons.IH [OF t Cons.prems(2) nt nin Cons.prems(5) o] show ?thesis unfolding L by simp
  next
    case (found bo exts m s1)
    have s1: "s' = s1" using found(4) Cons.prems(1) by simp
    from attempt_facts [OF found(2) found(3), unfolded round_facts_def] obtain ro where
      1: "outcomes (new_events s s1) = [(canonical tcb name0, ro)]" "Inr (Some m) = result_of ro"
      by auto
    from 1(2) have ro: "ro = Inr (Some m)" by (cases ro rule: result_of.cases) auto
    have "(canonical tcb name0, Inr (Some m)) \<in> set (outcomes (new_events s s'))"
      unfolding s1 1(1) ro by simp
    with Cons.prems(6) show ?thesis by force
  next
    case (onward bo exts s1)
    have t: "trial_loop env pd src opts tcb (insert (canonical tcb name0) tried) (pre @ z # rest) s1 = (r, s')"
      using Cons.prems(1) onward(4) by simp
    have e: "extends s s1" using attempt_facts [OF onward(2) onward(3)] by (simp add: round_facts_def)
    have L: "new_lines s s' = new_lines s s1 @ new_lines s1 s'"
      using new_lines_trans [OF e trial_loop_extends [OF t]] .
    have O: "outcomes (new_events s s') = outcomes (new_events s s1) @ outcomes (new_events s1 s')"
      using outcomes_new_trans [OF e trial_loop_extends [OF t]] .
    have o: "\<forall>x \<in> set (outcomes (new_events s1 s')). succeeded (snd x) \<longrightarrow>
               fst x \<notin> set (map (canonical tcb) pre)"
      using Cons.prems(6) unfolding O by auto
    have nt: "canonical tcb z \<notin> insert (canonical tcb name0) tried"
      using ne Cons.prems(3) by simp
    from Cons.IH [OF t Cons.prems(2) nt nin Cons.prems(5) o] show ?thesis unfolding L by simp
  qed
qed

lemma unknown_priority_reached:
  assumes ti: "trial_input env src opts s = Some (src', opts', auto, joined, s1)"
    and gp: "get_prioritizedBackends opts' = Some prio"
    and z: "z \<in> set prio" "map_of (BACKENDS env) z = None" "z \<notin> set (tarCompressionBackends env)"
    and run: "openMountSource env src opts s = (r, s')"
    and pd: "get_printDebug opts \<ge> 1"
    and before: "\<forall>x \<in> set (outcomes (new_events s s')). succeeded (snd x) \<longrightarrow>
        fst x \<notin> set (map (canonical (tarCompressionBackends env)) (takeWhile (\<lambda>n. n \<noteq> z) prio))"
  shows "Print (''[Info] Skipping unknown compression backend: '' @ z) \<in> set (new_lines s s')"
proof -
  let ?tcb = "tarCompressionBackends env"
  note m = openMountSource_trial [OF ti gp run]
  from openMountSource_run [OF ti gp run] obtain rl where
    tl: "trial_loop env (get_printDebug opts) src' opts' ?tcb {}
           (prio @ auto @ map fst (BACKENDS env)) s1 = (Inr rl, s')" by blast
  from split_list_first [OF z(1)] obtain ys zs where
    prio: "prio = ys @ z # zs" and ys: "z \<notin> set ys" by blast
  have tw: "takeWhile (\<lambda>n. n \<noteq> z) prio = ys"
    unfolding prio using ys by (induction ys) auto
  have cz: "canonical ?tcb z = z" using z(3) by (rule canonical_unknown)
  have zt: "z \<noteq> ''tarfile''" using z(2) tarfile_registered by metis
  have nin: "canonical ?tcb z \<notin> set (map (canonical ?tcb) ys)"
    unfolding cz using ys zt by (auto simp: canonical_def split: if_splits)
  have tl': "trial_loop env (get_printDebug opts) src' opts' ?tcb {}
           (ys @ z # (zs @ auto @ map fst (BACKENDS env))) s1 = (Inr rl, s')"
    using tl unfolding prio by simp
  have o: "\<forall>x \<in> set (outcomes (new_events s1 s')). succeeded (snd x) \<longrightarrow>
             fst x \<notin> set (map (canonical ?tcb) ys)"
    using before unfolding tw m(5) .
  have "Print (''[Info] Skipping unknown compression backend: '' @ canonical ?tcb z)
          \<in> set (new_lines s1 s')"
    by (rule trial_loop_reach_skip_logs [OF tl' pd _ nin _ o]) (simp_all add: cz z(2))
  then show ?thesis unfolding cz using m(6) by blast
qed

lemma unknown_priority_facts:
  assumes ti: "trial_input env src opts s = Some (src', opts', auto, joined, s1)"
    and gp: "get_prioritizedBackends opts' = Some prio"
    and z: "z \<in> set prio" "map_of (BACKENDS env) z = None" "z \<notin> set (tarCompressionBackends env)"
    and run: "openMountSource env src opts s = (r, s')"
  shows "z \<notin> set (map fst (probes (new_events s s')))"
    and "to_try env (tarCompressionBackends env) {} (prio @ auto @ map fst (BACKENDS env))
         = to_try env (tarCompressionBackends env) {} (removeAll z prio @ auto @ map fst (BACKENDS env))"
    and "\<exists>k. map fst (probes (new_events s s'))
            = take k (to_try env (tarCompressionBackends env) {}
                        (removeAll z prio @ auto @ map fst (BACKENDS env)))"
    and "(\<forall>x \<in> set (outcomes (new_events s s')). \<not> succeeded (snd x)) \<longrightarrow>
           map fst (probes (new_events s s'))
             = to_try env (tarCompressionBackends env) {}
                 (removeAll z prio @ auto @ map fst (BACKENDS env))"
    and "\<forall>x \<in> set (outcomes (new_events s s')). \<forall>m. snd x = Inr (Some m) \<longrightarrow> r = Inr m"
    and "isl r = ((\<forall>x \<in> set (outcomes (new_events s s')). \<not> succeeded (snd x))
                  \<and> (is_str src' \<or> joined = []))"
    and "\<forall>e. r = Inl e \<longrightarrow>
           e = CompressionError (''Archive to open ('' @ str_source env src' @ '') has unrecognized format!'')
           \<and> map fst (probes (new_events s s'))
               = to_try env (tarCompressionBackends env) {}
                   (removeAll z prio @ auto @ map fst (BACKENDS env))
           \<and> (\<forall>x \<in> set (outcomes (new_events s s')). \<not> succeeded (snd x))"
    and "get_printDebug opts \<ge> 1 \<longrightarrow>
           (\<forall>x \<in> set (outcomes (new_events s s')). succeeded (snd x) \<longrightarrow>
              fst x \<notin> set (map (canonical (tarCompressionBackends env)) (takeWhile (\<lambda>n. n \<noteq> z) prio))) \<longrightarrow>
           Print (''[Info] Skipping unknown compression backend: '' @ z) \<in> set (new_lines s s')"
    and "get_printDebug opts \<ge> 1 \<longrightarrow> (\<forall>x \<in> set (outcomes (new_events s s')). \<not> succeeded (snd x)) \<longrightarrow>
           Print (''[Info] Skipping unknown compression backend: '' @ z) \<in> set (new_lines s s')"
    and "get_printDebug opts \<ge> 1 \<longrightarrow> hd prio = z \<longrightarrow>
           Print (''[Info] Skipping unknown compression backend: '' @ z) \<in> set (new_lines s s')"
proof -
  let ?tcb = "tarCompressionBackends env"
  let ?names = "prio @ auto @ map fst (BACKENDS env)"
  let ?C = "to_try env ?tcb {} ?names"
  let ?line = "Print (''[Info] Skipping unknown compression backend: '' @ z)"
  note m = openMountSource_trial [OF ti gp run]
  note t = trial_parts [OF ti gp run]
  note reached = unknown_priority_reached [OF ti gp z run]
  from openMountSource_run [OF ti gp run] obtain rl where
    rf: "run_facts src' opts' ?C s1 (Inr rl) s'" by blast
  show eq: "?C = to_try env ?tcb {} (removeAll z prio @ auto @ map fst (BACKENDS env))"
    using to_try_without_unknown [OF z(2,3)] .
  from run_facts_take [OF rf] obtain k where k: "map fst (probes (new_events s1 s')) = take k ?C" ..
  show "\<exists>k. map fst (probes (new_events s s'))
            = take k (to_try env ?tcb {} (removeAll z prio @ auto @ map fst (BACKENDS env)))"
    unfolding m(4) eq [symmetric] using k by blast
  have "set (take k ?C) \<subseteq> set ?C" by (rule set_take_subset)
  moreover have "z \<notin> set ?C" using to_try_registered [of z env ?tcb "{}" ?names] z(2) by blast
  ultimately show "z \<notin> set (map fst (probes (new_events s s')))" unfolding m(4) k by blast
  show "(\<forall>x \<in> set (outcomes (new_events s s')). \<not> succeeded (snd x)) \<longrightarrow>
           map fst (probes (new_events s s'))
             = to_try env ?tcb {} (removeAll z prio @ auto @ map fst (BACKENDS env))"
    unfolding eq [symmetric] using t(1) .
  show "\<forall>x \<in> set (outcomes (new_events s s')). \<forall>m. snd x = Inr (Some m) \<longrightarrow> r = Inr m"
    using t(2) .
  show "isl r = ((\<forall>x \<in> set (outcomes (new_events s s')). \<not> succeeded (snd x))
                  \<and> (is_str src' \<or> joined = []))"
    using t(4) .
  show "\<forall>e. r = Inl e \<longrightarrow>
           e = CompressionError (''Archive to open ('' @ str_source env src' @ '') has unrecognized format!'')
           \<and> map fst (probes (new_events s s'))
               = to_try env ?tcb {} (removeAll z prio @ auto @ map fst (BACKENDS env))
           \<and> (\<forall>x \<in> set (outcomes (new_events s s')). \<not> succeeded (snd x))"
    unfolding eq [symmetric] using probe_exception_parts(4) [OF ti gp run] .
  show "get_printDebug opts \<ge> 1 \<longrightarrow>
           (\<forall>x \<in> set (outcomes (new_events s s')). succeeded (snd x) \<longrightarrow>
              fst x \<notin> set (map (canonical ?tcb) (takeWhile (\<lambda>n. n \<noteq> z) prio))) \<longrightarrow>
           ?line \<in> set (new_lines s s')"
    using reached by blast
  show "get_printDebug opts \<ge> 1 \<longrightarrow> (\<forall>x \<in> set (outcomes (new_events s s')). \<not> succeeded (snd x)) \<longrightarrow>
           ?line \<in> set (new_lines s s')"
  proof (intro impI)
    assume pd: "1 \<le> get_printDebug opts"
      and ns: "\<forall>x \<in> set (outcomes (new_events s s')). \<not> succeeded (snd x)"
    show "?line \<in> set (new_lines s s')" by (rule reached [OF pd]) (simp add: ns)
  qed
  show "get_printDebug opts \<ge> 1 \<longrightarrow> hd prio = z \<longrightarrow> ?line \<in> set (new_lines s s')"
  proof (intro impI)
    assume pd: "1 \<le> get_printDebug opts" and h: "hd prio = z"
    from z(1) h obtain rest where prio: "prio = z # rest" by (cases prio) auto
    show "?line \<in> set (new_lines s s')" by (rule reached [OF pd]) (simp add: prio)
  qed
qed

lemma unrecognized_format_facts:
  assumes ti: "trial_input env src opts s = Some (src', opts', auto, joined, s1)"
    and gp: "get_prioritizedBackends opts' = Some prio"
    and run: "openMountSource env src opts s = (r, s')"
  shows "(r = Inl (CompressionError
                    (''Archive to open ('' @ str_source env src' @ '') has unrecognized format!'')))
         = (map fst (probes (new_events s s'))
              = to_try env (tarCompressionBackends env) {} (prio @ auto @ map fst (BACKENDS env))
            \<and> (\<forall>x \<in> set (outcomes (new_events s s')). \<not> succeeded (snd x))
            \<and> (is_str src' \<or> joined = []))"
proof
  assume "r = Inl (CompressionError
                    (''Archive to open ('' @ str_source env src' @ '') has unrecognized format!''))"
  then show "map fst (probes (new_events s s'))
              = to_try env (tarCompressionBackends env) {} (prio @ auto @ map fst (BACKENDS env))
            \<and> (\<forall>x \<in> set (outcomes (new_events s s')). \<not> succeeded (snd x))
            \<and> (is_str src' \<or> joined = [])"
    using probe_exception_parts(4) [OF ti gp run] unrecognized_format_parts(1) [OF ti gp run]
    by blast
next
  assume "map fst (probes (new_events s s'))
              = to_try env (tarCompressionBackends env) {} (prio @ auto @ map fst (BACKENDS env))
            \<and> (\<forall>x \<in> set (outcomes (new_events s s')). \<not> succeeded (snd x))
            \<and> (is_str src' \<or> joined = [])"
  then show "r = Inl (CompressionError
                    (''Archive to open ('' @ str_source env src' @ '') has unrecognized format!''))"
    using unrecognized_format_parts(1) [OF ti gp run] by blast
qed
















section \<open>The claims\<close>

text \<open>
  C7. For every URL whose scheme is \<open>file\<close>, \<open>tryOpenURL\<close> returns what follows
  \<open>file://\<close> as a plain path. The state afterwards differs from the one before in the
  printed line of verbosity 3 only: the world is untouched and no call is recorded, so
  no transport and no network probe has run.
\<close>

theorem file_url_is_plain_path:
  "tryOpenURL env (''file://'' @ rest) printDebug s =
     (Inr (OpenedPath rest),
      s\<lparr>out := out s @ (if printDebug \<ge> 3
                         then [Print (''[Info] Try to open URL: '' @ ''file://'' @ rest)]
                         else [])\<rparr>)"
  unfolding tryOpenURL_def split_file Let_def
  by (simp add: bnd_print_if print_if_apply ret_def)

theorem file_url_is_plain_path_witness:
  "tryOpenURL bare_env ''file:///tmp/a.tar'' 0 start = (Inr (OpenedPath ''/tmp/a.tar''), start)"
  using file_url_is_plain_path [of bare_env "''/tmp/a.tar''" 0 start]
  by (simp add: start_def)

text \<open>
  C6. For a local path (a string without \<open>://\<close>): when it does not exist, the call raises
  the error that names the path; when it is a directory, the call returns the mount source
  of that folder. In both cases the state is as before, so no probe has run.
\<close>

theorem missing_path_and_directory:
  assumes "\<not> contains ''://'' p"
  shows "(\<not> os_path_exists env p (world s) \<longrightarrow>
            openMountSource env (Path p) opts s
              = (Inl (RatarmountError (''Mount source does not exist: '' @ p)), s))
         \<and> (os_path_exists env p (world s) \<and> os_path_isdir env p (world s) \<longrightarrow>
            openMountSource env (Path p) opts s
              = (Inr (FolderMountSource
                        (if p = ''.'' then ''.'' else os_path_realpath env p (world s))), s))"
  using assms by (simp add: openMountSource_missing openMountSource_directory)

theorem missing_path_and_directory_witness:
  "openMountSource bare_env (Path ''/nowhere'') Map.empty start
     = (Inl (RatarmountError ''Mount source does not exist: /nowhere''), start)
   \<and> openMountSource folder_env (Path ''/tmp'') Map.empty start
     = (Inr (FolderMountSource ''/tmp''), start)"
  using missing_path_and_directory [of "''/nowhere''" bare_env start Map.empty]
    missing_path_and_directory [of "''/tmp''" folder_env start Map.empty]
  by (simp add: contains_def startswith_def bare_env_def folder_env_def)

text \<open>
  C8, amended. For a URL \<open>dropbox://REST\<close>: without a token (unset or empty) the call
  raises a \<open>RatarmountError\<close>, which with both packages installed is the instruction to set
  \<open>DROPBOX_TOKEN\<close>. With a token, everything after the choice of the file system is done
  with the Dropbox file system and the path \<open>dropbox_path REST\<close>. For a \<open>REST\<close> with a
  character other than the slash that path begins with a slash and does not end with one;
  for the root (an empty \<open>REST\<close>, or slashes only) it is the empty string.
\<close>

theorem dropbox_token_and_path:
  "(environ (transports env) ''DROPBOX_TOKEN'' = None
      \<or> environ (transports env) ''DROPBOX_TOKEN'' = Some [] \<longrightarrow>
      (\<exists>msg. fst (tryOpenURL env (''dropbox://'' @ rest) pd s) = Inl (RatarmountError msg))
      \<and> (fsspec (transports env) \<and> dropboxdrivefs (transports env) \<longrightarrow>
           fst (tryOpenURL env (''dropbox://'' @ rest) pd s)
             = Inl (RatarmountError dropbox_token_message)))
   \<and> (fsspec (transports env) \<and> dropboxdrivefs (transports env)
        \<and> environ (transports env) ''DROPBOX_TOKEN'' = Some token \<and> token \<noteq> [] \<longrightarrow>
        tryOpenURL env (''dropbox://'' @ rest) pd s =
          open_on_filesystem env (''dropbox://'' @ rest) pd
            (FixedDropboxDriveFileSystem token) (dropbox_path rest)
            (s\<lparr>out := out s @ (if pd \<ge> 3
                               then [Print (''[Info] Try to open URL: '' @ ''dropbox://'' @ rest),
                                     Print ''[Info] Try to open with fsspec'']
                               else [])\<rparr>))
   \<and> (\<not> set rest \<subseteq> {CHR ''/''} \<longrightarrow>
        startswith (dropbox_path rest) ''/'' \<and> \<not> endswith (dropbox_path rest) ''/'')
   \<and> (set rest \<subseteq> {CHR ''/''} \<longrightarrow> dropbox_path rest = [])"
proof (intro conjI impI)
  assume a: "environ (transports env) ''DROPBOX_TOKEN'' = None
      \<or> environ (transports env) ''DROPBOX_TOKEN'' = Some []"
  show "\<exists>msg. fst (tryOpenURL env (''dropbox://'' @ rest) pd s) = Inl (RatarmountError msg)"
    using a by (rule dropbox_no_token(1))
  assume "fsspec (transports env) \<and> dropboxdrivefs (transports env)"
  then show "fst (tryOpenURL env (''dropbox://'' @ rest) pd s) = Inl (RatarmountError dropbox_token_message)"
    using dropbox_no_token(2) [OF a] by blast
next
  assume "fsspec (transports env) \<and> dropboxdrivefs (transports env)
        \<and> environ (transports env) ''DROPBOX_TOKEN'' = Some token \<and> token \<noteq> []"
  then show "tryOpenURL env (''dropbox://'' @ rest) pd s =
          open_on_filesystem env (''dropbox://'' @ rest) pd
            (FixedDropboxDriveFileSystem token) (dropbox_path rest)
            (s\<lparr>out := out s @ (if pd \<ge> 3
                               then [Print (''[Info] Try to open URL: '' @ ''dropbox://'' @ rest),
                                     Print ''[Info] Try to open with fsspec'']
                               else [])\<rparr>)"
    using dropbox_with_token by blast
next
  assume "\<not> set rest \<subseteq> {CHR ''/''}"
  then show "startswith (dropbox_path rest) ''/''" "\<not> endswith (dropbox_path rest) ''/''"
    using dropbox_path_shape [of rest] by blast+
next
  assume "set rest \<subseteq> {CHR ''/''}"
  then show "dropbox_path rest = []" using dropbox_path_shape [of rest] by (simp split: if_splits)
qed

theorem dropbox_token_and_path_witness:
  "tryOpenURL dropbox_env ''dropbox://a/b/'' 0 start
     = (Inr (OpenedMount (FSSpecMountSource (FixedDropboxDriveFileSystem ''secret'') ''/a/b'')),
        start\<lparr>trace := [Fs ''isdir'' (FixedDropboxDriveFileSystem ''secret'') ''/a/b'']\<rparr>)
   \<and> dropbox_path ''a/b/'' = ''/a/b''
   \<and> startswith (dropbox_path ''a/b/'') ''/''
   \<and> \<not> endswith (dropbox_path ''a/b/'') ''/''
   \<and> fst (tryOpenURL (dropbox_env\<lparr>transports := (transports dropbox_env)\<lparr>environ := Map.empty\<rparr>\<rparr>)
              ''dropbox://a/b/'' 0 start)
       = Inl (RatarmountError dropbox_token_message)"
  using dropbox_token_and_path [of dropbox_env "''a/b/''" 0 start "''secret''"]
    dropbox_token_and_path [of "dropbox_env\<lparr>transports := (transports dropbox_env)\<lparr>environ := Map.empty\<rparr>\<rparr>"
        "''a/b/''" 0 start "''secret''"]
  by (simp add: dropbox_env_def bare_env_def bare_transports_def start_def
        open_on_filesystem_def dropbox_path_def rstrip_def startswith_def endswith_def
        bnd_apply print_if_apply ret_apply call_apply Let_def)

text \<open>
  C8 as stated fails at the root: for \<open>dropbox://\<close> the file system is asked about the
  empty path, which has no leading slash.
\<close>

theorem dropbox_root_counterexample:
  "tryOpenURL dropbox_env ''dropbox://'' 0 start
     = (Inr (OpenedMount (FSSpecMountSource (FixedDropboxDriveFileSystem ''secret'') [])),
        start\<lparr>trace := [Fs ''isdir'' (FixedDropboxDriveFileSystem ''secret'') []]\<rparr>)
   \<and> \<not> startswith [] ''/''"
  by (simp add: url_eval dropbox_env_def bare_env_def bare_transports_def start_def)

text \<open>
  C4. Take a call that gets to the trial, the priority option being a list as line 442
  needs it. Every probe has an outcome. An exception of a probe is printed (at verbosity
  2). After a probe that did not succeed, the next candidate is probed, unless all the
  candidates have been probed. And an error of the call is the unrecognized-format error,
  after all candidates have been probed and none has succeeded: an exception of a probe is
  never what the call raises.
\<close>

theorem probe_exception_is_caught:
  assumes "trial_input env src opts s = Some (src', opts', auto, joined, s1)"
    and "get_prioritizedBackends opts' = Some prio"
    and "openMountSource env src opts s = (r, s')"
  shows "map fst (outcomes (new_events s s')) = map fst (probes (new_events s s'))
    \<and> (\<forall>x \<in> set (outcomes (new_events s s')). \<forall>e. snd x = Inl e \<longrightarrow> get_printDebug opts \<ge> 2 \<longrightarrow>
           Print (''[Info] Trying to open with '' @ fst x @ '' raised an exception: '' @ str_exn e)
             \<in> set (new_lines s s'))
    \<and> (\<forall>i < length (outcomes (new_events s s')). \<not> succeeded (snd (outcomes (new_events s s') ! i)) \<longrightarrow>
           Suc i < length (probes (new_events s s'))
           \<or> map fst (probes (new_events s s'))
                = to_try env (tarCompressionBackends env) {} (prio @ auto @ map fst (BACKENDS env)))
    \<and> (\<forall>e. r = Inl e \<longrightarrow>
           e = CompressionError (''Archive to open ('' @ str_source env src' @ '') has unrecognized format!'')
           \<and> map fst (probes (new_events s s'))
                = to_try env (tarCompressionBackends env) {} (prio @ auto @ map fst (BACKENDS env))
           \<and> (\<forall>x \<in> set (outcomes (new_events s s')). \<not> succeeded (snd x)))"
  using probe_exception_parts [OF assms] by (intro conjI)

theorem probe_exception_is_caught_witness:
  "fst (openMountSource bare_env (File (Handle 1)) [''printDebug'' \<mapsto> PInt 2] start)
     = Inl (CompressionError ''Archive to open (<file>) has unrecognized format!'')
   \<and> map fst (probes (new_events start
          (snd (openMountSource bare_env (File (Handle 1)) [''printDebug'' \<mapsto> PInt 2] start))))
     = [''rarfile'', ''tarfile'', ''zipfile'', ''pysquashfsimage'', ''libarchive'', ''py7zr'',
        ''pyfatfs'', ''ext4'', ''sqlar'', ''SQLiteIndex'']
   \<and> Print ''[Info] Trying to open with tarfile raised an exception: not this format''
       \<in> set (new_lines start
          (snd (openMountSource bare_env (File (Handle 1)) [''printDebug'' \<mapsto> PInt 2] start)))"
proof -
  let ?o = "[''printDebug'' \<mapsto> PInt 2]"
  have ti: "trial_input bare_env (File (Handle 1)) ?o start = Some (File (Handle 1), ?o, [], [], start)"
    by (rule trial_input_File)
  have gp: "get_prioritizedBackends ?o = Some []" by (simp add: get_prioritizedBackends_def)
  have run: "openMountSource bare_env (File (Handle 1)) ?o start
      = (fst (openMountSource bare_env (File (Handle 1)) ?o start),
         snd (openMountSource bare_env (File (Handle 1)) ?o start))" by simp
  have res: "fst (openMountSource bare_env (File (Handle 1)) ?o start)
     = Inl (CompressionError ''Archive to open (<file>) has unrecognized format!'')"
    by (simp add: run_eval)
  note T = probe_exception_is_caught [OF ti gp run]
  from T res have P: "map fst (probes (new_events start (snd (openMountSource bare_env (File (Handle 1)) ?o start))))
      = to_try bare_env (tarCompressionBackends bare_env) {} ([] @ [] @ map fst (BACKENDS bare_env))"
    by simp
  have C: "to_try bare_env (tarCompressionBackends bare_env) {} ([] @ [] @ map fst (BACKENDS bare_env))
     = [''rarfile'', ''tarfile'', ''zipfile'', ''pysquashfsimage'', ''libarchive'', ''py7zr'',
        ''pyfatfs'', ''ext4'', ''sqlar'', ''SQLiteIndex'']"
    by (simp add: to_try_def canonical_def tarCompressionBackends_def BACKENDS_def bare_env_def)
  have L: "Print ''[Info] Trying to open with tarfile raised an exception: not this format''
       \<in> set (new_lines start (snd (openMountSource bare_env (File (Handle 1)) ?o start)))"
    by (simp add: run_eval)
  show ?thesis using res P C L by simp
qed

text \<open>
  C9. Take a call that gets to the trial with a priority list that has a name \<open>z\<close> which
  is no key of the registry and no compression module of the TAR formats. No probe is
  invoked for \<open>z\<close>. The candidates are those of the list without \<open>z\<close>; the probes go through
  them in that order, through all of them unless one succeeds, and a probe that succeeds
  gives the result of the call. The call fails exactly when no probe has succeeded and
  there is no joined file to fall back on, and then with the unrecognized-format error
  after all those candidates: \<open>z\<close> has no part in it. At verbosity 1 the skipping is printed
  whenever the loop gets to \<open>z\<close>, that is, unless a candidate that the list names before \<open>z\<close>
  has succeeded; so it is whenever no probe succeeds, and whenever \<open>z\<close> heads the list.
\<close>

theorem unknown_priority_backend_is_skipped:
  assumes "trial_input env src opts s = Some (src', opts', auto, joined, s1)"
    and "get_prioritizedBackends opts' = Some prio"
    and "z \<in> set prio" and "map_of (BACKENDS env) z = None"
    and "z \<notin> set (tarCompressionBackends env)"
    and "openMountSource env src opts s = (r, s')"
  shows "z \<notin> set (map fst (probes (new_events s s')))
    \<and> to_try env (tarCompressionBackends env) {} (prio @ auto @ map fst (BACKENDS env))
         = to_try env (tarCompressionBackends env) {} (removeAll z prio @ auto @ map fst (BACKENDS env))
    \<and> (\<exists>k. map fst (probes (new_events s s'))
            = take k (to_try env (tarCompressionBackends env) {}
                        (removeAll z prio @ auto @ map fst (BACKENDS env))))
    \<and> ((\<forall>x \<in> set (outcomes (new_events s s')). \<not> succeeded (snd x)) \<longrightarrow>
           map fst (probes (new_events s s'))
             = to_try env (tarCompressionBackends env) {}
                 (removeAll z prio @ auto @ map fst (BACKENDS env)))
    \<and> (\<forall>x \<in> set (outcomes (new_events s s')). \<forall>m. snd x = Inr (Some m) \<longrightarrow> r = Inr m)
    \<and> isl r = ((\<forall>x \<in> set (outcomes (new_events s s')). \<not> succeeded (snd x))
                  \<and> (is_str src' \<or> joined = []))
    \<and> (\<forall>e. r = Inl e \<longrightarrow>
           e = CompressionError (''Archive to open ('' @ str_source env src' @ '') has unrecognized format!'')
           \<and> map fst (probes (new_events s s'))
               = to_try env (tarCompressionBackends env) {}
                   (removeAll z prio @ auto @ map fst (BACKENDS env))
           \<and> (\<forall>x \<in> set (outcomes (new_events s s')). \<not> succeeded (snd x)))
    \<and> (get_printDebug opts \<ge> 1 \<longrightarrow>
           (\<forall>x \<in> set (outcomes (new_events s s')). succeeded (snd x) \<longrightarrow>
              fst x \<notin> set (map (canonical (tarCompressionBackends env)) (takeWhile (\<lambda>n. n \<noteq> z) prio))) \<longrightarrow>
           Print (''[Info] Skipping unknown compression backend: '' @ z) \<in> set (new_lines s s'))
    \<and> (get_printDebug opts \<ge> 1 \<longrightarrow> (\<forall>x \<in> set (outcomes (new_events s s')). \<not> succeeded (snd x)) \<longrightarrow>
           Print (''[Info] Skipping unknown compression backend: '' @ z) \<in> set (new_lines s s'))
    \<and> (get_printDebug opts \<ge> 1 \<longrightarrow> hd prio = z \<longrightarrow>
           Print (''[Info] Skipping unknown compression backend: '' @ z) \<in> set (new_lines s s'))"
  using unknown_priority_facts [OF assms] by (intro conjI)

theorem unknown_priority_backend_is_skipped_witness:
  "map fst (probes (new_events start
      (snd (openMountSource disk_env (Path ''a.zip'')
              [''prioritizedBackends'' \<mapsto> PList [''Z''], ''printDebug'' \<mapsto> PInt 1] start))))
     = [''zipfile'', ''rarfile'', ''tarfile'', ''pysquashfsimage'', ''libarchive'', ''py7zr'',
        ''pyfatfs'', ''ext4'', ''sqlar'', ''SQLiteIndex'']
   \<and> fst (openMountSource disk_env (Path ''a.zip'')
              [''prioritizedBackends'' \<mapsto> PList [''Z''], ''printDebug'' \<mapsto> PInt 1] start)
     = Inl (CompressionError ''Archive to open (a.zip) has unrecognized format!'')
   \<and> Print ''[Info] Skipping unknown compression backend: Z''
       \<in> set (new_lines start
            (snd (openMountSource disk_env (Path ''a.zip'')
              [''prioritizedBackends'' \<mapsto> PList [''Z''], ''printDebug'' \<mapsto> PInt 1] start)))
   \<and> map fst (probes (new_events start
      (snd (openMountSource tar_env (Path ''a.zip'')
              [''prioritizedBackends'' \<mapsto> PList [''rarfile'', ''Z'', ''tarfile''],
               ''printDebug'' \<mapsto> PInt 1] start))))
     = [''rarfile'', ''tarfile'']
   \<and> fst (openMountSource tar_env (Path ''a.zip'')
              [''prioritizedBackends'' \<mapsto> PList [''rarfile'', ''Z'', ''tarfile''],
               ''printDebug'' \<mapsto> PInt 1] start)
     = Inr (Archive SQLiteIndexedTar 0)
   \<and> Print ''[Info] Skipping unknown compression backend: Z''
       \<in> set (new_lines start
            (snd (openMountSource tar_env (Path ''a.zip'')
              [''prioritizedBackends'' \<mapsto> PList [''rarfile'', ''Z'', ''tarfile''],
               ''printDebug'' \<mapsto> PInt 1] start)))"
proof -
  let ?o = "[''prioritizedBackends'' \<mapsto> PList [''Z''], ''printDebug'' \<mapsto> PInt 1]"
  let ?run = "openMountSource disk_env (Path ''a.zip'') ?o start"
  let ?auto = "\<lambda>env. map fst (filter (\<lambda>(backend, value). matchesExtension ''a.zip'' (snd value))
                                 (BACKENDS env))"
  have ti: "trial_input disk_env (Path ''a.zip'') ?o start
              = Some (Path ''a.zip'', ?o, ?auto disk_env, [], start)"
    by (rule trial_input_local_file) (simp_all add: disk_env_def bare_env_def str_eval)
  have gp: "get_prioritizedBackends ?o = Some [''Z'']" by (simp add: get_prioritizedBackends_def)
  have run: "?run = (fst ?run, snd ?run)" by simp
  have z: "''Z'' \<in> set [''Z'']" "map_of (BACKENDS disk_env) ''Z'' = None"
    "''Z'' \<notin> set (tarCompressionBackends disk_env)"
    by (simp_all add: BACKENDS_def tarCompressionBackends_def disk_env_def bare_env_def)
  have pd: "get_printDebug ?o \<ge> 1" "hd [''Z''] = ''Z''" by (simp_all add: get_printDebug_def)
  have fails: "\<forall>x \<in> set (outcomes (new_events start (snd ?run))). \<not> succeeded (snd x)"
    by (simp add: path_eval disk_env_def zip_info_def)
  note T = unknown_priority_backend_is_skipped [OF ti gp z run]
  have C: "to_try disk_env (tarCompressionBackends disk_env) {}
             (removeAll ''Z'' [''Z''] @ ?auto disk_env @ map fst (BACKENDS disk_env))
     = [''zipfile'', ''rarfile'', ''tarfile'', ''pysquashfsimage'', ''libarchive'', ''py7zr'',
        ''pyfatfs'', ''ext4'', ''sqlar'', ''SQLiteIndex'']"
    by (simp add: to_try_def canonical_def tarCompressionBackends_def BACKENDS_def disk_env_def
          bare_env_def zip_info_def getFormatExtensions_def getTarExtensions_def str_eval)
  have res: "fst ?run = Inl (CompressionError ''Archive to open (a.zip) has unrecognized format!'')"
    by (simp add: path_eval disk_env_def zip_info_def)
  note T4 = T [THEN conjunct2, THEN conjunct2, THEN conjunct2, THEN conjunct1]
  note T10 = T [THEN conjunct2, THEN conjunct2, THEN conjunct2, THEN conjunct2, THEN conjunct2,
                THEN conjunct2, THEN conjunct2, THEN conjunct2, THEN conjunct2]
  have A: "map fst (probes (new_events start (snd ?run)))
      = [''zipfile'', ''rarfile'', ''tarfile'', ''pysquashfsimage'', ''libarchive'', ''py7zr'',
        ''pyfatfs'', ''ext4'', ''sqlar'', ''SQLiteIndex'']"
    using T4 fails unfolding C by blast
  have L: "Print ''[Info] Skipping unknown compression backend: Z''
       \<in> set (new_lines start (snd ?run))"
    using T10 pd by simp
  let ?o2 = "[''prioritizedBackends'' \<mapsto> PList [''rarfile'', ''Z'', ''tarfile''],
              ''printDebug'' \<mapsto> PInt 1]"
  let ?run2 = "openMountSource tar_env (Path ''a.zip'') ?o2 start"
  have ti2: "trial_input tar_env (Path ''a.zip'') ?o2 start
              = Some (Path ''a.zip'', ?o2, ?auto tar_env, [], start)"
    by (rule trial_input_local_file) (simp_all add: tar_env_def disk_env_def bare_env_def str_eval)
  have gp2: "get_prioritizedBackends ?o2 = Some [''rarfile'', ''Z'', ''tarfile'']"
    by (simp add: get_prioritizedBackends_def)
  have run2: "?run2 = (fst ?run2, snd ?run2)" by simp
  have z2: "''Z'' \<in> set [''rarfile'', ''Z'', ''tarfile'']" "map_of (BACKENDS tar_env) ''Z'' = None"
    "''Z'' \<notin> set (tarCompressionBackends tar_env)"
    by (simp_all add: BACKENDS_def tarCompressionBackends_def tar_env_def disk_env_def bare_env_def)
  have pd2: "get_printDebug ?o2 \<ge> 1" by (simp add: get_printDebug_def)
  have O2: "outcomes (new_events start (snd ?run2))
      = [(''rarfile'', Inr None), (''tarfile'', Inr (Some (Archive SQLiteIndexedTar 0)))]"
    by (simp add: path_eval tar_env_def disk_env_def zip_info_def)
  have P2: "map fst (probes (new_events start (snd ?run2))) = [''rarfile'', ''tarfile'']"
    by (simp add: path_eval tar_env_def disk_env_def zip_info_def)
  have before: "\<forall>x \<in> set (outcomes (new_events start (snd ?run2))). succeeded (snd x) \<longrightarrow>
      fst x \<notin> set (map (canonical (tarCompressionBackends tar_env))
                      (takeWhile (\<lambda>n. n \<noteq> ''Z'') [''rarfile'', ''Z'', ''tarfile'']))"
    unfolding O2
    by (simp add: canonical_def tarCompressionBackends_def tar_env_def disk_env_def bare_env_def)
  note T2 = unknown_priority_backend_is_skipped [OF ti2 gp2 z2 run2]
  note T5 = T2 [THEN conjunct2, THEN conjunct2, THEN conjunct2, THEN conjunct2, THEN conjunct1]
  note T8 = T2 [THEN conjunct2, THEN conjunct2, THEN conjunct2, THEN conjunct2, THEN conjunct2,
                THEN conjunct2, THEN conjunct2, THEN conjunct1]
  have R2: "fst ?run2 = Inr (Archive SQLiteIndexedTar 0)"
    using T5 unfolding O2 by simp
  have L2: "Print ''[Info] Skipping unknown compression backend: Z''
       \<in> set (new_lines start (snd ?run2))"
    using mp [OF mp [OF T8 pd2] before] by simp
  show ?thesis using A res L P2 R2 L2 by (intro conjI)
qed

text \<open>
  C10. When a URL resolves to a file object and the options have no \<open>tarFileName\<close>,
  every probe receives that file object and the options with \<open>tarFileName\<close> set to the URL.
  The TAR backend, given a path and options with \<open>tarFileName\<close>, calls its constructor
  with the options without that key. And whatever a backend does with its own copy, every
  probe of a call receives the same options: those of the caller are unchanged.
\<close>

theorem tarFileName_injected_and_removed:
  "(contains ''://'' url \<and> tryOpenURL env url (get_printDebug opts) s = (Inr (OpenedFile f), s1)
      \<and> ''tarFileName'' \<notin> dom opts \<and> openMountSource env (Path url) opts s = (r, s') \<longrightarrow>
      (\<forall>x \<in> set (probes (new_events s s')).
          fst (snd x) = File f \<and> fst (snd (snd x)) = opts(''tarFileName'' \<mapsto> PStr url)))
   \<and> (''tarFileName'' \<in> dom opts2 \<longrightarrow>
        openTarMountSource env (Path p) opts2 s2 =
          (case construct env SQLiteIndexedTar (Path p) (opts2(''tarFileName'' := None)) (world s2) of
             (rr, w) \<Rightarrow>
               (map_sum id Some rr,
                s2\<lparr>world := w,
                   trace := trace s2 @ [Construct SQLiteIndexedTar (Path p)
                                          (opts2(''tarFileName'' := None))]\<rparr>)))
   \<and> (trial_input env src3 opts3 s3 = Some (src', opts', auto, joined, s4)
        \<and> openMountSource env src3 opts3 s3 = (r3, s5) \<longrightarrow>
        (\<forall>x \<in> set (probes (new_events s3 s5)). fst (snd (snd x)) = opts'))"
proof (intro conjI impI)
  assume a: "contains ''://'' url \<and> tryOpenURL env url (get_printDebug opts) s = (Inr (OpenedFile f), s1)
      \<and> ''tarFileName'' \<notin> dom opts \<and> openMountSource env (Path url) opts s = (r, s')"
  then have ti: "trial_input env (Path url) opts s
      = Some (File f, opts(''tarFileName'' \<mapsto> PStr url), [], [], s1)"
    using trial_input_url_file [of url env opts s f s1] by simp
  show "\<forall>x \<in> set (probes (new_events s s')).
          fst (snd x) = File f \<and> fst (snd (snd x)) = opts(''tarFileName'' \<mapsto> PStr url)"
    using probes_get_trial_input [OF ti] a by blast
next
  assume "''tarFileName'' \<in> dom opts2"
  then show "openTarMountSource env (Path p) opts2 s2 =
          (case construct env SQLiteIndexedTar (Path p) (opts2(''tarFileName'' := None)) (world s2) of
             (rr, w) \<Rightarrow>
               (map_sum id Some rr,
                s2\<lparr>world := w,
                   trace := trace s2 @ [Construct SQLiteIndexedTar (Path p)
                                          (opts2(''tarFileName'' := None))]\<rparr>))"
    by (rule openTar_path_with_tarFileName)
next
  assume "trial_input env src3 opts3 s3 = Some (src', opts', auto, joined, s4)
        \<and> openMountSource env src3 opts3 s3 = (r3, s5)"
  then show "\<forall>x \<in> set (probes (new_events s3 s5)). fst (snd (snd x)) = opts'"
    using probes_get_trial_input [of env src3 opts3 s3 src' opts' auto joined s4 r3 s5] by blast
qed

theorem tarFileName_injected_and_removed_witness:
  "map (\<lambda>x. (fst x, fst (snd x), fst (snd (snd x)) ''tarFileName''))
       (probes (new_events start (snd (openMountSource ssh_env (Path ''ssh://host/a.tar'') Map.empty start))))
     = map (\<lambda>n. (n, File (Handle 1), Some (PStr ''ssh://host/a.tar'')))
         [''rarfile'', ''tarfile'', ''zipfile'', ''pysquashfsimage'', ''libarchive'', ''py7zr'',
          ''pyfatfs'', ''ext4'', ''sqlar'', ''SQLiteIndex'']
   \<and> new_events start (snd (openTarMountSource ssh_env (Path ''a.tar'')
                                [''tarFileName'' \<mapsto> PStr ''b.tar''] start))
       = [Construct SQLiteIndexedTar (Path ''a.tar'') Map.empty]"
proof -
  let ?run = "openMountSource ssh_env (Path ''ssh://host/a.tar'') Map.empty start"
  define s1 where "s1 = start\<lparr>trace := [SSH ''FixedSSHFileSystem'' ''ssh://host/a.tar'',
                         Fs ''exists'' (FixedSSHFileSystem ''ssh://host/a.tar'') ''a.tar'',
                         Fs ''isfile'' (FixedSSHFileSystem ''ssh://host/a.tar'') ''a.tar'',
                         Fs ''open'' (FixedSSHFileSystem ''ssh://host/a.tar'') ''a.tar'']\<rparr>"
  have c: "contains ''://'' ''ssh://host/a.tar''" by (simp add: str_eval)
  have o: "tryOpenURL ssh_env ''ssh://host/a.tar'' (get_printDebug Map.empty) start
     = (Inr (OpenedFile (Handle 1)), s1)"
    using ssh_opens by (simp add: get_printDebug_def s1_def)
  have run: "?run = (fst ?run, snd ?run)" by simp
  note T = tarFileName_injected_and_removed [of "''ssh://host/a.tar''" ssh_env Map.empty start
      "Handle 1" s1 "fst ?run" "snd ?run" "[''tarFileName'' \<mapsto> PStr ''b.tar'']" "''a.tar''" start]
  have ti: "trial_input ssh_env (Path ''ssh://host/a.tar'') Map.empty start
      = Some (File (Handle 1), [''tarFileName'' \<mapsto> PStr ''ssh://host/a.tar''], [], [], s1)"
    using trial_input_url_file [OF c o] by simp
  have eq: "?run = run_trial ssh_env 0 (File (Handle 1)) [''tarFileName'' \<mapsto> PStr ''ssh://host/a.tar'']
                     [] [] s1"
    using trial_input_SomeD(1) [OF ti] by (simp add: get_printDebug_def)
  have names: "map fst (probes (new_events start (snd ?run)))
     = [''rarfile'', ''tarfile'', ''zipfile'', ''pysquashfsimage'', ''libarchive'', ''py7zr'',
          ''pyfatfs'', ''ext4'', ''sqlar'', ''SQLiteIndex'']"
    unfolding eq by (simp add: run_eval ssh_env_def s1_def)
  from T c o run have all: "\<forall>x \<in> set (probes (new_events start (snd ?run))).
          fst (snd x) = File (Handle 1) \<and> fst (snd (snd x)) = [''tarFileName'' \<mapsto> PStr ''ssh://host/a.tar'']"
    by simp
  have A: "map (\<lambda>x. (fst x, fst (snd x), fst (snd (snd x)) ''tarFileName''))
       (probes (new_events start (snd ?run)))
     = map (\<lambda>n. (n, File (Handle 1), Some (PStr ''ssh://host/a.tar'')))
         (map fst (probes (new_events start (snd ?run))))"
    using all by simp
  have d: "''tarFileName'' \<in> dom [''tarFileName'' \<mapsto> PStr ''b.tar'']" by simp
  from T d have B: "openTarMountSource ssh_env (Path ''a.tar'') [''tarFileName'' \<mapsto> PStr ''b.tar''] start =
          (case construct ssh_env SQLiteIndexedTar (Path ''a.tar'')
                  ([''tarFileName'' \<mapsto> PStr ''b.tar''](''tarFileName'' := None)) (world start) of
             (rr, w) \<Rightarrow>
               (map_sum id Some rr,
                start\<lparr>world := w,
                   trace := trace start @ [Construct SQLiteIndexedTar (Path ''a.tar'')
                                          ([''tarFileName'' \<mapsto> PStr ''b.tar''](''tarFileName'' := None))]\<rparr>))"
    by blast
  have B': "new_events start (snd (openTarMountSource ssh_env (Path ''a.tar'')
                                [''tarFileName'' \<mapsto> PStr ''b.tar''] start))
       = [Construct SQLiteIndexedTar (Path ''a.tar'') Map.empty]"
    unfolding B by (simp add: ssh_env_def bare_env_def start_def new_events_def)
  show ?thesis using A names B' by simp
qed

text \<open>
  C3, amended. Take a call that gets to the trial with the source \<open>src'\<close>, the priority
  option being a list. Every candidate is probed, in order and with \<open>src'\<close>, unless a probe
  succeeds, and a probe that succeeds gives the result of the call. The call raises the
  unrecognized-format error exactly when all candidates have been probed, none has
  succeeded and there is no joined file with a non-empty name to fall back on; it raises
  no other error. The error names \<open>src'\<close>: the source of the caller when that is a file
  object or a path that is no URL and still a path, but what the URL was resolved to when
  the source is a URL.
\<close>

theorem unrecognized_format_error:
  assumes "trial_input env src opts s = Some (src', opts', auto, joined, s1)"
    and "get_prioritizedBackends opts' = Some prio"
    and "openMountSource env src opts s = (r, s')"
  shows "(r = Inl (CompressionError
                    (''Archive to open ('' @ str_source env src' @ '') has unrecognized format!'')))
         = (map fst (probes (new_events s s'))
              = to_try env (tarCompressionBackends env) {} (prio @ auto @ map fst (BACKENDS env))
            \<and> (\<forall>x \<in> set (outcomes (new_events s s')). \<not> succeeded (snd x))
            \<and> (is_str src' \<or> joined = []))
    \<and> map fst (outcomes (new_events s s')) = map fst (probes (new_events s s'))
    \<and> ((\<forall>x \<in> set (outcomes (new_events s s')). \<not> succeeded (snd x)) \<longrightarrow>
           map fst (probes (new_events s s'))
             = to_try env (tarCompressionBackends env) {} (prio @ auto @ map fst (BACKENDS env)))
    \<and> (\<forall>x \<in> set (probes (new_events s s')). fst (snd x) = src' \<and> fst (snd (snd x)) = opts')
    \<and> (\<forall>x \<in> set (outcomes (new_events s s')). \<forall>m. snd x = Inr (Some m) \<longrightarrow> r = Inr m)
    \<and> (\<forall>e. r = Inl e \<longrightarrow>
           e = CompressionError
                 (''Archive to open ('' @ str_source env src' @ '') has unrecognized format!''))
    \<and> (\<forall>f. src = File f \<longrightarrow> src' = src)
    \<and> (\<forall>p. src = Path p \<and> \<not> contains ''://'' p \<and> is_str src' \<longrightarrow> src' = src)"
proof (intro conjI)
  show "(r = Inl (CompressionError
                    (''Archive to open ('' @ str_source env src' @ '') has unrecognized format!'')))
         = (map fst (probes (new_events s s'))
              = to_try env (tarCompressionBackends env) {} (prio @ auto @ map fst (BACKENDS env))
            \<and> (\<forall>x \<in> set (outcomes (new_events s s')). \<not> succeeded (snd x))
            \<and> (is_str src' \<or> joined = []))"
    using unrecognized_format_facts [OF assms] .
  show "map fst (outcomes (new_events s s')) = map fst (probes (new_events s s'))"
    using probe_exception_parts(1) [OF assms] .
  show "(\<forall>x \<in> set (outcomes (new_events s s')). \<not> succeeded (snd x)) \<longrightarrow>
           map fst (probes (new_events s s'))
             = to_try env (tarCompressionBackends env) {} (prio @ auto @ map fst (BACKENDS env))"
    using trial_parts(1) [OF assms] .
  show "\<forall>x \<in> set (probes (new_events s s')). fst (snd x) = src' \<and> fst (snd (snd x)) = opts'"
    using trial_parts(3) [OF assms] .
  show "\<forall>x \<in> set (outcomes (new_events s s')). \<forall>m. snd x = Inr (Some m) \<longrightarrow> r = Inr m"
    using trial_parts(2) [OF assms] .
  show "\<forall>e. r = Inl e \<longrightarrow>
           e = CompressionError
                 (''Archive to open ('' @ str_source env src' @ '') has unrecognized format!'')"
    using unrecognized_format_parts(2) [OF assms] .
  show "\<forall>f. src = File f \<longrightarrow> src' = src"
    using assms(1) trial_input_File_src by metis
  show "\<forall>p. src = Path p \<and> \<not> contains ''://'' p \<and> is_str src' \<longrightarrow> src' = src"
  proof (intro allI impI)
    fix p assume a: "src = Path p \<and> \<not> contains ''://'' p \<and> is_str src'"
    then obtain q where q: "src' = Path q" by (cases src') auto
    then show "src' = src" using a assms(1) trial_input_Path_src by metis
  qed
qed

theorem unrecognized_format_error_witness:
  "fst (openMountSource disk_env (Path ''a.bin'') Map.empty start)
     = Inl (CompressionError ''Archive to open (a.bin) has unrecognized format!'')
   \<and> map fst (probes (new_events start
        (snd (openMountSource disk_env (Path ''a.bin'') Map.empty start))))
     = [''rarfile'', ''tarfile'', ''zipfile'', ''pysquashfsimage'', ''libarchive'', ''py7zr'',
        ''pyfatfs'', ''ext4'', ''sqlar'', ''SQLiteIndex'']"
proof -
  let ?run = "openMountSource disk_env (Path ''a.bin'') Map.empty start"
  let ?auto = "map fst (filter (\<lambda>(backend, value). matchesExtension ''a.bin'' (snd value))
                                 (BACKENDS disk_env))"
  have ti: "trial_input disk_env (Path ''a.bin'') Map.empty start
              = Some (Path ''a.bin'', Map.empty, ?auto, [], start)"
    by (rule trial_input_local_file) (simp_all add: disk_env_def bare_env_def str_eval)
  have gp: "get_prioritizedBackends Map.empty = Some []" by (simp add: get_prioritizedBackends_def)
  have run: "?run = (fst ?run, snd ?run)" by simp
  have eq: "?run = run_trial disk_env 0 (Path ''a.bin'') Map.empty ?auto [] start"
    using trial_input_SomeD(1) [OF ti] by (simp add: get_printDebug_def)
  have fails: "\<forall>x \<in> set (outcomes (new_events start (snd ?run))). \<not> succeeded (snd x)"
    unfolding eq by (simp add: path_eval disk_env_def zip_info_def)
  have C: "to_try disk_env (tarCompressionBackends disk_env) {}
             ([] @ ?auto @ map fst (BACKENDS disk_env))
     = [''rarfile'', ''tarfile'', ''zipfile'', ''pysquashfsimage'', ''libarchive'', ''py7zr'',
        ''pyfatfs'', ''ext4'', ''sqlar'', ''SQLiteIndex'']"
    by (simp add: to_try_def canonical_def tarCompressionBackends_def BACKENDS_def disk_env_def
          bare_env_def zip_info_def getFormatExtensions_def getTarExtensions_def str_eval)
  note T = unrecognized_format_error [OF ti gp run]
  from T fails have P: "map fst (probes (new_events start (snd ?run)))
      = to_try disk_env (tarCompressionBackends disk_env) {}
          ([] @ ?auto @ map fst (BACKENDS disk_env))" by blast
  have "fst ?run = Inl (CompressionError
          (''Archive to open ('' @ str_source disk_env (Path ''a.bin'') @ '') has unrecognized format!''))"
    by (rule iffD2 [OF conjunct1 [OF T]]) (simp add: fails P)
  then show ?thesis using P unfolding C by simp
qed

text \<open>
  C3 as stated fails for a URL: the error names the path behind \<open>file://\<close>, or the file
  object that the URL was opened as, and not the URL that the caller gave.
\<close>

theorem unrecognized_format_counterexample:
  "fst (openMountSource disk_env (Path ''file:///tmp/a.bin'') Map.empty start)
     = Inl (CompressionError ''Archive to open (/tmp/a.bin) has unrecognized format!'')
   \<and> fst (openMountSource ssh_env (Path ''ssh://host/a.tar'') Map.empty start)
     = Inl (CompressionError ''Archive to open (<sshfs.file.SSHFile object>) has unrecognized format!'')"
proof -
  have c: "contains ''://'' ''file:///tmp/a.bin''" by (simp add: str_eval)
  have o: "tryOpenURL disk_env ''file:///tmp/a.bin'' (get_printDebug Map.empty) start
     = (Inr (OpenedPath ''/tmp/a.bin''), start)"
    by (simp add: url_eval get_printDebug_def start_def)
  have ti: "trial_input disk_env (Path ''file:///tmp/a.bin'') Map.empty start
      = Some (Path ''/tmp/a.bin'', Map.empty,
              map fst (filter (\<lambda>(backend, value). matchesExtension ''/tmp/a.bin'' (snd value))
                         (BACKENDS disk_env)), [], start)"
    by (rule trial_input_url_path [OF c o]) (simp_all add: disk_env_def bare_env_def)
  have A: "fst (openMountSource disk_env (Path ''file:///tmp/a.bin'') Map.empty start)
     = Inl (CompressionError ''Archive to open (/tmp/a.bin) has unrecognized format!'')"
    unfolding trial_input_SomeD(1) [OF ti]
    by (simp add: path_eval disk_env_def zip_info_def)
  define s1 where "s1 = start\<lparr>trace := [SSH ''FixedSSHFileSystem'' ''ssh://host/a.tar'',
                         Fs ''exists'' (FixedSSHFileSystem ''ssh://host/a.tar'') ''a.tar'',
                         Fs ''isfile'' (FixedSSHFileSystem ''ssh://host/a.tar'') ''a.tar'',
                         Fs ''open'' (FixedSSHFileSystem ''ssh://host/a.tar'') ''a.tar'']\<rparr>"
  have c2: "contains ''://'' ''ssh://host/a.tar''" by (simp add: str_eval)
  have o2: "tryOpenURL ssh_env ''ssh://host/a.tar'' (get_printDebug Map.empty) start
     = (Inr (OpenedFile (Handle 1)), s1)"
    using ssh_opens by (simp add: get_printDebug_def s1_def)
  have ti2: "trial_input ssh_env (Path ''ssh://host/a.tar'') Map.empty start
      = Some (File (Handle 1), [''tarFileName'' \<mapsto> PStr ''ssh://host/a.tar''], [], [], s1)"
    using trial_input_url_file [OF c2 o2] by simp
  have B: "fst (openMountSource ssh_env (Path ''ssh://host/a.tar'') Map.empty start)
     = Inl (CompressionError ''Archive to open (<sshfs.file.SSHFile object>) has unrecognized format!'')"
    unfolding trial_input_SomeD(1) [OF ti2]
    by (simp add: run_eval ssh_env_def s1_def)
  show ?thesis using A B by simp
qed

text \<open>
  C5, amended. Take a path that is a shard of a split file with the parts
  \<open>first # others\<close>, the priority option being a list. Every probe receives the joined
  file. When no probe succeeds, all candidates have been probed (none is put first for an
  extension), and the call returns the joined file as a single file named after the first
  part without its last extension, if that name is not empty; if it is empty the call
  raises the unrecognized-format error.
\<close>

theorem joined_file_fallback:
  assumes "\<not> contains ''://'' p" and "os_path_exists env p (world s)"
    and "\<not> os_path_isdir env p (world s)"
    and "checkForSplitFile env p (world s) = Some (first # others)"
    and "get_prioritizedBackends opts = Some prio"
    and "openMountSource env (Path p) opts s = (r, s')"
  shows "((\<forall>x \<in> set (outcomes (new_events s s')). \<not> succeeded (snd x)) \<longrightarrow>
         r = (if rsplit1_head (basename first) \<noteq> []
              then Inr (SingleFileMountSource (rsplit1_head (basename first))
                          (JoinedFileFromFactory (first # others)))
              else Inl (CompressionError
                          (''Archive to open ('' @ str_file env (JoinedFileFromFactory (first # others))
                           @ '') has unrecognized format!''))))
    \<and> ((\<forall>x \<in> set (outcomes (new_events s s')). \<not> succeeded (snd x)) \<longrightarrow>
         map fst (probes (new_events s s'))
           = to_try env (tarCompressionBackends env) {} (prio @ map fst (BACKENDS env)))
    \<and> (\<forall>x \<in> set (probes (new_events s s')). fst (snd x) = File (JoinedFileFromFactory (first # others)))"
  using joined_file_parts [OF assms] by (intro conjI)

theorem joined_file_fallback_witness:
  "fst (openMountSource (shards_env [''/d/big.tar.001'', ''/d/big.tar.002''])
          (Path ''/d/big.tar.001'') Map.empty start)
     = Inr (SingleFileMountSource ''big.tar''
              (JoinedFileFromFactory [''/d/big.tar.001'', ''/d/big.tar.002'']))"
proof -
  let ?env = "shards_env [''/d/big.tar.001'', ''/d/big.tar.002'']"
  let ?run = "openMountSource ?env (Path ''/d/big.tar.001'') Map.empty start"
  have p: "\<not> contains ''://'' ''/d/big.tar.001''" "os_path_exists ?env ''/d/big.tar.001'' (world start)"
    "\<not> os_path_isdir ?env ''/d/big.tar.001'' (world start)"
    "checkForSplitFile ?env ''/d/big.tar.001'' (world start) = Some (''/d/big.tar.001'' # [''/d/big.tar.002''])"
    by (simp_all add: shards_env_def bare_env_def str_eval)
  have gp: "get_prioritizedBackends Map.empty = Some []" by (simp add: get_prioritizedBackends_def)
  have run: "?run = (fst ?run, snd ?run)" by simp
  have fails: "\<forall>x \<in> set (outcomes (new_events start (snd ?run))). \<not> succeeded (snd x)"
    by (simp add: shard_eval)
  have n: "rsplit1_head (basename ''/d/big.tar.001'') = ''big.tar''"
    by (simp add: rsplit1_head_def basename_def)
  from conjunct1 [OF joined_file_fallback [OF p gp run]] fails
  have "fst ?run = (if rsplit1_head (basename ''/d/big.tar.001'') \<noteq> []
              then Inr (SingleFileMountSource (rsplit1_head (basename ''/d/big.tar.001''))
                          (JoinedFileFromFactory (''/d/big.tar.001'' # [''/d/big.tar.002''])))
              else Inl (CompressionError
                          (''Archive to open ('' @ str_file ?env (JoinedFileFromFactory (''/d/big.tar.001'' # [''/d/big.tar.002'']))
                           @ '') has unrecognized format!'')))"
    by blast
  then show ?thesis unfolding n by simp
qed

text \<open>
  C5 as stated fails when the name of the first part begins with its only dot: line 477
  tests \<open>joinedFileName\<close>, which is empty then, and the error is raised.
\<close>

theorem joined_file_counterexample:
  "checkForSplitFile (shards_env [''/d/.001'', ''/d/.002'']) ''/d/.001'' (world start)
     = Some [''/d/.001'', ''/d/.002'']
   \<and> fst (openMountSource (shards_env [''/d/.001'', ''/d/.002'']) (Path ''/d/.001'') Map.empty start)
     = Inl (CompressionError ''Archive to open (<file>) has unrecognized format!'')"
  by (simp add: shard_eval)







end
